theory Spec2Isabelle
  imports Main "HOL-Library.Sublist"
begin

section \<open>JavaScript strings, arrays and Map\<close>

text \<open>
  A JavaScript string is modelled as a \<^typ>\<open>string\<close>, one \<^typ>\<open>char\<close> per code unit.
  A path is a string; a string is truthy when it is not empty.
\<close>

type_synonym path = string

definition truthy :: "string \<Rightarrow> bool" where
  "truthy s = (s \<noteq> [])"

text \<open>
  \<^verbatim>\<open>String.prototype.split(sep)\<close>: the segments between the non-overlapping occurrences
  of \<open>sep\<close>, scanned left to right. \<open>split_from sep acc k s\<close> scans \<open>s\<close>, with \<open>acc\<close> the
  current segment (reversed) and \<open>k\<close> the characters of a matched separator still to skip.
\<close>

fun split_from :: "string \<Rightarrow> string \<Rightarrow> nat \<Rightarrow> string \<Rightarrow> string list" where
  "split_from sep acc k [] = [rev acc]"
| "split_from sep acc (Suc k) (c # cs) = split_from sep acc k cs"
| "split_from sep acc 0 (c # cs) =
     (if prefix sep (c # cs) then rev acc # split_from sep [] (length sep - 1) cs
      else split_from sep (c # acc) 0 cs)"

definition split :: "string \<Rightarrow> string \<Rightarrow> string list" where
  "split s sep = (if sep = [] then map (\<lambda>c. [c]) s else split_from sep [] 0 s)"

text \<open>\<^verbatim>\<open>Array.prototype.join(sep)\<close> on an array of strings.\<close>

fun join :: "string list \<Rightarrow> string \<Rightarrow> string" where
  "join [] sep = []"
| "join [x] sep = x"
| "join (x # y # ys) sep = x @ sep @ join (y # ys) sep"

text \<open>
  \<^verbatim>\<open>lines.splice(start, 0, item)\<close> for an integer \<open>start\<close>: a negative start counts from
  the end (clamped at 0) and a start past the end is clamped to the length.
\<close>

definition splice_insert :: "'a list \<Rightarrow> int \<Rightarrow> 'a \<Rightarrow> 'a list" where
  "splice_insert xs start item =
     (let n = (if start < 0 then nat (max 0 (int (length xs) + start)) else nat start)
      in take n xs @ [item] @ drop n xs)"

text \<open>\<^verbatim>\<open>s.split('.').pop()\<close>: the text after the last dot, the whole string without one.\<close>

definition extension :: "string \<Rightarrow> string" where
  "extension s = last (split s ''.'')"

text \<open>
  A JavaScript \<^verbatim>\<open>Map\<close> keeps its keys in insertion order: an association list with
  distinct keys. \<^verbatim>\<open>set\<close> on a present key replaces the value in place, on a new key it
  appends; \<^verbatim>\<open>keys().next().value\<close> is the first key, \<^verbatim>\<open>undefined\<close> on an empty map.
\<close>

definition map_has :: "('k \<times> 'v) list \<Rightarrow> 'k \<Rightarrow> bool" where
  "map_has m k = (map_of m k \<noteq> None)"

definition map_get :: "('k \<times> 'v) list \<Rightarrow> 'k \<Rightarrow> 'v option" where
  "map_get m k = map_of m k"

fun map_set :: "('k \<times> 'v) list \<Rightarrow> 'k \<Rightarrow> 'v \<Rightarrow> ('k \<times> 'v) list" where
  "map_set [] k v = [(k, v)]"
| "map_set ((k', v') # m) k v =
     (if k' = k then (k, v) # m else (k', v') # map_set m k v)"

definition map_delete :: "('k \<times> 'v) list \<Rightarrow> 'k \<Rightarrow> ('k \<times> 'v) list" where
  "map_delete m k = filter (\<lambda>kv. fst kv \<noteq> k) m"

definition map_keys :: "('k \<times> 'v) list \<Rightarrow> 'k list" where
  "map_keys m = map fst m"

definition first_key :: "('k \<times> 'v) list \<Rightarrow> 'k option" where
  "first_key m = (case m of [] \<Rightarrow> None | kv # _ \<Rightarrow> Some (fst kv))"

section \<open>Errors\<close>

text \<open>
  A thrown value: an \<^verbatim>\<open>Error\<close> made by the program with its message, or the
  \<^verbatim>\<open>TypeError\<close> of the engine when a property of \<^verbatim>\<open>undefined\<close> is read (the
  message is the engine's, here in V8's wording).
\<close>

datatype error = Err string | TypeErr string

fun message :: "error \<Rightarrow> string" where
  "message (Err m) = m"
| "message (TypeErr m) = m"

definition undefined_read :: "string \<Rightarrow> error" where
  "undefined_read prop =
     TypeErr (''Cannot read properties of undefined (reading '' @ [CHR 0x27] @ prop @ [CHR 0x27] @ '')'')"

section \<open>The editor session (editor.js)\<close>

text \<open>
  The view state of the editor widget is opaque. A file handle of the browser's File System
  Access API names the entry it was resolved from. A Monaco text model is an object of
  the heap \<open>models\<close>, referred to by its index: the session and the editor widget share it.
\<close>

type_synonym viewState = nat

datatype handle = FileHandle path

fun handle_path :: "handle \<Rightarrow> path" where
  "handle_path (FileHandle p) = p"

datatype language = LanguageId string | InheritedMember string

record model =
  m_value :: string
  m_language :: language
  m_disposed :: bool

record fileData =
  fd_handle :: handle
  fd_name :: string
  fd_model :: nat
  fd_viewState :: "viewState option"

record editor =
  ed_model :: nat
  ed_readOnly :: bool
  ed_view :: viewState
  ed_selection :: "(nat \<times> nat) option"

record tab =
  tab_path :: path
  tab_text :: string
  tab_active :: bool

datatype focus = FocusNowhere | FocusEditor | FocusChatInput

record fileSnap =
  snap_path :: path
  snap_content :: string
  snap_viewState :: "viewState option"

record editorState =
  es_openFiles :: "fileSnap list"
  es_activeFile :: "path option"

record checkpoint =
  cp_name :: string
  cp_editorState :: editorState
  cp_timestamp :: int

section \<open>The world and the collaborators\<close>

text \<open>
  The state of the page. \<open>fs\<close> is the text of the files of the opened project folder by
  path; \<open>editor\<close>, \<open>openFiles\<close> and \<open>activeFilePath\<close> are the module variables of
  editor.js, with \<open>editor\<close> undefined until \<^verbatim>\<open>initializeEditor\<close> has run; \<open>tabBar\<close> is
  the content of the tab strip element; \<open>focus\<close> says where the input focus is;
  \<open>checkpoints\<close> and \<open>codeIndex\<close> are the two stores behind \<^verbatim>\<open>DbManager\<close>; \<open>trace\<close>
  is the sequence of calls made to collaborators outside the two source files (console,
  UI, persistence, network, file system), in order.
\<close>

datatype json =
    JUndefined | JNull | JBool bool | JNum int | JStr string
  | JArr "json list" | JObj "(string \<times> json) list"

type_synonym jsobject = "(string \<times> json) list"

record args =
  filename :: "string option"
  content :: "string option"
  line_number :: "int option"
  url :: "string option"
  folder_path :: "string option"
  old_folder_path :: "string option"
  new_folder_path :: "string option"
  old_path :: "string option"
  new_path :: "string option"
  query :: "string option"
  search_term :: "string option"
  new_text :: "string option"
  command :: "string option"

datatype event =
    ConsoleError string string
  | ConsoleLog string jsobject
  | ConsoleGroup string
  | ConsoleGroupEnd
  | SaveCheckpoint checkpoint
  | SaveCodeIndex json
  | GetCodeIndex
  | ResolveHandle path bool
  | ReadFile path
  | WriteFile path string
  | RemoveEntry path bool
  | RenameEntry "string option" "string option"
  | CreateDirectory "string option"
  | BuildStructureTree
  | SearchInDirectory "string option"
  | BuildIndex
  | QueryIndex "string option"
  | Fetch string args
  | RefreshFileTree
  | AppendMessage string
  | AppendToolLog string args
  | UpdateToolLog bool
  | PrettierRequest string string
  | AcornParse string
  | GetModelMarkers nat

record world =
  fs :: "path \<rightharpoonup> string"
  editor :: "editor option"
  models :: "model list"
  openFiles :: "(path \<times> fileData) list"
  activeFilePath :: "path option"
  tabBar :: "tab list"
  focus :: focus
  checkpoints :: "checkpoint list"
  codeIndex :: "json option"
  trace :: "event list"

text \<open>A computation reads and changes the world and returns a value or throws.\<close>

type_synonym 'a prog = "world \<Rightarrow> (error + 'a) \<times> world"

definition returnE :: "'a \<Rightarrow> 'a prog" where
  "returnE v = (\<lambda>w. (Inr v, w))"

definition throwE :: "error \<Rightarrow> 'a prog" where
  "throwE e = (\<lambda>w. (Inl e, w))"

definition bindE :: "'a prog \<Rightarrow> ('a \<Rightarrow> 'b prog) \<Rightarrow> 'b prog" where
  "bindE m f = (\<lambda>w. case m w of (Inl e, w') \<Rightarrow> (Inl e, w') | (Inr v, w') \<Rightarrow> f v w')"

definition thenE :: "'a prog \<Rightarrow> 'b prog \<Rightarrow> 'b prog" where
  "thenE m n = bindE m (\<lambda>_. n)"

text \<open>\<^verbatim>\<open>try { m } catch (error) { h(error) }\<close>\<close>

definition tryCatch :: "'a prog \<Rightarrow> (error \<Rightarrow> 'a prog) \<Rightarrow> 'a prog" where
  "tryCatch m h = (\<lambda>w. case m w of (Inl e, w') \<Rightarrow> h e w' | (Inr v, w') \<Rightarrow> (Inr v, w'))"

text \<open>
  A call of an async function that is not awaited: its body runs (none of the bodies
  called this way suspends), and a rejection is left unhandled.
\<close>

definition unawaited :: "unit prog \<Rightarrow> unit prog" where
  "unawaited m = (\<lambda>w. (Inr (), snd (m w)))"

definition emit :: "event \<Rightarrow> unit prog" where
  "emit ev = (\<lambda>w. (Inr (), w\<lparr>trace := trace w @ [ev]\<rparr>))"

definition console_error :: "string \<Rightarrow> error \<Rightarrow> unit prog" where
  "console_error label e = emit (ConsoleError label (message e))"

text \<open>
  What the collaborators outside the two source files answer is a parameter of the model:
  whether the file system refuses to resolve a path, whether the persistence store
  rejects a record, the diagnostics Monaco reports for a model, the clock, the network,
  and the functions of file_system.js, code_intel.js and acorn that only return data.
\<close>

record marker =
  mk_severity :: nat
  mk_startLineNumber :: nat
  mk_message :: string

record response =
  rsp_ok :: bool
  rsp_body :: jsobject

record env =
  fsFault :: "path \<Rightarrow> bool \<Rightarrow> error option"
  dbFault :: "checkpoint \<Rightarrow> error option"
  indexFault :: "error option"
  modelMarkers :: "nat \<Rightarrow> marker list"
  dateNow :: int
  dateLocaleString :: string
  fetch :: "string \<Rightarrow> args \<Rightarrow> error + response"
  buildStructure :: "(path \<rightharpoonup> string) \<Rightarrow> error + string"
  searchInDirectory :: "(path \<rightharpoonup> string) \<Rightarrow> string option \<Rightarrow> error + json"
  buildIndex :: "(path \<rightharpoonup> string) \<Rightarrow> error + json"
  queryIndex :: "json \<Rightarrow> string option \<Rightarrow> error + json"
  renameEntry :: "string option \<Rightarrow> string option \<Rightarrow> (path \<rightharpoonup> string) \<Rightarrow> error + (path \<rightharpoonup> string)"
  createDirectory :: "string option \<Rightarrow> (path \<rightharpoonup> string) \<Rightarrow> error + (path \<rightharpoonup> string)"
  removeDirectory :: "string option \<Rightarrow> (path \<rightharpoonup> string) \<Rightarrow> error + (path \<rightharpoonup> string)"
  acornAnalysis :: "string \<Rightarrow> error + json"

datatype rootHandle = RootHandle

subsection \<open>File handles\<close>

definition basename :: "path \<Rightarrow> string" where
  "basename p = last (split p ''/'')"

text \<open>
  Modelled from the spec: \<^verbatim>\<open>FileSystem.getFileHandleFromPath\<close> (file_system.js is not
  among the sources) resolves a path to a handle, optionally creating the file. Without a
  root handle there is nothing to resolve against and the call throws; the file system
  may refuse (\<open>fsFault\<close>); a missing file is created empty when asked, and is an error
  otherwise.
\<close>

definition getFileHandleFromPath :: "env \<Rightarrow> rootHandle option \<Rightarrow> path \<Rightarrow> bool \<Rightarrow> handle prog" where
  "getFileHandleFromPath E root p create =
     thenE (emit (ResolveHandle p create))
       (\<lambda>w. case root of
          None \<Rightarrow> (Inl (undefined_read ''getDirectoryHandle''), w)
        | Some r \<Rightarrow>
           (case fsFault E p create of
              Some e \<Rightarrow> (Inl e, w)
            | None \<Rightarrow>
               (if fs w p \<noteq> None then (Inr (FileHandle p), w)
                else if create then (Inr (FileHandle p), w\<lparr>fs := (fs w)(p \<mapsto> [])\<rparr>)
                else (Inl (Err ''NotFoundError''), w))))"

text \<open>
  \<^verbatim>\<open>handle.getFile()\<close> followed by \<^verbatim>\<open>file.text()\<close>: the name and the text of the
  entry, and a rejection when the entry is gone.
\<close>

definition handle_getFile :: "handle \<Rightarrow> (string \<times> string) prog" where
  "handle_getFile h =
     thenE (emit (ReadFile (handle_path h)))
       (\<lambda>w. case fs w (handle_path h) of
          None \<Rightarrow> (Inl (Err ''NotFoundError''), w)
        | Some c \<Rightarrow> (Inr (basename (handle_path h), c), w))"

text \<open>
  \<^verbatim>\<open>createWritable()\<close>, \<^verbatim>\<open>write(data)\<close>, \<^verbatim>\<open>close()\<close>: the entry takes the new text
  when the stream is closed; writing \<^verbatim>\<open>undefined\<close> is rejected before that.
\<close>

definition handle_write :: "handle \<Rightarrow> string option \<Rightarrow> unit prog" where
  "handle_write h data =
     (\<lambda>w. case fs w (handle_path h) of
        None \<Rightarrow> (Inl (Err ''NotFoundError''), w)
      | Some _ \<Rightarrow>
         (case data of
            None \<Rightarrow> (Inl (TypeErr ''Failed to execute write on FileSystemWritableFileStream''), w)
          | Some c \<Rightarrow>
             (Inr (), w\<lparr>fs := (fs w)(handle_path h \<mapsto> c),
                        trace := trace w @ [WriteFile (handle_path h) c]\<rparr>)))"

subsection \<open>Monaco\<close>

definition model_at :: "world \<Rightarrow> nat \<Rightarrow> model option" where
  "model_at w i = (if i < length (models w) then Some (models w ! i) else None)"

text \<open>\<^verbatim>\<open>model.getValue()\<close>; a reference to a model never dangles.\<close>

definition model_value :: "world \<Rightarrow> nat \<Rightarrow> string" where
  "model_value w i = (case model_at w i of None \<Rightarrow> [] | Some m \<Rightarrow> m_value m)"

definition createModel :: "string \<Rightarrow> language \<Rightarrow> nat prog" where
  "createModel v lang =
     (\<lambda>w. (Inr (length (models w)),
           w\<lparr>models := models w @ [\<lparr>m_value = v, m_language = lang, m_disposed = False\<rparr>]\<rparr>))"

definition model_update :: "nat \<Rightarrow> (model \<Rightarrow> model) \<Rightarrow> unit prog" where
  "model_update i f =
     (\<lambda>w. case model_at w i of
        None \<Rightarrow> (Inr (), w)
      | Some m \<Rightarrow> (Inr (), w\<lparr>models := (models w)[i := f m]\<rparr>))"

definition model_dispose :: "nat \<Rightarrow> unit prog" where
  "model_dispose i = model_update i (\<lambda>m. m\<lparr>m_disposed := True\<rparr>)"

definition model_setValue :: "nat \<Rightarrow> string \<Rightarrow> unit prog" where
  "model_setValue i v = model_update i (\<lambda>m. m\<lparr>m_value := v\<rparr>)"

text \<open>
  A method call on the module variable \<^verbatim>\<open>editor\<close>: a TypeError while the variable is
  undefined.
\<close>

definition withEditor :: "string \<Rightarrow> (editor \<Rightarrow> editor) \<Rightarrow> unit prog" where
  "withEditor method f =
     (\<lambda>w. case editor w of
        None \<Rightarrow> (Inl (undefined_read method), w)
      | Some e \<Rightarrow> (Inr (), w\<lparr>editor := Some (f e)\<rparr>))"

text \<open>A model newly attached is shown from its top, with an empty selection.\<close>

definition editor_setModel :: "nat \<Rightarrow> unit prog" where
  "editor_setModel m =
     withEditor ''setModel'' (\<lambda>e. e\<lparr>ed_model := m, ed_view := 0, ed_selection := Some (0, 0)\<rparr>)"

definition editor_updateOptions :: "bool \<Rightarrow> unit prog" where
  "editor_updateOptions ro = withEditor ''updateOptions'' (\<lambda>e. e\<lparr>ed_readOnly := ro\<rparr>)"

definition editor_restoreViewState :: "viewState \<Rightarrow> unit prog" where
  "editor_restoreViewState vs = withEditor ''restoreViewState'' (\<lambda>e. e\<lparr>ed_view := vs\<rparr>)"

definition editor_saveViewState :: "viewState option prog" where
  "editor_saveViewState =
     (\<lambda>w. case editor w of
        None \<Rightarrow> (Inl (undefined_read ''saveViewState''), w)
      | Some e \<Rightarrow> (Inr (Some (ed_view e)), w))"

definition editor_focus :: "unit prog" where
  "editor_focus =
     (\<lambda>w. case editor w of
        None \<Rightarrow> (Inl (undefined_read ''focus''), w)
      | Some e \<Rightarrow> (Inr (), w\<lparr>focus := FocusEditor\<rparr>))"

text \<open>\<^verbatim>\<open>document.getElementById('chat-input').focus()\<close>\<close>

definition chat_input_focus :: "unit prog" where
  "chat_input_focus = (\<lambda>w. (Inr (), w\<lparr>focus := FocusChatInput\<rparr>))"

subsection \<open>editor.js\<close>

definition language_table :: "(string \<times> string) list" where
  "language_table =
     [(''cfm'', ''html''), (''cfml'', ''html''), (''js'', ''javascript''),
      (''ts'', ''typescript''), (''java'', ''java''), (''py'', ''python''),
      (''html'', ''html''), (''css'', ''css''), (''json'', ''json''),
      (''md'', ''markdown''), (''php'', ''php'')]"

text \<open>
  The table is an object literal, so a key that \<^verbatim>\<open>Object.prototype\<close> defines is found
  there (a truthy value that is not a language identifier).
\<close>

definition object_prototype_members :: "string list" where
  "object_prototype_members =
     [''constructor'', ''hasOwnProperty'', ''isPrototypeOf'', ''propertyIsEnumerable'',
      ''toLocaleString'', ''toString'', ''valueOf'', ''__proto__'', ''__defineGetter__'',
      ''__defineSetter__'', ''__lookupGetter__'', ''__lookupSetter__'']"

definition getLanguageFromExtension :: "string \<Rightarrow> language" where
  "getLanguageFromExtension ext =
     (case map_of language_table ext of
        Some l \<Rightarrow> LanguageId l
      | None \<Rightarrow>
         if ext \<in> set object_prototype_members then InheritedMember ext
         else LanguageId ''plaintext'')"

text \<open>
  \<^verbatim>\<open>renderTabs\<close> rebuilds the tab strip: one tab per open file in the order of the Map,
  the active one marked. The click handlers it installs call \<^verbatim>\<open>switchTab\<close> and
  \<^verbatim>\<open>closeTab\<close> with the tab's path when the user clicks; they are not part of the strip's
  content.
\<close>

definition renderTabs :: "unit prog" where
  "renderTabs =
     (\<lambda>w. (Inr (),
           w\<lparr>tabBar := map (\<lambda>kv. \<lparr>tab_path = fst kv, tab_text = fd_name (snd kv),
                                  tab_active = (activeFilePath w = Some (fst kv))\<rparr>)
                            (openFiles w)\<rparr>))"

definition placeholder :: string where
  "placeholder = ''// Select a file to view its content''"

definition clearEditor :: "unit prog" where
  "clearEditor =
     thenE
       (\<lambda>w. case editor w of
          None \<Rightarrow> (Inr (), w)
        | Some _ \<Rightarrow>
           bindE (createModel placeholder (LanguageId ''plaintext''))
             (\<lambda>m. thenE (editor_setModel m) (editor_updateOptions True)) w)
       (\<lambda>w. (Inr (), w\<lparr>activeFilePath := None, openFiles := []\<rparr>))"

definition initial_text :: string where
  "initial_text = ''<!-- Click \"Open Project Folder\" to start -->''"

text \<open>\<^verbatim>\<open>initializeEditor\<close>, from the moment Monaco is loaded (the theme is not modelled).\<close>

definition initializeEditor :: "unit prog" where
  "initializeEditor =
     bindE (createModel initial_text (LanguageId ''html''))
       (\<lambda>m. thenE
          (\<lambda>w. (Inr (), w\<lparr>editor := Some \<lparr>ed_model = m, ed_readOnly = True, ed_view = 0,
                                           ed_selection = Some (0, 0)\<rparr>\<rparr>))
          renderTabs)"

text \<open>
  The first statement of \<^verbatim>\<open>switchTab\<close> and of \<^verbatim>\<open>getEditorState\<close>: the view state of
  the active file is stored in its entry.
\<close>

definition map_update :: "('k \<times> 'v) list \<Rightarrow> 'k \<Rightarrow> ('v \<Rightarrow> 'v) \<Rightarrow> ('k \<times> 'v) list" where
  "map_update m k f = map (\<lambda>kv. if fst kv = k then (fst kv, f (snd kv)) else kv) m"

definition saveActiveViewState :: "unit prog" where
  "saveActiveViewState =
     (\<lambda>w. case activeFilePath w of
        None \<Rightarrow> (Inr (), w)
      | Some a \<Rightarrow>
         if truthy a \<and> map_has (openFiles w) a then
           bindE editor_saveViewState
             (\<lambda>vs w. (Inr (), w\<lparr>openFiles := map_update (openFiles w) a (\<lambda>d. d\<lparr>fd_viewState := vs\<rparr>)\<rparr>)) w
         else (Inr (), w))"

definition switchTab :: "path \<Rightarrow> bool \<Rightarrow> unit prog" where
  "switchTab filePath focusEditor =
     thenE saveActiveViewState
    (thenE (\<lambda>w. (Inr (), w\<lparr>activeFilePath := Some filePath\<rparr>))
    (bindE (\<lambda>w. (Inr (map_get (openFiles w) filePath), w))
      (\<lambda>fileData w.
         case editor w of
           None \<Rightarrow> (Inl (undefined_read ''setModel''), w)
         | Some _ \<Rightarrow>
            (case fileData of
               None \<Rightarrow> (Inl (undefined_read ''model''), w)
             | Some d \<Rightarrow>
                thenE (editor_setModel (fd_model d))
               (thenE (case fd_viewState d of
                         None \<Rightarrow> returnE ()
                       | Some vs \<Rightarrow> editor_restoreViewState vs)
               (thenE (if focusEditor then editor_focus else returnE ())
               (thenE (editor_updateOptions False)
                      renderTabs))) w))))"

text \<open>
  The statements that \<^verbatim>\<open>closeTab\<close> and the loop of \<^verbatim>\<open>restoreCheckpointState\<close> share:
  the model of the entry, when there is one, is disposed, and the entry is deleted.
\<close>

definition disposeAndDelete :: "path \<Rightarrow> unit prog" where
  "disposeAndDelete filePath =
     thenE (\<lambda>w. case map_get (openFiles w) filePath of
                  None \<Rightarrow> (Inr (), w)
                | Some d \<Rightarrow> model_dispose (fd_model d) w)
           (\<lambda>w. (Inr (), w\<lparr>openFiles := map_delete (openFiles w) filePath\<rparr>))"

definition closeTab :: "path \<Rightarrow> unit prog" where
  "closeTab filePath =
     thenE (disposeAndDelete filePath)
       (\<lambda>w. if activeFilePath w = Some filePath then
               thenE (\<lambda>w. (Inr (), w\<lparr>activeFilePath := None\<rparr>))
                 (\<lambda>w. case first_key (openFiles w) of
                    None \<Rightarrow> thenE clearEditor renderTabs w
                  | Some nextFile \<Rightarrow>
                     if truthy nextFile then unawaited (switchTab nextFile True) w
                     else thenE clearEditor renderTabs w) w
             else renderTabs w)"

definition openFile :: "handle \<Rightarrow> path \<Rightarrow> bool \<Rightarrow> unit prog" where
  "openFile fileHandle filePath focusEditor =
     (\<lambda>w. if map_has (openFiles w) filePath then switchTab filePath focusEditor w
          else
            tryCatch
              (bindE (handle_getFile fileHandle)
                (\<lambda>file.
                   bindE (createModel (snd file) (getLanguageFromExtension (extension (fst file))))
                     (\<lambda>m. thenE
                        (\<lambda>w. (Inr (),
                              w\<lparr>openFiles := map_set (openFiles w) filePath
                                   \<lparr>fd_handle = fileHandle, fd_name = fst file, fd_model = m,
                                    fd_viewState = None\<rparr>\<rparr>))
                        (switchTab filePath focusEditor))))
              (\<lambda>e. console_error (''Failed to open file '' @ filePath @ '':'') e) w)"

definition getActiveFile :: "world \<Rightarrow> fileData option" where
  "getActiveFile w =
     (case activeFilePath w of
        None \<Rightarrow> None
      | Some a \<Rightarrow> if truthy a then map_get (openFiles w) a else None)"

definition getPrettierParser :: "string \<Rightarrow> string" where
  "getPrettierParser fname =
     (let ext = extension fname in
      if ext \<in> {''js'', ''ts'', ''jsx'', ''tsx''} then ''babel''
      else if ext = ''html'' then ''html''
      else if ext \<in> {''css'', ''scss'', ''less''} then ''css''
      else if ext = ''json'' then ''json''
      else if ext = ''md'' then ''markdown''
      else ''babel'')"

definition getEditorState :: "editorState prog" where
  "getEditorState =
     thenE saveActiveViewState
       (\<lambda>w. (Inr \<lparr>es_openFiles =
                    map (\<lambda>kv. \<lparr>snap_path = fst kv,
                               snap_content = model_value w (fd_model (snd kv)),
                               snap_viewState = fd_viewState (snd kv)\<rparr>) (openFiles w),
                  es_activeFile = activeFilePath w\<rparr>, w))"

text \<open>
  The body and the loop of \<^verbatim>\<open>restoreEditorState\<close>: an entry that cannot be restored
  is logged and skipped.
\<close>

definition restoreFile :: "env \<Rightarrow> rootHandle option \<Rightarrow> fileSnap \<Rightarrow> unit prog" where
  "restoreFile E rootHandle f =
     tryCatch
       (bindE (getFileHandleFromPath E rootHandle (snap_path f) True)
         (\<lambda>fileHandle.
            bindE (createModel (snap_content f) (getLanguageFromExtension (extension (snap_path f))))
              (\<lambda>m w. (Inr (),
                      w\<lparr>openFiles := map_set (openFiles w) (snap_path f)
                           \<lparr>fd_handle = fileHandle, fd_name = basename (handle_path fileHandle),
                            fd_model = m, fd_viewState = snap_viewState f\<rparr>\<rparr>))))
       (\<lambda>e. console_error (''Could not restore file '' @ snap_path f @ '':'') e)"

fun restoreFiles :: "env \<Rightarrow> rootHandle option \<Rightarrow> fileSnap list \<Rightarrow> unit prog" where
  "restoreFiles E rootHandle [] = returnE ()"
| "restoreFiles E rootHandle (f # rest) =
     thenE (restoreFile E rootHandle f) (restoreFiles E rootHandle rest)"

definition restoreEditorState :: "env \<Rightarrow> editorState option \<Rightarrow> rootHandle option \<Rightarrow> unit prog" where
  "restoreEditorState E state rootHandle =
     (case state of
        None \<Rightarrow> returnE ()
      | Some st \<Rightarrow>
         thenE (restoreFiles E rootHandle (es_openFiles st))
           (\<lambda>w. case (case es_activeFile st of
                        None \<Rightarrow> None
                      | Some a \<Rightarrow> if truthy a \<and> map_has (openFiles w) a then Some a else None) of
                   Some a \<Rightarrow> switchTab a True w
                 | None \<Rightarrow>
                    (case first_key (openFiles w) of
                       Some firstFile \<Rightarrow> switchTab firstFile True w
                     | None \<Rightarrow> renderTabs w)))"

text \<open>The loop of \<^verbatim>\<open>restoreCheckpointState\<close> over the keys the Map had when it started.\<close>

fun disposeFiles :: "path list \<Rightarrow> unit prog" where
  "disposeFiles [] = returnE ()"
| "disposeFiles (filePath # rest) = thenE (disposeAndDelete filePath) (disposeFiles rest)"

definition restoreCheckpointState :: "env \<Rightarrow> editorState option \<Rightarrow> rootHandle option \<Rightarrow> unit prog" where
  "restoreCheckpointState E state rootHandle =
     thenE (\<lambda>w. disposeFiles (map_keys (openFiles w)) w)
    (thenE (\<lambda>w. (Inr (), w\<lparr>activeFilePath := None\<rparr>))
           (restoreEditorState E state rootHandle))"

text \<open>\<^verbatim>\<open>getModelMarkers\<close>: the diagnostics Monaco holds for the model of an open file.\<close>

definition getModelMarkers :: "env \<Rightarrow> path \<Rightarrow> marker list prog" where
  "getModelMarkers E filePath =
     (\<lambda>w. case map_get (openFiles w) filePath of
        None \<Rightarrow> (Inr [], w)
      | Some d \<Rightarrow> (Inr (modelMarkers E (fd_model d)), w\<lparr>trace := trace w @ [GetModelMarkers (fd_model d)]\<rparr>))"

section \<open>The tool dispatcher (tool_executor.js)\<close>

subsection \<open>Strings of the results\<close>

definition quoted :: "string \<Rightarrow> string" where
  "quoted s = [CHR 0x27] @ s @ [CHR 0x27]"

definition newline :: string where
  "newline = [CHR 0x0A]"

text \<open>
  The two characters that the source text \<^verbatim>\<open>'\\n'\<close> denotes in a string or template
  literal: a backslash followed by the letter n.
\<close>

definition backslash_n :: string where
  "backslash_n = [CHR 0x5C, CHR ''n'']"

text \<open>The decimal numeral of an integer, as a template literal prints it.\<close>

function show_nat :: "nat \<Rightarrow> string" where
  "show_nat n = (if n < 10 then [''0123456789'' ! n] else show_nat (n div 10) @ [''0123456789'' ! (n mod 10)])"
  by pat_completeness auto
termination
  by (relation "measure id") auto

declare show_nat.simps [simp del]

definition show_int :: "int \<Rightarrow> string" where
  "show_int i = (if i < 0 then CHR ''-'' # show_nat (nat (- i)) else show_nat (nat i))"

text \<open>A property that is absent prints as \<^verbatim>\<open>undefined\<close> in a template literal.\<close>

definition opt_str :: "string option \<Rightarrow> string" where
  "opt_str s = (case s of None \<Rightarrow> ''undefined'' | Some v \<Rightarrow> v)"

definition opt_int :: "int option \<Rightarrow> string" where
  "opt_int i = (case i of None \<Rightarrow> ''undefined'' | Some v \<Rightarrow> show_int v)"

text \<open>Truthiness and string conversion of a value received from the network.\<close>

fun json_truthy :: "json \<Rightarrow> bool" where
  "json_truthy JUndefined = False"
| "json_truthy JNull = False"
| "json_truthy (JBool b) = b"
| "json_truthy (JNum n) = (n \<noteq> 0)"
| "json_truthy (JStr s) = (s \<noteq> [])"
| "json_truthy (JArr xs) = True"
| "json_truthy (JObj kvs) = True"

fun toStr :: "json \<Rightarrow> string" where
  "toStr JUndefined = ''undefined''"
| "toStr JNull = ''null''"
| "toStr (JBool b) = (if b then ''true'' else ''false'')"
| "toStr (JNum n) = show_int n"
| "toStr (JStr s) = s"
| "toStr (JArr xs) =
     join (map (\<lambda>x. if x = JUndefined \<or> x = JNull then [] else toStr x) xs) '',''"
| "toStr (JObj kvs) = ''[object Object]''"

definition obj_get :: "jsobject \<Rightarrow> string \<Rightarrow> json" where
  "obj_get obj k = (case map_of obj k of None \<Rightarrow> JUndefined | Some v \<Rightarrow> v)"

text \<open>\<^verbatim>\<open>new Error(x).message\<close>: empty for \<^verbatim>\<open>undefined\<close>, the string of \<open>x\<close> otherwise.\<close>

definition error_of :: "json \<Rightarrow> error" where
  "error_of x = Err (if x = JUndefined then [] else toStr x)"

text \<open>\<^verbatim>\<open>{ status: 'Success', ...obj }\<close>\<close>

definition spread_after :: "jsobject \<Rightarrow> jsobject \<Rightarrow> jsobject" where
  "spread_after first obj = fold (\<lambda>kv acc. map_set acc (fst kv) (snd kv)) obj first"

record toolCall =
  tc_name :: string
  tc_args :: args

subsection \<open>Collaborators of the dispatcher\<close>

text \<open>
  Modelled from the spec: a missing parameter surfaces as a thrown error from the
  file-system collaborator (file_system.js is not among the sources).
\<close>

definition getFileHandleFromArg :: "env \<Rightarrow> rootHandle option \<Rightarrow> string option \<Rightarrow> bool \<Rightarrow> handle prog" where
  "getFileHandleFromArg E root p create =
     (case p of
        None \<Rightarrow> throwE (undefined_read ''split'')
      | Some f \<Rightarrow> getFileHandleFromPath E root f create)"

text \<open>
  Modelled from the spec: \<^verbatim>\<open>DbManager.saveCheckpoint\<close> (db.js is not among the sources)
  persists a checkpoint record, and rejects when the store is unavailable.
\<close>

definition saveCheckpoint :: "env \<Rightarrow> checkpoint \<Rightarrow> unit prog" where
  "saveCheckpoint E c =
     thenE (emit (SaveCheckpoint c))
       (\<lambda>w. case dbFault E c of
          Some e \<Rightarrow> (Inl e, w)
        | None \<Rightarrow> (Inr (), w\<lparr>checkpoints := checkpoints w @ [c]\<rparr>))"

text \<open>
  Modelled from the spec: \<^verbatim>\<open>DbManager.saveCodeIndex\<close> and \<^verbatim>\<open>DbManager.getCodeIndex\<close>
  save and load a single codebase index record.
\<close>

definition saveCodeIndex :: "env \<Rightarrow> json \<Rightarrow> unit prog" where
  "saveCodeIndex E idx =
     thenE (emit (SaveCodeIndex idx))
       (\<lambda>w. case indexFault E of
          Some e \<Rightarrow> (Inl e, w)
        | None \<Rightarrow> (Inr (), w\<lparr>codeIndex := Some idx\<rparr>))"

definition getCodeIndex :: "env \<Rightarrow> json option prog" where
  "getCodeIndex E =
     thenE (emit GetCodeIndex)
       (\<lambda>w. case indexFault E of
          Some e \<Rightarrow> (Inl e, w)
        | None \<Rightarrow> (Inr (codeIndex w), w))"

text \<open>
  Modelled from the spec: \<^verbatim>\<open>UI.refreshFileTree\<close> (ui.js is not among the sources)
  rebuilds the visible file tree and wires the handlers that reopen a file when the
  user clicks it; it changes nothing of the session.
\<close>

definition refreshFileTree :: "unit prog" where
  "refreshFileTree = emit RefreshFileTree"

text \<open>A collaborator that only returns data: the call is recorded and its answer returned or thrown.\<close>

definition ask :: "event \<Rightarrow> (world \<Rightarrow> error + 'a) \<Rightarrow> 'a prog" where
  "ask ev answer =
     thenE (emit ev)
       (\<lambda>w. case answer w of Inl e \<Rightarrow> (Inl e, w) | Inr v \<Rightarrow> (Inr v, w))"

text \<open>A file-system collaborator that changes the project folder as a whole.\<close>

definition change_fs :: "event \<Rightarrow> ((path \<rightharpoonup> string) \<Rightarrow> error + (path \<rightharpoonup> string)) \<Rightarrow> unit prog" where
  "change_fs ev change =
     thenE (emit ev)
       (\<lambda>w. case change (fs w) of Inl e \<Rightarrow> (Inl e, w) | Inr fs' \<Rightarrow> (Inr (), w\<lparr>fs := fs'\<rparr>))"

text \<open>
  Modelled from the spec: \<^verbatim>\<open>FileSystem.getParentDirectoryHandle\<close> followed by
  \<^verbatim>\<open>parentHandle.removeEntry(name)\<close> removes the file of that path, and rejects when
  there is none.
\<close>

definition removeFile :: "env \<Rightarrow> rootHandle option \<Rightarrow> string option \<Rightarrow> unit prog" where
  "removeFile E root p =
     bindE (getFileHandleFromArg E root p False)
       (\<lambda>h. change_fs (RemoveEntry (handle_path h) False) (\<lambda>f. Inr (f(handle_path h := None))))"

subsection \<open>The operations\<close>

definition root_required :: "string list" where
  "root_required =
     [''create_file'', ''read_file'', ''search_code'', ''get_project_structure'',
      ''delete_file'', ''build_or_update_codebase_index'', ''query_codebase'',
      ''create_folder'', ''delete_folder'', ''rename_folder'', ''rewrite_file'',
      ''format_code'', ''analyze_code'', ''rename_file'', ''insert_content'']"

definition no_project_message :: string where
  "no_project_message =
     ''No project folder is open. Please ask the user to open a folder before using this tool.''"

definition checkpoint_triggers :: "string list" where
  "checkpoint_triggers =
     [''create_file'', ''delete_file'', ''rewrite_file'', ''rename_file'', ''create_folder'',
      ''delete_folder'', ''rename_folder'', ''insert_content'']"

definition checkpointInterception :: "env \<Rightarrow> string \<Rightarrow> unit prog" where
  "checkpointInterception E toolName =
     (if toolName \<in> set checkpoint_triggers then
        tryCatch
          (bindE getEditorState
            (\<lambda>editorState.
               if length (es_openFiles editorState) > 0 then
                 saveCheckpoint E
                   \<lparr>cp_name = ''Auto-Checkpoint @ '' @ dateLocaleString E,
                    cp_editorState = editorState,
                    cp_timestamp = dateNow E\<rparr>
               else returnE ()))
          (\<lambda>e. console_error ''Failed to create automatic checkpoint:'' e)
      else returnE ())"

definition tool_get_project_structure :: "env \<Rightarrow> jsobject prog" where
  "tool_get_project_structure E =
     bindE (ask BuildStructureTree (\<lambda>w. buildStructure E (fs w)))
       (\<lambda>structure. returnE [(''structure'', JStr structure)])"

definition MAX_LENGTH :: nat where
  "MAX_LENGTH = 30000"

definition truncation_suffix :: string where
  "truncation_suffix = newline @ newline @ ''... (file content truncated because it was too long)''"

definition tool_read_file :: "env \<Rightarrow> args \<Rightarrow> rootHandle option \<Rightarrow> jsobject prog" where
  "tool_read_file E parameters root =
     bindE (getFileHandleFromArg E root (filename parameters) False)
       (\<lambda>fileHandle.
     bindE (handle_getFile fileHandle)
       (\<lambda>file.
          thenE (openFile fileHandle (opt_str (filename parameters)) False)
         (thenE chat_input_focus
           (returnE [(''content'',
              JStr (if length (snd file) > MAX_LENGTH
                    then take MAX_LENGTH (snd file) @ truncation_suffix
                    else snd file))]))))"

definition tool_fetch :: "env \<Rightarrow> string \<Rightarrow> args \<Rightarrow> string \<Rightarrow> jsobject prog" where
  "tool_fetch E endpoint parameters failure =
     bindE (ask (Fetch endpoint parameters) (\<lambda>w. fetch E endpoint parameters))
       (\<lambda>response.
          if rsp_ok response then returnE (rsp_body response)
          else throwE (Err (if json_truthy (obj_get (rsp_body response) ''message'')
                            then toStr (obj_get (rsp_body response) ''message'')
                            else failure)))"

definition tool_create_file :: "env \<Rightarrow> args \<Rightarrow> rootHandle option \<Rightarrow> jsobject prog" where
  "tool_create_file E parameters root =
     bindE (getFileHandleFromArg E root (filename parameters) True)
       (\<lambda>fileHandle.
          thenE (handle_write fileHandle (content parameters))
         (thenE refreshFileTree
         (thenE (openFile fileHandle (opt_str (filename parameters)) False)
         (thenE chat_input_focus
           (returnE [(''message'',
              JStr (''File '' @ quoted (opt_str (filename parameters)) @ '' created successfully.''))])))))"

definition tool_delete_file :: "env \<Rightarrow> args \<Rightarrow> rootHandle option \<Rightarrow> jsobject prog" where
  "tool_delete_file E parameters root =
     thenE (removeFile E root (filename parameters))
    (thenE (\<lambda>w. if map_has (openFiles w) (opt_str (filename parameters))
                 then closeTab (opt_str (filename parameters)) w else (Inr (), w))
    (thenE refreshFileTree
      (returnE [(''message'',
         JStr (''File '' @ quoted (opt_str (filename parameters)) @ '' deleted successfully.''))])))"

definition tool_delete_folder :: "env \<Rightarrow> args \<Rightarrow> jsobject prog" where
  "tool_delete_folder E parameters =
     thenE (change_fs (RemoveEntry (opt_str (folder_path parameters)) True)
              (removeDirectory E (folder_path parameters)))
    (thenE refreshFileTree
      (returnE [(''message'',
         JStr (''Folder '' @ quoted (opt_str (folder_path parameters)) @ '' deleted successfully.''))]))"

definition tool_rename_folder :: "env \<Rightarrow> args \<Rightarrow> jsobject prog" where
  "tool_rename_folder E parameters =
     thenE (change_fs (RenameEntry (old_folder_path parameters) (new_folder_path parameters))
              (renameEntry E (old_folder_path parameters) (new_folder_path parameters)))
    (thenE refreshFileTree
      (returnE [(''message'',
         JStr (''Folder '' @ quoted (opt_str (old_folder_path parameters)) @ '' renamed to ''
               @ quoted (opt_str (new_folder_path parameters)) @ '' successfully.''))]))"

definition tool_rename_file :: "env \<Rightarrow> args \<Rightarrow> rootHandle option \<Rightarrow> jsobject prog" where
  "tool_rename_file E parameters root =
     thenE (change_fs (RenameEntry (old_path parameters) (new_path parameters))
              (renameEntry E (old_path parameters) (new_path parameters)))
    (thenE refreshFileTree
    (thenE (\<lambda>w. if old_path parameters \<noteq> None \<and> map_has (openFiles w) (opt_str (old_path parameters)) then
                   thenE (closeTab (opt_str (old_path parameters)))
                    (bindE (getFileHandleFromArg E root (new_path parameters) False)
                      (\<lambda>newFileHandle.
                         thenE (openFile newFileHandle (opt_str (new_path parameters)) False)
                               chat_input_focus)) w
                 else (Inr (), w))
      (returnE [(''message'',
         JStr (''File '' @ quoted (opt_str (old_path parameters)) @ '' renamed to ''
               @ quoted (opt_str (new_path parameters)) @ '' successfully.''))])))"

definition tool_create_folder :: "env \<Rightarrow> args \<Rightarrow> jsobject prog" where
  "tool_create_folder E parameters =
     thenE (change_fs (CreateDirectory (folder_path parameters))
              (createDirectory E (folder_path parameters)))
    (thenE refreshFileTree
      (returnE [(''message'',
         JStr (''Folder '' @ quoted (opt_str (folder_path parameters)) @ '' created successfully.''))]))"

definition tool_search_code :: "env \<Rightarrow> args \<Rightarrow> jsobject prog" where
  "tool_search_code E parameters =
     bindE (ask (SearchInDirectory (search_term parameters))
              (\<lambda>w. searchInDirectory E (fs w) (search_term parameters)))
       (\<lambda>searchResults. returnE [(''results'', searchResults)])"

definition tool_get_open_file_content :: "jsobject prog" where
  "tool_get_open_file_content =
     (\<lambda>w. case getActiveFile w of
        None \<Rightarrow> (Inl (Err ''No file is currently open in the editor.''), w)
      | Some activeFile \<Rightarrow>
         (Inr [(''filename'', JStr (fd_name activeFile)),
               (''content'', JStr (model_value w (fd_model activeFile)))], w))"

text \<open>
  \<^verbatim>\<open>editor.getSelection()\<close> and the test \<^verbatim>\<open>!selection || selection.isEmpty()\<close>. A
  selection is the pair of the offsets where it starts and ends in the text of the model.
\<close>

definition editor_getSelection :: "(nat \<times> nat) option prog" where
  "editor_getSelection =
     (\<lambda>w. case editor w of
        None \<Rightarrow> (Inl (undefined_read ''getSelection''), w)
      | Some e \<Rightarrow> (Inr (ed_selection e), w))"

definition no_selection :: "(nat \<times> nat) option \<Rightarrow> bool" where
  "no_selection sel = (case sel of None \<Rightarrow> True | Some r \<Rightarrow> fst r = snd r)"

definition getValueInRange :: "string \<Rightarrow> nat \<times> nat \<Rightarrow> string" where
  "getValueInRange t r = take (snd r - fst r) (drop (fst r) t)"

text \<open>
  \<^verbatim>\<open>editor.executeEdits\<close> replaces the range by the text in the attached model, and does
  nothing in a read-only editor; an absent text deletes the range.
\<close>

definition editor_executeEdits :: "nat \<times> nat \<Rightarrow> string option \<Rightarrow> unit prog" where
  "editor_executeEdits r t =
     (\<lambda>w. case editor w of
        None \<Rightarrow> (Inl (undefined_read ''executeEdits''), w)
      | Some e \<Rightarrow>
         if ed_readOnly e then (Inr (), w)
         else model_update (ed_model e)
                (\<lambda>m. m\<lparr>m_value := take (fst r) (m_value m) @ (case t of None \<Rightarrow> [] | Some v \<Rightarrow> v)
                                      @ drop (snd r) (m_value m)\<rparr>) w)"

definition editor_getValueInRange :: "nat \<times> nat \<Rightarrow> string prog" where
  "editor_getValueInRange r =
     (\<lambda>w. case editor w of
        None \<Rightarrow> (Inl (undefined_read ''getModel''), w)
      | Some e \<Rightarrow> (Inr (getValueInRange (model_value w (ed_model e)) r), w))"

definition tool_get_selected_text :: "jsobject prog" where
  "tool_get_selected_text =
     bindE editor_getSelection
       (\<lambda>selection.
          case (if no_selection selection then None else selection) of
            None \<Rightarrow> throwE (Err ''No text is currently selected.'')
          | Some r \<Rightarrow>
             bindE (editor_getValueInRange r)
               (\<lambda>t. returnE [(''selected_text'', JStr t)]))"

definition tool_replace_selected_text :: "args \<Rightarrow> jsobject prog" where
  "tool_replace_selected_text parameters =
     bindE editor_getSelection
       (\<lambda>selection.
          case (if no_selection selection then None else selection) of
            None \<Rightarrow> throwE (Err ''No text is selected to replace.'')
          | Some r \<Rightarrow>
             thenE (editor_executeEdits r (new_text parameters))
               (returnE [(''message'', JStr ''Replaced the selected text.'')]))"

definition tool_run_terminal_command :: "env \<Rightarrow> args \<Rightarrow> jsobject prog" where
  "tool_run_terminal_command E parameters =
     bindE (ask (Fetch ''/api/execute-tool'' parameters) (\<lambda>w. fetch E ''/api/execute-tool'' parameters))
       (\<lambda>response.
          if obj_get (rsp_body response) ''status'' = JStr ''Success'' then
            thenE refreshFileTree
              (returnE [(''output'', obj_get (rsp_body response) ''output'')])
          else throwE (error_of (obj_get (rsp_body response) ''message'')))"

definition tool_build_or_update_codebase_index :: "env \<Rightarrow> jsobject prog" where
  "tool_build_or_update_codebase_index E =
     thenE (emit (AppendMessage ''Building codebase index...''))
    (bindE (ask BuildIndex (\<lambda>w. buildIndex E (fs w)))
       (\<lambda>idx. thenE (saveCodeIndex E idx)
                 (returnE [(''message'', JStr ''Codebase index built successfully.'')])))"

definition tool_query_codebase :: "env \<Rightarrow> args \<Rightarrow> jsobject prog" where
  "tool_query_codebase E parameters =
     bindE (getCodeIndex E)
       (\<lambda>idx.
          case (case idx of None \<Rightarrow> None | Some i \<Rightarrow> if json_truthy i then Some i else None) of
            None \<Rightarrow>
              throwE (Err (''No codebase index. Please run ''
                           @ quoted ''build_or_update_codebase_index'' @ ''.''))
          | Some i \<Rightarrow>
              bindE (ask (QueryIndex (query parameters)) (\<lambda>w. queryIndex E i (query parameters)))
                (\<lambda>queryResults. returnE [(''results'', queryResults)]))"

definition no_args :: args where
  "no_args =
     \<lparr>filename = None, content = None, line_number = None, url = None, folder_path = None,
      old_folder_path = None, new_folder_path = None, old_path = None, new_path = None,
      query = None, search_term = None, new_text = None, command = None\<rparr>"

definition tool_get_file_history :: "env \<Rightarrow> args \<Rightarrow> jsobject prog" where
  "tool_get_file_history E parameters =
     (let request =
        no_args\<lparr>command :=
          Some (''git log --pretty=format:\"%h - %an, %ar : %s\" -- '' @ opt_str (filename parameters))\<rparr>
      in bindE (ask (Fetch ''/api/execute-tool'' request) (\<lambda>w. fetch E ''/api/execute-tool'' request))
           (\<lambda>response.
              if obj_get (rsp_body response) ''status'' = JStr ''Success'' then
                returnE [(''history'', obj_get (rsp_body response) ''output'')]
              else throwE (error_of (obj_get (rsp_body response) ''message''))))"

text \<open>
  The statement shared by \<^verbatim>\<open>rewrite_file\<close> and \<^verbatim>\<open>insert_content\<close>: the buffer of the
  file, when it is open, takes the new text.
\<close>

definition setOpenValue :: "string \<Rightarrow> string \<Rightarrow> unit prog" where
  "setOpenValue fname v =
     (\<lambda>w. if map_has (openFiles w) fname then
            (case map_get (openFiles w) fname of
               None \<Rightarrow> (Inr (), w)
             | Some fileData \<Rightarrow> model_setValue (fd_model fileData) v w)
          else (Inr (), w))"

definition tool_rewrite_file :: "env \<Rightarrow> args \<Rightarrow> rootHandle option \<Rightarrow> jsobject prog" where
  "tool_rewrite_file E parameters root =
     bindE (getFileHandleFromArg E root (filename parameters) False)
       (\<lambda>fileHandle.
          thenE (handle_write fileHandle (content parameters))
         (thenE (setOpenValue (opt_str (filename parameters)) (opt_str (content parameters)))
         (thenE (openFile fileHandle (opt_str (filename parameters)) False)
         (thenE chat_input_focus
           (returnE [(''message'',
              JStr (''File '' @ quoted (opt_str (filename parameters)) @ '' rewritten successfully.''))])))))"

definition tool_format_code :: "env \<Rightarrow> args \<Rightarrow> rootHandle option \<Rightarrow> jsobject prog" where
  "tool_format_code E parameters root =
     bindE (getFileHandleFromArg E root (filename parameters) False)
       (\<lambda>fileHandle.
     bindE (handle_getFile fileHandle)
       (\<lambda>file.
          thenE (emit (PrettierRequest (snd file) (getPrettierParser (opt_str (filename parameters)))))
            (returnE [(''message'',
               JStr (''Formatting request for '' @ quoted (opt_str (filename parameters)) @ '' sent.''))])))"

definition tool_analyze_code :: "env \<Rightarrow> args \<Rightarrow> rootHandle option \<Rightarrow> jsobject prog" where
  "tool_analyze_code E parameters root =
     (case filename parameters of
        None \<Rightarrow> throwE (undefined_read ''endsWith'')
      | Some f \<Rightarrow>
         if \<not> suffix ''.js'' f then
           throwE (Err ''This tool can only analyze .js files. Use read_file for others.'')
         else
           bindE (getFileHandleFromArg E root (filename parameters) False)
             (\<lambda>fileHandle.
           bindE (handle_getFile fileHandle)
             (\<lambda>file.
           bindE (ask (AcornParse (snd file)) (\<lambda>w. acornAnalysis E (snd file)))
             (\<lambda>analysis. returnE [(''analysis'', analysis)]))))"

text \<open>
  \<^verbatim>\<open>insert_content\<close>. An absent \<^verbatim>\<open>line_number\<close> makes the insertion point NaN, which
  \<^verbatim>\<open>splice\<close> reads as 0; an absent \<^verbatim>\<open>content\<close> is joined as the empty string.
\<close>

definition insertionPoint :: "int option \<Rightarrow> int" where
  "insertionPoint n = (case n of None \<Rightarrow> 0 | Some k \<Rightarrow> max 0 (k - 1))"

definition insert_line :: "string \<Rightarrow> int option \<Rightarrow> string option \<Rightarrow> string" where
  "insert_line originalContent n c =
     join (splice_insert (split originalContent backslash_n) (insertionPoint n)
             (case c of None \<Rightarrow> [] | Some v \<Rightarrow> v))
          backslash_n"

definition tool_insert_content :: "env \<Rightarrow> args \<Rightarrow> rootHandle option \<Rightarrow> jsobject prog" where
  "tool_insert_content E parameters root =
     bindE (getFileHandleFromArg E root (filename parameters) False)
       (\<lambda>fileHandle.
     bindE (handle_getFile fileHandle)
       (\<lambda>file.
          thenE (handle_write fileHandle
                   (Some (insert_line (snd file) (line_number parameters) (content parameters))))
         (thenE (setOpenValue (opt_str (filename parameters))
                   (insert_line (snd file) (line_number parameters) (content parameters)))
         (thenE (openFile fileHandle (opt_str (filename parameters)) False)
         (thenE chat_input_focus
           (returnE [(''message'',
              JStr (''Content inserted into '' @ quoted (opt_str (filename parameters))
                    @ '' at line '' @ opt_int (line_number parameters) @ ''.''))]))))))"

definition dispatch :: "env \<Rightarrow> string \<Rightarrow> args \<Rightarrow> rootHandle option \<Rightarrow> jsobject prog" where
  "dispatch E toolName parameters root =
     (if toolName = ''get_project_structure'' then tool_get_project_structure E
      else if toolName = ''read_file'' then tool_read_file E parameters root
      else if toolName = ''read_url'' then tool_fetch E ''/api/read-url'' parameters ''Failed to read URL''
      else if toolName = ''create_file'' then tool_create_file E parameters root
      else if toolName = ''delete_file'' then tool_delete_file E parameters root
      else if toolName = ''delete_folder'' then tool_delete_folder E parameters
      else if toolName = ''rename_folder'' then tool_rename_folder E parameters
      else if toolName = ''rename_file'' then tool_rename_file E parameters root
      else if toolName = ''create_folder'' then tool_create_folder E parameters
      else if toolName = ''duckduckgo_search'' then
        tool_fetch E ''/api/duckduckgo-search'' parameters ''Failed to perform search''
      else if toolName = ''search_code'' then tool_search_code E parameters
      else if toolName = ''get_open_file_content'' then tool_get_open_file_content
      else if toolName = ''get_selected_text'' then tool_get_selected_text
      else if toolName = ''replace_selected_text'' then tool_replace_selected_text parameters
      else if toolName = ''run_terminal_command'' then tool_run_terminal_command E parameters
      else if toolName = ''build_or_update_codebase_index'' then tool_build_or_update_codebase_index E
      else if toolName = ''query_codebase'' then tool_query_codebase E parameters
      else if toolName = ''get_file_history'' then tool_get_file_history E parameters
      else if toolName = ''rewrite_file'' then tool_rewrite_file E parameters root
      else if toolName = ''format_code'' then tool_format_code E parameters root
      else if toolName = ''analyze_code'' then tool_analyze_code E parameters root
      else if toolName = ''insert_content'' then tool_insert_content E parameters root
      else throwE (Err (''Unknown tool '' @ quoted toolName @ ''.'')))"

definition executeTool :: "env \<Rightarrow> toolCall \<Rightarrow> rootHandle option \<Rightarrow> jsobject prog" where
  "executeTool E toolCall rootDirectoryHandle =
     (if rootDirectoryHandle = None \<and> tc_name toolCall \<in> set root_required then
        returnE [(''error'', JStr no_project_message)]
      else
        thenE (checkpointInterception E (tc_name toolCall))
              (dispatch E (tc_name toolCall) (tc_args toolCall) rootDirectoryHandle))"

subsection \<open>The execution boundary\<close>

definition content_mutations :: "string list" where
  "content_mutations = [''rewrite_file'', ''insert_content'', ''replace_selected_text'']"

text \<open>\<^verbatim>\<open>monaco.MarkerSeverity.Error\<close>\<close>

definition MarkerSeverity_Error :: nat where
  "MarkerSeverity_Error = 8"

definition warning_text :: "marker list \<Rightarrow> string" where
  "warning_text errors =
     backslash_n @ backslash_n
     @ ''**Warning**: The file was modified, but syntax errors were detected:'' @ backslash_n
     @ join (map (\<lambda>e. ''L'' @ show_nat (mk_startLineNumber e) @ '': '' @ mk_message e) errors)
            backslash_n"

text \<open>
  The block after the dispatcher returned: the diagnostics of the affected file are read
  (after a fixed delay, which has no counterpart here) and a warning is appended to the
  \<^verbatim>\<open>message\<close> property of the result.
\<close>

definition errorChecking :: "env \<Rightarrow> string \<Rightarrow> args \<Rightarrow> jsobject \<Rightarrow> jsobject prog" where
  "errorChecking E toolName parameters resultForModel =
     (if toolName \<in> set content_mutations then
        (\<lambda>w. case (case filename parameters of
                     None \<Rightarrow> activeFilePath w
                   | Some f \<Rightarrow> if truthy f then Some f else activeFilePath w) of
               None \<Rightarrow> (Inr resultForModel, w)
             | Some filePath \<Rightarrow>
                if truthy filePath then
                  bindE (getModelMarkers E filePath)
                    (\<lambda>markers.
                       let errors = filter (\<lambda>m. mk_severity m = MarkerSeverity_Error) markers in
                       if length errors > 0 then
                         returnE (map_set resultForModel ''message''
                           (JStr ((if json_truthy (obj_get resultForModel ''message'')
                                   then toStr (obj_get resultForModel ''message'') else [])
                                  @ warning_text errors)))
                       else returnE resultForModel) w
                else (Inr resultForModel, w))
      else returnE resultForModel)"

record toolResponse =
  tr_name :: string
  tr_response :: jsobject

definition execute :: "env \<Rightarrow> toolCall \<Rightarrow> rootHandle option \<Rightarrow> toolResponse prog" where
  "execute E toolCall rootDirectoryHandle =
     thenE (emit (ConsoleGroup (''AI Tool Call: '' @ tc_name toolCall)))
    (thenE (emit (AppendToolLog (tc_name toolCall) (tc_args toolCall)))
    (bindE
       (tryCatch
          (bindE (executeTool E toolCall rootDirectoryHandle) (\<lambda>r. returnE (True, r)))
          (\<lambda>error.
             thenE (emit (ConsoleError
                      (''Error executing tool '' @ quoted (tc_name toolCall) @ '': '' @ message error)
                      (message error)))
               (returnE (False,
                  [(''error'', JStr (''Error executing tool '' @ quoted (tc_name toolCall) @ '': ''
                                     @ message error))]))))
       (\<lambda>outcome.
          bindE (if fst outcome
                 then errorChecking E (tc_name toolCall) (tc_args toolCall) (snd outcome)
                 else returnE (snd outcome))
            (\<lambda>resultForModel.
               thenE (emit (ConsoleLog ''Result:''
                        (if fst outcome then spread_after [(''status'', JStr ''Success'')] resultForModel
                         else [(''status'', JStr ''Error''), (''message'', obj_get resultForModel ''error'')])))
              (thenE (emit ConsoleGroupEnd)
              (thenE (emit (UpdateToolLog (fst outcome)))
                (returnE \<lparr>tr_name = tc_name toolCall, tr_response = resultForModel\<rparr>)))))))"

section \<open>Concrete sessions\<close>

text \<open>An environment in which no collaborator fails and the network is unreachable.\<close>

definition quiet_env :: env where
  "quiet_env =
     \<lparr>fsFault = (\<lambda>p c. None), dbFault = (\<lambda>c. None), indexFault = None,
      modelMarkers = (\<lambda>m. []), dateNow = 0, dateLocaleString = ''1/1/1970, 12:00:00 AM'',
      fetch = (\<lambda>endpoint a. Inl (Err ''Failed to fetch'')),
      buildStructure = (\<lambda>f. Inr []), searchInDirectory = (\<lambda>f t. Inr (JArr [])),
      buildIndex = (\<lambda>f. Inr (JObj [])), queryIndex = (\<lambda>i q. Inr (JArr [])),
      renameEntry = (\<lambda>a b f. Inr f), createDirectory = (\<lambda>a f. Inr f),
      removeDirectory = (\<lambda>a f. Inr f), acornAnalysis = (\<lambda>t. Inr (JObj []))\<rparr>"

text \<open>The page before Monaco is loaded, and once the editor exists.\<close>

definition empty_world :: world where
  "empty_world =
     \<lparr>fs = Map.empty, editor = None, models = [], openFiles = [], activeFilePath = None,
      tabBar = [], focus = FocusNowhere, checkpoints = [], codeIndex = None, trace = []\<rparr>"

definition ready_world :: world where
  "ready_world = snd (initializeEditor empty_world)"

text \<open>A session with two open files, the first one active, the focus in the chat input.\<close>

definition two_open :: world where
  "two_open =
     \<lparr>fs = [''a.js'' \<mapsto> ''let a'', ''b.js'' \<mapsto> ''let b''],
      editor = Some \<lparr>ed_model = 1, ed_readOnly = False, ed_view = 7, ed_selection = Some (0, 0)\<rparr>,
      models = [\<lparr>m_value = initial_text, m_language = LanguageId ''html'', m_disposed = False\<rparr>,
                \<lparr>m_value = ''let a'', m_language = LanguageId ''javascript'', m_disposed = False\<rparr>,
                \<lparr>m_value = ''let b'', m_language = LanguageId ''javascript'', m_disposed = False\<rparr>],
      openFiles =
        [(''a.js'', \<lparr>fd_handle = FileHandle ''a.js'', fd_name = ''a.js'', fd_model = 1, fd_viewState = None\<rparr>),
         (''b.js'', \<lparr>fd_handle = FileHandle ''b.js'', fd_name = ''b.js'', fd_model = 2, fd_viewState = Some 4\<rparr>)],
      activeFilePath = Some ''a.js'',
      tabBar = [\<lparr>tab_path = ''a.js'', tab_text = ''a.js'', tab_active = True\<rparr>,
                \<lparr>tab_path = ''b.js'', tab_text = ''b.js'', tab_active = False\<rparr>],
      focus = FocusChatInput, checkpoints = [], codeIndex = None, trace = []\<rparr>"

section \<open>Properties of a session\<close>

text \<open>The text of the buffer of every open document, in tab order.\<close>

definition open_texts :: "world \<Rightarrow> (path \<times> string) list" where
  "open_texts w = map (\<lambda>kv. (fst kv, model_value w (fd_model (snd kv)))) (openFiles w)"

text \<open>The active path is null or a key of the documents.\<close>

definition active_ok :: "world \<Rightarrow> bool" where
  "active_ok w = (case activeFilePath w of None \<Rightarrow> True | Some a \<Rightarrow> map_has (openFiles w) a)"

text \<open>Every document refers to a model of the heap.\<close>

definition refs_ok :: "world \<Rightarrow> bool" where
  "refs_ok w = list_all (\<lambda>kv. fd_model (snd kv) < length (models w)) (openFiles w)"

text \<open>A sequence of calls of \<^verbatim>\<open>openFile\<close>, each with its handle, path and focus flag.\<close>

fun open_all :: "(handle \<times> path \<times> bool) list \<Rightarrow> world \<Rightarrow> world" where
  "open_all [] w = w"
| "open_all (c # cs) w = open_all cs (snd (openFile (fst c) (fst (snd c)) (snd (snd c)) w))"

text \<open>
  The operations on a session, and a sequence of them run from a state; an operation
  that throws leaves the state it had reached.
\<close>

datatype session_op =
    Initialize
  | Open handle path bool
  | Activate path bool
  | Close path
  | Clear
  | Capture
  | Restore "editorState option" "rootHandle option"
  | RestoreCheckpoint "editorState option" "rootHandle option"

fun apply_op :: "env \<Rightarrow> session_op \<Rightarrow> world \<Rightarrow> world" where
  "apply_op E Initialize w = snd (initializeEditor w)"
| "apply_op E (Open h p f) w = snd (openFile h p f w)"
| "apply_op E (Activate p f) w = snd (switchTab p f w)"
| "apply_op E (Close p) w = snd (closeTab p w)"
| "apply_op E Clear w = snd (clearEditor w)"
| "apply_op E Capture w = snd (getEditorState w)"
| "apply_op E (Restore st root) w = snd (restoreEditorState E st root w)"
| "apply_op E (RestoreCheckpoint st root) w = snd (restoreCheckpointState E st root w)"

fun run_ops :: "env \<Rightarrow> session_op list \<Rightarrow> world \<Rightarrow> world" where
  "run_ops E [] w = w"
| "run_ops E (x # xs) w = run_ops E xs (apply_op E x w)"

text \<open>Every \<^verbatim>\<open>switchTab\<close> of the sequence is called with a path that is open at that moment.\<close>

fun activates_open :: "env \<Rightarrow> session_op list \<Rightarrow> world \<Rightarrow> bool" where
  "activates_open E [] w = True"
| "activates_open E (Activate p f # xs) w =
     (map_has (openFiles w) p \<and> activates_open E xs (apply_op E (Activate p f) w))"
| "activates_open E (x # xs) w = activates_open E xs (apply_op E x w)"

text \<open>
  Restoring a snapshot: the entries whose handle can be acquired (with a project root,
  and the file system not refusing to resolve or create the path), and the path that
  \<^verbatim>\<open>restoreEditorState\<close> activates among them.
\<close>

definition restorable :: "env \<Rightarrow> rootHandle option \<Rightarrow> path \<Rightarrow> bool" where
  "restorable E root p = (root \<noteq> None \<and> fsFault E p True = None)"

definition restored_files :: "env \<Rightarrow> rootHandle option \<Rightarrow> editorState \<Rightarrow> fileSnap list" where
  "restored_files E root st = filter (\<lambda>f. restorable E root (snap_path f)) (es_openFiles st)"

definition restored_active :: "env \<Rightarrow> rootHandle option \<Rightarrow> editorState \<Rightarrow> path option" where
  "restored_active E root st =
     (let first = (case restored_files E root st of [] \<Rightarrow> None | f # _ \<Rightarrow> Some (snap_path f))
      in case es_activeFile st of
           None \<Rightarrow> first
         | Some a \<Rightarrow>
            if truthy a \<and> a \<in> set (map snap_path (restored_files E root st)) then Some a
            else first)"

text \<open>The text that the editor widget shows.\<close>

definition shown_text :: "world \<Rightarrow> string option" where
  "shown_text w = (case editor w of None \<Rightarrow> None | Some e \<Rightarrow> Some (model_value w (ed_model e)))"

text \<open>A snapshot of two files, and an environment whose file system refuses the second.\<close>

definition snapshot_ab :: editorState where
  "snapshot_ab =
     \<lparr>es_openFiles =
        [\<lparr>snap_path = ''a.js'', snap_content = ''saved a'', snap_viewState = None\<rparr>,
         \<lparr>snap_path = ''b.js'', snap_content = ''saved b'', snap_viewState = Some 2\<rparr>],
      es_activeFile = Some ''b.js''\<rparr>"

definition refusing_env :: env where
  "refusing_env =
     quiet_env\<lparr>fsFault := (\<lambda>p c. if p = ''b.js'' then Some (Err ''NotAllowedError'') else None)\<rparr>"

text \<open>The model of that index exists and is disposed.\<close>

definition disposed_at :: "world \<Rightarrow> nat \<Rightarrow> bool" where
  "disposed_at w i = (i < length (models w) \<and> m_disposed (models w ! i))"

text \<open>
  The page with the editor initialised, nothing open, and the given files in the project
  folder; and the tool calls used below.
\<close>

definition project_world :: "(path \<rightharpoonup> string) \<Rightarrow> world" where
  "project_world files =
     \<lparr>fs = files,
      editor = Some \<lparr>ed_model = 0, ed_readOnly = True, ed_view = 0, ed_selection = Some (0, 0)\<rparr>,
      models = [\<lparr>m_value = initial_text, m_language = LanguageId ''html'', m_disposed = False\<rparr>],
      openFiles = [], activeFilePath = None, tabBar = [], focus = FocusNowhere,
      checkpoints = [], codeIndex = None, trace = []\<rparr>"

definition tool_call :: "string \<Rightarrow> args \<Rightarrow> toolCall" where
  "tool_call n a = \<lparr>tc_name = n, tc_args = a\<rparr>"

definition insert_X_at_1 :: toolCall where
  "insert_X_at_1 =
     tool_call ''insert_content''
       (no_args\<lparr>filename := Some ''f.txt'', line_number := Some 1, content := Some ''X''\<rparr>)"

definition big_text :: string where
  "big_text = replicate 30001 (CHR ''a'')"

definition read_big :: toolCall where
  "read_big = tool_call ''read_file'' (no_args\<lparr>filename := Some ''big.txt''\<rparr>)"

text \<open>Everything of the world but the record of the calls made to collaborators.\<close>

definition untraced :: "world \<Rightarrow> world" where
  "untraced w = w\<lparr>trace := []\<rparr>"

text \<open>The message that the execution boundary builds from a thrown error.\<close>

definition wrapped :: "string \<Rightarrow> string \<Rightarrow> string" where
  "wrapped toolName msg = ''Error executing tool '' @ quoted toolName @ '': '' @ msg"

definition known_tools :: "string list" where
  "known_tools =
     [''get_project_structure'', ''read_file'', ''read_url'', ''create_file'', ''delete_file'',
      ''delete_folder'', ''rename_folder'', ''rename_file'', ''create_folder'',
      ''duckduckgo_search'', ''search_code'', ''get_open_file_content'', ''get_selected_text'',
      ''replace_selected_text'', ''run_terminal_command'', ''build_or_update_codebase_index'',
      ''query_codebase'', ''get_file_history'', ''rewrite_file'', ''format_code'',
      ''analyze_code'', ''insert_content'']"

text \<open>The world once \<^verbatim>\<open>execute\<close> has opened the console group and the audit log entry.\<close>

definition logged_call :: "toolCall \<Rightarrow> world \<Rightarrow> world" where
  "logged_call tc w =
     w\<lparr>trace := trace w @ [ConsoleGroup (''AI Tool Call: '' @ tc_name tc),
                             AppendToolLog (tc_name tc) (tc_args tc)]\<rparr>"


text \<open>An environment in which Monaco reports a syntax error on line 3 of every model.\<close>

definition marking_env :: env where
  "marking_env =
     quiet_env\<lparr>modelMarkers :=
       (\<lambda>m. [\<lparr>mk_severity = 8, mk_startLineNumber = 3, mk_message = ''Unexpected token''\<rparr>])\<rparr>"

text \<open>
  The calls of the checkpoint interception recorded so far: the calls of
  \<^verbatim>\<open>DbManager.saveCheckpoint\<close> and the console errors under the label of the
  interception; and two worlds that differ at most in what the checkpoint store holds and
  in the record of calls.
\<close>

fun is_checkpoint_call :: "event \<Rightarrow> bool" where
  "is_checkpoint_call (SaveCheckpoint c) = True"
| "is_checkpoint_call (ConsoleError label msg) = (label = ''Failed to create automatic checkpoint:'')"
| "is_checkpoint_call ev = False"

definition checkpoint_calls :: "world \<Rightarrow> event list" where
  "checkpoint_calls w = filter is_checkpoint_call (trace w)"

definition agree :: "world \<Rightarrow> world \<Rightarrow> bool" where
  "agree w1 w2 =
     (fs w1 = fs w2 \<and> editor w1 = editor w2 \<and> models w1 = models w2
      \<and> openFiles w1 = openFiles w2 \<and> activeFilePath w1 = activeFilePath w2
      \<and> tabBar w1 = tabBar w2 \<and> focus w1 = focus w2 \<and> codeIndex w1 = codeIndex w2)"

text \<open>
  A computation that makes no call of the checkpoint interception and whose result and
  effect do not depend on the checkpoint store or on the record of calls.
\<close>

definition steady :: "'a prog \<Rightarrow> bool" where
  "steady m =
     ((\<forall>w. checkpoint_calls (snd (m w)) = checkpoint_calls w)
      \<and> (\<forall>w1 w2. agree w1 w2 \<longrightarrow> fst (m w1) = fst (m w2) \<and> agree (snd (m w1)) (snd (m w2))))"

text \<open>The checkpoint that the interception builds in a world.\<close>

definition auto_checkpoint :: "env \<Rightarrow> world \<Rightarrow> checkpoint" where
  "auto_checkpoint E w =
     \<lparr>cp_name = ''Auto-Checkpoint @ '' @ dateLocaleString E,
      cp_editorState =
        (case fst (getEditorState w) of
           Inl err \<Rightarrow> \<lparr>es_openFiles = [], es_activeFile = None\<rparr>
         | Inr st \<Rightarrow> st),
      cp_timestamp = dateNow E\<rparr>"

text \<open>An environment whose checkpoint store rejects every record.\<close>

definition failing_db_env :: env where
  "failing_db_env = quiet_env\<lparr>dbFault := (\<lambda>c. Some (Err ''QuotaExceededError''))\<rparr>"

definition create_c :: toolCall where
  "create_c = tool_call ''create_file'' (no_args\<lparr>filename := Some ''c.js'', content := Some ''let c''\<rparr>)"

text \<open>
  The calls that only report or observe: the console, the audit log of tool calls and the
  read of the diagnostics of a model. Every other call reaches the file system, the
  database, the network, the file tree or the chat.
\<close>

fun is_report :: "event \<Rightarrow> bool" where
  "is_report (ConsoleError label msg) = True"
| "is_report (ConsoleLog label obj) = True"
| "is_report (ConsoleGroup label) = True"
| "is_report ConsoleGroupEnd = True"
| "is_report (AppendToolLog n a) = True"
| "is_report (UpdateToolLog ok) = True"
| "is_report (GetModelMarkers m) = True"
| "is_report ev = False"

text \<open>
  The error that acquiring the handle of a path throws in \<^verbatim>\<open>restoreEditorState\<close>: the
  \<^verbatim>\<open>TypeError\<close> of reading a property of the absent project root, or the refusal of
  the file system. A snapshot that names one path twice, with two saved contents.
\<close>

definition restore_error :: "env \<Rightarrow> rootHandle option \<Rightarrow> path \<Rightarrow> error option" where
  "restore_error E root p =
     (case root of
        None \<Rightarrow> Some (undefined_read ''getDirectoryHandle'')
      | Some r \<Rightarrow> fsFault E p True)"

definition snapshot_aba :: editorState where
  "snapshot_aba =
     \<lparr>es_openFiles =
        [\<lparr>snap_path = ''a.js'', snap_content = ''saved a'', snap_viewState = None\<rparr>,
         \<lparr>snap_path = ''b.js'', snap_content = ''saved b'', snap_viewState = Some 2\<rparr>,
         \<lparr>snap_path = ''a.js'', snap_content = ''saved a again'', snap_viewState = None\<rparr>],
      es_activeFile = Some ''b.js''\<rparr>"

section \<open>The root guard\<close>

lemmas monad_defs = returnE_def throwE_def bindE_def thenE_def tryCatch_def unawaited_def
  emit_def console_error_def ask_def change_fs_def

text \<open>
  C4. A tool call whose name is in the root-required list, made without a project root,
  returns at once the error result that starts with "No project folder is open": the
  world is left exactly as it was, so no call to the file system, the editor, the
  persistence store or the network has been made and no checkpoint has been attempted.
\<close>

theorem root_guard_short_circuits:
  assumes "tc_name tc \<in> set root_required"
  shows "executeTool E tc None w = (Inr [(''error'', JStr no_project_message)], w)
         \<and> prefix ''No project folder is open'' no_project_message"
  using assms by (simp add: executeTool_def returnE_def no_project_message_def)

theorem root_guard_short_circuits_witness:
  "tc_name \<lparr>tc_name = ''rewrite_file'', tc_args = no_args\<rparr> \<in> set root_required
   \<and> executeTool quiet_env \<lparr>tc_name = ''rewrite_file'', tc_args = no_args\<rparr> None ready_world
       = (Inr [(''error'', JStr no_project_message)], ready_world)"
  using root_guard_short_circuits [of "\<lparr>tc_name = ''rewrite_file'', tc_args = no_args\<rparr>" quiet_env ready_world]
  by (simp add: root_required_def)

section \<open>Facts about the Map and the combinators\<close>

lemma map_has_iff: "map_has m k = (k \<in> set (map_keys m))"
  by (simp add: map_has_def map_keys_def map_of_eq_None_iff)

lemma map_keys_map_update [simp]: "map_keys (map_update m k f) = map_keys m"
  by (induction m) (auto simp: map_keys_def map_update_def)

lemma map_keys_map_set:
  "map_keys (map_set m k v) = (if k \<in> set (map_keys m) then map_keys m else map_keys m @ [k])"
  by (induction m) (force simp: map_keys_def)+

lemma map_keys_map_delete: "map_keys (map_delete m k) = filter (\<lambda>x. x \<noteq> k) (map_keys m)"
  by (induction m) (auto simp: map_keys_def map_delete_def)

text \<open>The combinators, read through the result and the final state of their first part.\<close>

lemma bindE_alt:
  "bindE m f w = (case fst (m w) of Inl e \<Rightarrow> (Inl e, snd (m w)) | Inr v \<Rightarrow> f v (snd (m w)))"
  by (simp add: bindE_def split: prod.splits sum.splits)

lemma thenE_alt:
  "thenE m n w = (case fst (m w) of Inl e \<Rightarrow> (Inl e, snd (m w)) | Inr v \<Rightarrow> n (snd (m w)))"
  by (simp add: thenE_def bindE_alt)

lemma tryCatch_alt:
  "tryCatch m h w = (case fst (m w) of Inl e \<Rightarrow> h e (snd (m w)) | Inr v \<Rightarrow> (Inr v, snd (m w)))"
  by (simp add: tryCatch_def split: prod.splits sum.splits)

lemmas monad_alt = bindE_alt thenE_alt tryCatch_alt returnE_def throwE_def unawaited_def
  emit_def console_error_def

lemmas editor_defs = withEditor_def editor_setModel_def editor_updateOptions_def
  editor_restoreViewState_def editor_saveViewState_def editor_focus_def model_update_def
  model_dispose_def model_setValue_def createModel_def

lemmas switchTab_defs = switchTab_def saveActiveViewState_def renderTabs_def monad_defs editor_defs

section \<open>Opening a file twice\<close>

lemma switchTab_keys: "map_keys (openFiles (snd (switchTab p f w))) = map_keys (openFiles w)"
  by (auto simp: switchTab_defs split: option.splits prod.splits sum.splits)

lemma switchTab_models: "models (snd (switchTab p f w)) = models w"
  by (auto simp: switchTab_defs split: option.splits prod.splits sum.splits)

lemma openFile_has: "map_has (openFiles w) p \<Longrightarrow> openFile h p f w = switchTab p f w"
  by (simp add: openFile_def)

lemma openFile_keys:
  "map_keys (openFiles (snd (openFile h p f w))) = map_keys (openFiles w)
   \<or> (p \<notin> set (map_keys (openFiles w))
       \<and> map_keys (openFiles (snd (openFile h p f w))) = map_keys (openFiles w) @ [p])"
proof (cases "map_has (openFiles w) p")
  case True
  then show ?thesis by (simp add: openFile_has switchTab_keys)
next
  case False
  then show ?thesis
    by (auto simp: openFile_def handle_getFile_def monad_alt createModel_def switchTab_keys
          map_keys_map_set map_has_iff
        split: option.splits sum.splits)
qed

lemma openFile_distinct:
  "distinct (map_keys (openFiles w)) \<Longrightarrow> distinct (map_keys (openFiles (snd (openFile h p f w))))"
  using openFile_keys [of h p f w] by auto

lemma open_all_distinct:
  "distinct (map_keys (openFiles w)) \<Longrightarrow> distinct (map_keys (openFiles (open_all calls w)))"
  by (induction calls arbitrary: w) (auto simp: openFile_distinct)

text \<open>
  C9. Whatever sequence of \<^verbatim>\<open>openFile\<close> calls is made, the documents never hold two
  entries for one path; and opening a path that is already a document is the same
  computation as \<^verbatim>\<open>switchTab\<close> on that path with the given focus flag: it creates no
  model and leaves the set of documents as it is.
\<close>

theorem open_is_idempotent:
  assumes "distinct (map_keys (openFiles w))"
  shows "distinct (map_keys (openFiles (open_all calls w)))
       \<and> (map_has (openFiles w) p \<longrightarrow>
            openFile h p f w = switchTab p f w
          \<and> models (snd (openFile h p f w)) = models w
          \<and> map_keys (openFiles (snd (openFile h p f w))) = map_keys (openFiles w))"
  using assms by (simp add: open_all_distinct openFile_has switchTab_keys switchTab_models)

theorem open_is_idempotent_witness:
  "distinct (map_keys (openFiles two_open))
   \<and> distinct (map_keys (openFiles (open_all
        [(FileHandle ''b.js'', ''b.js'', False), (FileHandle ''c.js'', ''c.js'', True),
         (FileHandle ''b.js'', ''b.js'', True)] two_open)))
   \<and> map_has (openFiles two_open) ''b.js''
   \<and> openFile (FileHandle ''b.js'') ''b.js'' False two_open = switchTab ''b.js'' False two_open
   \<and> models (snd (openFile (FileHandle ''b.js'') ''b.js'' False two_open)) = models two_open
   \<and> map_keys (openFiles (snd (openFile (FileHandle ''b.js'') ''b.js'' False two_open)))
       = [''a.js'', ''b.js'']"
proof -
  have d: "distinct (map_keys (openFiles two_open))"
    by (simp add: two_open_def map_keys_def)
  have h: "map_has (openFiles two_open) ''b.js''"
    by (simp add: two_open_def map_has_def)
  have k: "map_keys (openFiles two_open) = [''a.js'', ''b.js'']"
    by (simp add: two_open_def map_keys_def)
  note t = open_is_idempotent [OF d, of
        "[(FileHandle ''b.js'', ''b.js'', False), (FileHandle ''c.js'', ''c.js'', True),
          (FileHandle ''b.js'', ''b.js'', True)]" "''b.js''" "FileHandle ''b.js''" False]
  have a: "distinct (map_keys (openFiles (open_all
        [(FileHandle ''b.js'', ''b.js'', False), (FileHandle ''c.js'', ''c.js'', True),
         (FileHandle ''b.js'', ''b.js'', True)] two_open)))"
    by (rule conjunct1 [OF t])
  note b = mp [OF conjunct2 [OF t] h, unfolded k]
  show ?thesis
    by (insert d h a b, elim conjE, intro conjI, assumption+)
qed

section \<open>Closing the active document\<close>







section \<open>The active path is a document\<close>

lemma map_has_map_delete: "map_has (map_delete m p) a = (a \<noteq> p \<and> map_has m a)"
  by (auto simp: map_has_iff map_keys_map_delete)

lemma first_key_has: "first_key m = Some k \<Longrightarrow> map_has m k"
  by (auto simp: first_key_def map_has_def split: list.splits)

lemma first_key_None: "(first_key m = None) = (m = [])"
  by (auto simp: first_key_def split: list.splits)

lemma active_ok_iff: "active_ok w = (\<forall>a. activeFilePath w = Some a \<longrightarrow> map_has (openFiles w) a)"
  by (simp add: active_ok_def split: option.splits)

lemma active_ok_frame [simp]:
  "active_ok (w\<lparr>trace := t\<rparr>) = active_ok w"
  "active_ok (w\<lparr>tabBar := tb\<rparr>) = active_ok w"
  "active_ok (w\<lparr>models := ms\<rparr>) = active_ok w"
  "active_ok (w\<lparr>editor := ed\<rparr>) = active_ok w"
  "active_ok (w\<lparr>focus := fo\<rparr>) = active_ok w"
  "active_ok (w\<lparr>fs := fl\<rparr>) = active_ok w"
  by (simp_all add: active_ok_iff)

lemma active_ok_None [simp]: "active_ok (w\<lparr>activeFilePath := None\<rparr>)"
  by (simp add: active_ok_iff)

lemma disposeAndDelete_frame [simp]:
  "fst (disposeAndDelete p w) = Inr ()"
  "openFiles (snd (disposeAndDelete p w)) = map_delete (openFiles w) p"
  "activeFilePath (snd (disposeAndDelete p w)) = activeFilePath w"
  "editor (snd (disposeAndDelete p w)) = editor w"
  "length (models (snd (disposeAndDelete p w))) = length (models w)"
  "fs (snd (disposeAndDelete p w)) = fs w"
  "focus (snd (disposeAndDelete p w)) = focus w"
  "trace (snd (disposeAndDelete p w)) = trace w"
  "checkpoints (snd (disposeAndDelete p w)) = checkpoints w"
  "codeIndex (snd (disposeAndDelete p w)) = codeIndex w"
  by (auto simp: disposeAndDelete_def monad_defs editor_defs split: option.splits)

lemma renderTabs_frame [simp]:
  "fst (renderTabs w) = Inr ()"
  "openFiles (snd (renderTabs w)) = openFiles w"
  "activeFilePath (snd (renderTabs w)) = activeFilePath w"
  "editor (snd (renderTabs w)) = editor w"
  "models (snd (renderTabs w)) = models w"
  "fs (snd (renderTabs w)) = fs w"
  "focus (snd (renderTabs w)) = focus w"
  "trace (snd (renderTabs w)) = trace w"
  "checkpoints (snd (renderTabs w)) = checkpoints w"
  "codeIndex (snd (renderTabs w)) = codeIndex w"
  by (simp_all add: renderTabs_def)

lemma clearEditor_frame [simp]:
  "fst (clearEditor w) = Inr ()"
  "openFiles (snd (clearEditor w)) = []"
  "activeFilePath (snd (clearEditor w)) = None"
  "fs (snd (clearEditor w)) = fs w"
  "focus (snd (clearEditor w)) = focus w"
  "trace (snd (clearEditor w)) = trace w"
  "checkpoints (snd (clearEditor w)) = checkpoints w"
  "codeIndex (snd (clearEditor w)) = codeIndex w"
  by (auto simp: clearEditor_def monad_defs editor_defs split: option.splits)

lemma switchTab_active_ok:
  "map_has (openFiles w) p \<Longrightarrow> active_ok (snd (switchTab p f w))"
  by (auto simp: active_ok_iff map_has_iff switchTab_defs
      split: option.splits prod.splits sum.splits)

lemma saveActiveViewState_active_ok:
  "active_ok w \<Longrightarrow> active_ok (snd (saveActiveViewState w))"
  by (auto simp: active_ok_iff map_has_iff saveActiveViewState_def monad_defs editor_defs
      split: option.splits prod.splits sum.splits)

lemma clearEditor_active_ok: "active_ok (snd (clearEditor w))"
  by (simp add: active_ok_iff)

lemma renderTabs_active_ok [simp]: "active_ok (snd (renderTabs w)) = active_ok w"
  by (simp add: active_ok_iff)

lemma initializeEditor_active_ok: "active_ok w \<Longrightarrow> active_ok (snd (initializeEditor w))"
  by (auto simp: initializeEditor_def renderTabs_def monad_defs editor_defs)

lemma getEditorState_active_ok: "active_ok w \<Longrightarrow> active_ok (snd (getEditorState w))"
  using saveActiveViewState_active_ok [of w]
  by (auto simp: getEditorState_def monad_alt split: sum.splits)

lemma closeTab_active_ok:
  assumes "active_ok w"
  shows "active_ok (snd (closeTab p w))"
proof (cases "activeFilePath w = Some p")
  case False
  with assms show ?thesis
    by (auto simp: closeTab_def thenE_alt active_ok_iff map_has_map_delete split: option.splits)
next
  case True
  have s: "active_ok (snd (switchTab q True w'))" if "first_key (openFiles w') = Some q" for q w'
    using that by (intro switchTab_active_ok first_key_has)
  from True show ?thesis
    by (auto simp: closeTab_def thenE_alt unawaited_def s clearEditor_active_ok
        split: option.splits)
qed

lemma openFile_active_ok: "active_ok w \<Longrightarrow> active_ok (snd (openFile h p f w))"
proof (cases "map_has (openFiles w) p")
  case True
  then show ?thesis by (simp add: openFile_has switchTab_active_ok)
next
  case False
  assume ok: "active_ok w"
  show ?thesis
  proof (cases "fs w (handle_path h)")
    case None
    with False ok show ?thesis
      by (auto simp: openFile_def handle_getFile_def monad_alt split: option.splits)
  next
    case (Some c)
    have "map_has (map_set (openFiles w) p v) p" for v
      by (simp add: map_has_iff map_keys_map_set)
    then have "active_ok (snd (switchTab p f (w'\<lparr>openFiles := map_set (openFiles w) p v\<rparr>)))" for v w'
      by (intro switchTab_active_ok) simp
    with False Some show ?thesis
      by (auto simp: openFile_def handle_getFile_def monad_alt createModel_def
          split: option.splits sum.splits)
  qed
qed

lemma restoreFile_frame:
  "fst (restoreFile E root f w) = Inr ()
   \<and> activeFilePath (snd (restoreFile E root f w)) = activeFilePath w
   \<and> editor (snd (restoreFile E root f w)) = editor w
   \<and> focus (snd (restoreFile E root f w)) = focus w
   \<and> set (map_keys (openFiles w)) \<subseteq> set (map_keys (openFiles (snd (restoreFile E root f w))))"
  by (auto simp: restoreFile_def getFileHandleFromPath_def monad_alt createModel_def map_keys_map_set
      split: option.splits sum.splits)

lemma restoreFiles_frame:
  "fst (restoreFiles E root files w) = Inr ()
   \<and> activeFilePath (snd (restoreFiles E root files w)) = activeFilePath w
   \<and> editor (snd (restoreFiles E root files w)) = editor w
   \<and> focus (snd (restoreFiles E root files w)) = focus w
   \<and> set (map_keys (openFiles w)) \<subseteq> set (map_keys (openFiles (snd (restoreFiles E root files w))))"
proof (induction files arbitrary: w)
  case Nil
  show ?case by (simp add: returnE_def)
next
  case (Cons f files)
  show ?case
    using restoreFile_frame [of E root f w] Cons.IH [of "snd (restoreFile E root f w)"]
    by (auto simp: thenE_alt)
qed

lemma restoreEditorState_active_ok:
  assumes "active_ok w"
  shows "active_ok (snd (restoreEditorState E st root w))"
proof (cases st)
  case None
  with assms show ?thesis by (simp add: restoreEditorState_def returnE_def)
next
  case (Some s)
  define w1 where "w1 = snd (restoreFiles E root (es_openFiles s) w)"
  have f: "fst (restoreFiles E root (es_openFiles s) w) = Inr ()"
    and a: "activeFilePath w1 = activeFilePath w"
    and k: "set (map_keys (openFiles w)) \<subseteq> set (map_keys (openFiles w1))"
    using restoreFiles_frame [of E root "es_openFiles s" w] by (simp_all add: w1_def)
  have ok1: "active_ok w1"
    using assms a k by (auto simp: active_ok_iff map_has_iff)
  have sw: "active_ok (snd (switchTab q True w1))" if "first_key (openFiles w1) = Some q" for q
    using that by (intro switchTab_active_ok first_key_has)
  show ?thesis
    using Some f ok1 sw
    by (auto simp: restoreEditorState_def thenE_alt w1_def [symmetric] switchTab_active_ok
        split: option.splits if_splits)
qed

lemma disposeFiles_frame [simp]:
  "fst (disposeFiles ps w) = Inr ()"
  "activeFilePath (snd (disposeFiles ps w)) = activeFilePath w"
  "editor (snd (disposeFiles ps w)) = editor w"
  "focus (snd (disposeFiles ps w)) = focus w"
  by (induction ps arbitrary: w) (simp_all add: returnE_def thenE_alt)

lemma restoreCheckpointState_active_ok:
  "active_ok (snd (restoreCheckpointState E st root w))"
  by (simp add: restoreCheckpointState_def thenE_alt restoreEditorState_active_ok)

lemma apply_op_active_ok:
  assumes "active_ok w" and "activates_open E [x] w"
  shows "active_ok (apply_op E x w)"
  using assms
  by (cases x)
     (simp_all add: initializeEditor_active_ok openFile_active_ok switchTab_active_ok
        closeTab_active_ok clearEditor_active_ok getEditorState_active_ok
        restoreEditorState_active_ok restoreCheckpointState_active_ok)

lemma activates_open_Cons:
  "activates_open E (x # xs) w = (activates_open E [x] w \<and> activates_open E xs (apply_op E x w))"
  by (cases x) simp_all

lemma run_ops_active_ok:
  "active_ok w \<Longrightarrow> activates_open E xs w \<Longrightarrow> active_ok (run_ops E xs w)"
proof (induction xs arbitrary: w)
  case Nil
  then show ?case by simp
next
  case (Cons x xs)
  from Cons.prems have "activates_open E [x] w" and "activates_open E xs (apply_op E x w)"
    by (simp_all add: activates_open_Cons [of E x xs])
  with Cons.prems(1) Cons.IH [of "apply_op E x w"] show ?case
    by (simp add: apply_op_active_ok)
qed

text \<open>
  C8 (amended). The session before the editor is initialised satisfies the invariant, and
  from any session that satisfies it, every sequence of initialize, open, switchTab,
  close, clearEditor, getEditorState and the two snapshot restores in which each
  \<^verbatim>\<open>switchTab\<close> is called with a path that is open at that moment leads to a session
  whose active path is null or a key of the documents.
\<close>

theorem active_path_invariant:
  "active_ok empty_world
   \<and> (active_ok w \<longrightarrow> activates_open E xs w \<longrightarrow> active_ok (run_ops E xs w))"
  by (simp add: run_ops_active_ok) (simp add: active_ok_def empty_world_def)

theorem active_path_invariant_witness:
  "active_ok two_open
   \<and> activates_open quiet_env [Close ''a.js'', Activate ''b.js'' False, Capture, Clear] two_open
   \<and> active_ok (run_ops quiet_env [Close ''a.js'', Activate ''b.js'' False, Capture, Clear] two_open)"
proof -
  have a: "active_ok two_open"
    by (simp add: active_ok_def two_open_def map_has_def)
  have b: "activates_open quiet_env [Close ''a.js'', Activate ''b.js'' False, Capture, Clear] two_open"
    by (simp add: two_open_def closeTab_def disposeAndDelete_def clearEditor_def switchTab_defs
        model_at_def map_get_def first_key_def map_has_def map_delete_def truthy_def)
  from a b active_path_invariant
    [of two_open quiet_env "[Close ''a.js'', Activate ''b.js'' False, Capture, Clear]"]
  show ?thesis by blast
qed

text \<open>
  The claim as stated fails: \<^verbatim>\<open>switchTab\<close> assigns the active path before it looks the
  path up, so called on a path that is not open it leaves an active path that is no
  document.
\<close>

theorem switchTab_unknown_path_breaks_invariant:
  "\<not> active_ok (run_ops quiet_env [Initialize, Activate ''a.js'' True] empty_world)"
  by (simp add: active_ok_def empty_world_def initializeEditor_def switchTab_defs map_get_def
      map_has_def)

section \<open>Restoring a checkpoint\<close>

lemma map_get_map_delete: "map_get (map_delete m k) k' = (if k' = k then None else map_get m k')"
  by (induction m) (auto simp: map_get_def map_delete_def)

lemma map_get_map_update:
  "map_get (map_update m k g) k' = (if k' = k then map_option g (map_get m k') else map_get m k')"
  by (induction m) (auto simp: map_get_def map_update_def)

lemma map_map_update:
  "(\<And>d. h (g d) = h d) \<Longrightarrow>
   map (\<lambda>kv. (fst kv, h (snd kv))) (map_update m k g) = map (\<lambda>kv. (fst kv, h (snd kv))) m"
  by (induction m) (auto simp: map_update_def)

lemma map_map_set:
  "map (\<lambda>kv. (fst kv, h (snd kv))) (map_set m k v) = map_set (map (\<lambda>kv. (fst kv, h (snd kv))) m) k (h v)"
  by (induction m) auto

lemma map_set_fresh: "k \<notin> set (map_keys m) \<Longrightarrow> map_set m k v = m @ [(k, v)]"
  by (induction m) (auto simp: map_keys_def)

lemma disposeAndDelete_disposed:
  "disposed_at w i \<Longrightarrow> disposed_at (snd (disposeAndDelete p w)) i"
  by (auto simp: disposed_at_def disposeAndDelete_def monad_defs editor_defs model_at_def nth_list_update
      split: option.splits)

lemma disposeAndDelete_disposes:
  "map_get (openFiles w) p = Some d \<Longrightarrow> fd_model d < length (models w) \<Longrightarrow>
   disposed_at (snd (disposeAndDelete p w)) (fd_model d)"
  by (auto simp: disposed_at_def disposeAndDelete_def monad_defs editor_defs model_at_def
      split: option.splits)

lemma disposeFiles_disposed:
  "disposed_at w i \<Longrightarrow> disposed_at (snd (disposeFiles ps w)) i"
  by (induction ps arbitrary: w) (simp_all add: returnE_def thenE_alt disposeAndDelete_disposed)

lemma disposeFiles_disposes:
  "distinct ps \<Longrightarrow> k \<in> set ps \<Longrightarrow> map_get (openFiles w) k = Some d \<Longrightarrow>
   fd_model d < length (models w) \<Longrightarrow>
   disposed_at (snd (disposeFiles ps w)) (fd_model d)"
proof (induction ps arbitrary: w)
  case Nil
  then show ?case by simp
next
  case (Cons p ps)
  show ?case
  proof (cases "k = p")
    case True
    with Cons.prems show ?thesis
      by (simp add: thenE_alt disposeFiles_disposed disposeAndDelete_disposes)
  next
    case False
    with Cons.prems have "disposed_at (snd (disposeFiles ps (snd (disposeAndDelete p w)))) (fd_model d)"
      by (intro Cons.IH) (simp_all add: map_get_map_delete)
    then show ?thesis by (simp add: thenE_alt)
  qed
qed

lemma disposeFiles_empties:
  "set (map_keys (openFiles w)) \<subseteq> set ps \<Longrightarrow> openFiles (snd (disposeFiles ps w)) = []"
proof (induction ps arbitrary: w)
  case Nil
  then show ?case by (simp add: returnE_def map_keys_def)
next
  case (Cons p ps)
  from Cons.prems have "set (map_keys (openFiles (snd (disposeAndDelete p w)))) \<subseteq> set ps"
    by (auto simp: map_keys_map_delete)
  then show ?case by (simp add: thenE_alt Cons.IH)
qed

lemma disposeFiles_models_length [simp]:
  "length (models (snd (disposeFiles ps w))) = length (models w)"
  by (induction ps arbitrary: w) (simp_all add: returnE_def thenE_alt)

lemma restoreFile_disposed:
  "disposed_at w i \<Longrightarrow> disposed_at (snd (restoreFile E root f w)) i"
  by (auto simp: disposed_at_def restoreFile_def getFileHandleFromPath_def monad_alt createModel_def
        nth_append
      split: option.splits sum.splits)

lemma restoreFiles_disposed:
  "disposed_at w i \<Longrightarrow> disposed_at (snd (restoreFiles E root files w)) i"
  by (induction files arbitrary: w) (simp_all add: returnE_def thenE_alt restoreFile_disposed restoreFile_frame)

lemma refs_ok_iff: "refs_ok w = (\<forall>kv \<in> set (openFiles w). fd_model (snd kv) < length (models w))"
  by (simp add: refs_ok_def list_all_iff)

lemma open_texts_frame [simp]:
  "open_texts (w\<lparr>trace := t\<rparr>) = open_texts w"
  "open_texts (w\<lparr>fs := fl\<rparr>) = open_texts w"
  "open_texts (w\<lparr>tabBar := tb\<rparr>) = open_texts w"
  "open_texts (w\<lparr>editor := ed\<rparr>) = open_texts w"
  "open_texts (w\<lparr>focus := fo\<rparr>) = open_texts w"
  "open_texts (w\<lparr>activeFilePath := ac\<rparr>) = open_texts w"
  by (simp_all add: open_texts_def model_value_def model_at_def)

lemma refs_ok_frame [simp]:
  "refs_ok (w\<lparr>trace := t\<rparr>) = refs_ok w"
  "refs_ok (w\<lparr>fs := fl\<rparr>) = refs_ok w"
  "refs_ok (w\<lparr>tabBar := tb\<rparr>) = refs_ok w"
  "refs_ok (w\<lparr>editor := ed\<rparr>) = refs_ok w"
  "refs_ok (w\<lparr>focus := fo\<rparr>) = refs_ok w"
  "refs_ok (w\<lparr>activeFilePath := ac\<rparr>) = refs_ok w"
  by (simp_all add: refs_ok_def)

lemma open_texts_add:
  assumes "refs_ok w" and "fd_model d = length (models w)"
    and "models W = models w @ [m]" and "openFiles W = map_set (openFiles w) p d"
  shows "open_texts W = map_set (open_texts w) p (m_value m) \<and> refs_ok W"
proof -
  have old: "model_value W (fd_model (snd kv)) = model_value w (fd_model (snd kv))"
    if "kv \<in> set (openFiles w)" for kv
    using assms(1,3) that by (auto simp: refs_ok_iff model_value_def model_at_def nth_append)
  have new: "model_value W (fd_model d) = m_value m"
    using assms(2,3) by (simp add: model_value_def model_at_def)
  have "open_texts W = map_set (map (\<lambda>kv. (fst kv, model_value W (fd_model (snd kv)))) (openFiles w)) p
          (model_value W (fd_model d))"
    using map_map_set [of "\<lambda>x. model_value W (fd_model x)" "openFiles w" p d]
    by (simp add: open_texts_def assms(4))
  also have "map (\<lambda>kv. (fst kv, model_value W (fd_model (snd kv)))) (openFiles w) = open_texts w"
    unfolding open_texts_def by (rule map_cong) (simp_all add: old)
  finally have "open_texts W = map_set (open_texts w) p (m_value m)"
    by (simp add: new)
  moreover have "kv \<in> set (map_set m' k v) \<Longrightarrow> kv \<in> set m' \<or> kv = (k, v)" for kv m' k and v :: fileData
    by (induction m') (auto split: if_splits)
  then have "refs_ok W"
    using assms by (fastforce simp: refs_ok_iff)
  ultimately show ?thesis by simp
qed

lemma restoreFile_texts:
  assumes "refs_ok w"
  shows "refs_ok (snd (restoreFile E root f w))
       \<and> open_texts (snd (restoreFile E root f w))
           = (if restorable E root (snap_path f)
              then map_set (open_texts w) (snap_path f) (snap_content f) else open_texts w)"
proof (cases "restorable E root (snap_path f)")
  case False
  with assms show ?thesis
    by (auto simp: restorable_def restoreFile_def getFileHandleFromPath_def monad_alt
        split: option.splits)
next
  case True
  define d where "d = \<lparr>fd_handle = FileHandle (snap_path f), fd_name = basename (snap_path f),
      fd_model = length (models w), fd_viewState = snap_viewState f\<rparr>"
  define m where "m = \<lparr>m_value = snap_content f,
      m_language = getLanguageFromExtension (extension (snap_path f)), m_disposed = False\<rparr>"
  have "models (snd (restoreFile E root f w)) = models w @ [m]"
    and "openFiles (snd (restoreFile E root f w)) = map_set (openFiles w) (snap_path f) d"
    using True
    by (auto simp: d_def m_def restorable_def restoreFile_def getFileHandleFromPath_def monad_alt
        createModel_def split: option.splits)
  from open_texts_add [OF assms _ this, of ] True show ?thesis
    by (simp add: d_def m_def)
qed


lemma restoreFiles_texts:
  "refs_ok w \<Longrightarrow>
   refs_ok (snd (restoreFiles E root files w))
   \<and> open_texts (snd (restoreFiles E root files w))
       = fold (\<lambda>f t. if restorable E root (snap_path f)
                      then map_set t (snap_path f) (snap_content f) else t) files (open_texts w)"
proof (induction files arbitrary: w)
  case Nil
  then show ?case by (simp add: returnE_def)
next
  case (Cons f files)
  from restoreFile_texts [OF Cons.prems, of E root f] restoreFile_frame [of E root f w]
    Cons.IH [of "snd (restoreFile E root f w)"]
  show ?case by (simp add: thenE_alt)
qed

lemma fold_map_set_fresh:
  "distinct (map snap_path files) \<Longrightarrow> set (map snap_path files) \<inter> set (map_keys t) = {} \<Longrightarrow>
   fold (\<lambda>f t. if P (snap_path f) then map_set t (snap_path f) (snap_content f) else t) files t
     = t @ map (\<lambda>f. (snap_path f, snap_content f)) (filter (\<lambda>f. P (snap_path f)) files)"
proof (induction files arbitrary: t)
  case Nil
  then show ?case by simp
next
  case (Cons f files)
  show ?case
  proof (cases "P (snap_path f)")
    case False
    with Cons.prems Cons.IH [of t] show ?thesis by simp
  next
    case True
    from Cons.prems have fresh: "snap_path f \<notin> set (map_keys t)"
      by auto
    from Cons.prems have "set (map snap_path files) \<inter> set (map_keys (t @ [(snap_path f, snap_content f)])) = {}"
      by (auto simp: map_keys_def)
    with Cons.prems Cons.IH [of "t @ [(snap_path f, snap_content f)]"] True fresh show ?thesis
      by (simp add: map_set_fresh)
  qed
qed

lemma map_of_map_snd:
  "map_of (map (\<lambda>kv. (fst kv, h (snd kv))) m) p = map_option h (map_of m p)"
  by (induction m) auto

lemma map_of_open_texts:
  "map_of (open_texts w) p = map_option (\<lambda>d. model_value w (fd_model d)) (map_get (openFiles w) p)"
  unfolding open_texts_def map_get_def by (rule map_of_map_snd)

lemma open_texts_eqI:
  assumes "models w' = models w"
    and "map (\<lambda>kv. (fst kv, fd_model (snd kv))) (openFiles w')
         = map (\<lambda>kv. (fst kv, fd_model (snd kv))) (openFiles w)"
  shows "open_texts w' = open_texts w"
proof -
  have a: "open_texts v = map (\<lambda>ki. (fst ki, model_value v (snd ki)))
      (map (\<lambda>kv. (fst kv, fd_model (snd kv))) (openFiles v))" for v
    by (simp add: open_texts_def comp_def)
  have mv: "model_value w' = model_value w"
    using assms(1) by (simp add: fun_eq_iff model_value_def model_at_def)
  show ?thesis
    by (simp only: a [of w'] a [of w] assms(2) mv)
qed

lemma switchTab_refs:
  "map (\<lambda>kv. (fst kv, fd_model (snd kv))) (openFiles (snd (switchTab p f w)))
   = map (\<lambda>kv. (fst kv, fd_model (snd kv))) (openFiles w)"
proof -
  have t: "map (\<lambda>kv. (fst kv, fd_model (snd kv))) (map_update m a (\<lambda>d. d\<lparr>fd_viewState := v\<rparr>))
      = map (\<lambda>kv. (fst kv, fd_model (snd kv))) m" for m a v
    by (rule map_map_update) simp
  show ?thesis
    by (auto simp: switchTab_defs t split: option.splits prod.splits sum.splits)
qed

lemma switchTab_texts: "open_texts (snd (switchTab p f w)) = open_texts w"
  by (rule open_texts_eqI) (simp_all add: switchTab_models switchTab_refs)

lemma switchTab_shows:
  assumes "editor w = Some e" and "map_has (openFiles w) p"
  shows "fst (switchTab p f w) = Inr ()"
    and "activeFilePath (snd (switchTab p f w)) = Some p"
    and "shown_text (snd (switchTab p f w)) = map_of (open_texts w) p"
    and "focus (snd (switchTab p f w)) = (if f then FocusEditor else focus w)"
    and "map tab_path (tabBar (snd (switchTab p f w))) = map fst (open_texts w)"
proof -
  obtain d where d: "map_get (openFiles w) p = Some d"
    using assms(2) by (auto simp: map_has_def map_get_def)
  have n: "map fst (map_update m a g) = map fst m" for m :: "(path \<times> fileData) list" and a g
    using map_keys_map_update [of m a g] by (simp add: map_keys_def)
  show "fst (switchTab p f w) = Inr ()"
    using assms d
    by (auto simp: switchTab_defs map_get_map_update split: option.splits)
  show "activeFilePath (snd (switchTab p f w)) = Some p"
    using assms d
    by (auto simp: switchTab_defs map_get_map_update split: option.splits)
  show "shown_text (snd (switchTab p f w)) = map_of (open_texts w) p"
    using assms d
    by (auto simp: map_of_open_texts shown_text_def switchTab_defs map_get_map_update
          model_value_def model_at_def
        split: option.splits)
  show "focus (snd (switchTab p f w)) = (if f then FocusEditor else focus w)"
    using assms d
    by (auto simp: switchTab_defs map_get_map_update split: option.splits)
  show "map tab_path (tabBar (snd (switchTab p f w))) = map fst (open_texts w)"
    using assms d
    by (auto simp: switchTab_defs map_get_map_update open_texts_def n comp_def split: option.splits)
qed


lemma first_key_Nil: "first_key [] = None"
  by (simp add: first_key_def)

lemma first_key_open_texts:
  "first_key (openFiles w) = (case open_texts w of [] \<Rightarrow> None | kt # _ \<Rightarrow> Some (fst kt))"
  by (cases "openFiles w") (simp_all add: first_key_def open_texts_def)

lemma map_has_open_texts: "map_has (openFiles w) p = (p \<in> set (map fst (open_texts w)))"
  by (simp add: map_has_iff map_keys_def open_texts_def comp_def)

lemma fold_if_filter:
  "fold (\<lambda>f t. if P f then g f t else t) xs t = fold g (filter P xs) t"
  by (induction xs arbitrary: t) simp_all

lemma remdups_drop_later:
  "k \<in> set ys \<Longrightarrow> remdups (zs @ k # ys) = remdups (zs @ ys)"
  by (induction zs) auto

lemma fold_map_set_keys:
  "distinct (map fst t) \<Longrightarrow>
   map fst (fold (\<lambda>f t. map_set t (k f) (v f)) xs t) = rev (remdups (rev (map fst t @ map k xs)))"
proof (induction xs arbitrary: t)
  case Nil
  then show ?case by (simp add: distinct_remdups_id)
next
  case (Cons f xs)
  have keys: "map fst (map_set t (k f) (v f))
      = (if k f \<in> set (map fst t) then map fst t else map fst t @ [k f])"
    using map_keys_map_set [of t "k f" "v f"] by (simp add: map_keys_def)
  with Cons.prems have "distinct (map fst (map_set t (k f) (v f)))"
    by (simp split: if_splits)
  from Cons.IH [OF this] show ?case
  proof (cases "k f \<in> set (map fst t)")
    case True
    then have "k f \<in> set (rev (map fst t))"
      by simp
    from remdups_drop_later [OF this, of "rev (map k xs)"] True keys
      Cons.IH [OF \<open>distinct (map fst (map_set t (k f) (v f)))\<close>]
    show ?thesis by simp
  next
    case False
    with keys Cons.IH [OF \<open>distinct (map fst (map_set t (k f) (v f)))\<close>]
    show ?thesis by simp
  qed
qed

lemma map_of_map_set: "map_of (map_set m k v) = (map_of m)(k \<mapsto> v)"
  by (induction m) (auto simp: fun_eq_iff)

lemma fold_map_set_map_of:
  "map_of (fold (\<lambda>f t. map_set t (k f) (v f)) xs t)
     = map_of t ++ map_of (rev (map (\<lambda>f. (k f, v f)) xs))"
  by (induction xs arbitrary: t)
    (auto simp: map_of_map_set fun_eq_iff map_add_def split: option.splits)

lemma first_of_first_occurrences:
  "(case rev (remdups (rev ys)) of [] \<Rightarrow> None | p # _ \<Rightarrow> Some p)
     = (case ys of [] \<Rightarrow> None | y # _ \<Rightarrow> Some y)"
proof (cases ys)
  case Nil
  then show ?thesis by simp
next
  case (Cons y r)
  have "remdups (zs @ [y]) = remdups (filter (\<lambda>x. x \<noteq> y) zs) @ [y]" for zs
    by (induction zs) auto
  from this [of "rev r"] Cons show ?thesis by simp
qed

lemma restorable_iff: "restorable E root p = (restore_error E root p = None)"
  by (simp add: restorable_def restore_error_def split: option.splits)

lemma restoreFile_trace:
  "trace (snd (restoreFile E root f w))
     = trace w @ ResolveHandle (snap_path f) True
         # (case restore_error E root (snap_path f) of
              None \<Rightarrow> []
            | Some err \<Rightarrow> [ConsoleError (''Could not restore file '' @ snap_path f @ '':'') (message err)])"
  by (auto simp: restoreFile_def restore_error_def getFileHandleFromPath_def monad_alt createModel_def
      split: option.splits)

lemma restoreFiles_trace:
  "trace (snd (restoreFiles E root files w))
     = trace w @ concat (map (\<lambda>f. ResolveHandle (snap_path f) True
         # (case restore_error E root (snap_path f) of
              None \<Rightarrow> []
            | Some err \<Rightarrow> [ConsoleError (''Could not restore file '' @ snap_path f @ '':'') (message err)]))
         files)"
proof (induction files arbitrary: w)
  case Nil
  show ?case by (simp add: returnE_def)
next
  case (Cons f files)
  from restoreFile_trace [of E root f w] restoreFile_frame [of E root f w]
    Cons.IH [of "snd (restoreFile E root f w)"]
  show ?case by (simp add: thenE_alt)
qed

lemma disposeFiles_trace: "trace (snd (disposeFiles ps w)) = trace w"
  by (induction ps arbitrary: w) (simp_all add: returnE_def thenE_alt)

lemma switchTab_trace: "trace (snd (switchTab p f w)) = trace w"
  by (auto simp: switchTab_defs split: option.splits prod.splits sum.splits)

lemma restoreCheckpointState_result:
  assumes e: "editor w = Some e" and dk: "distinct (map_keys (openFiles w))" and ro: "refs_ok w"
  shows "list_all (\<lambda>kv. m_disposed (models (snd (restoreCheckpointState E (Some st) root w)) ! fd_model (snd kv)))
           (openFiles w)"
    and "map fst (open_texts (snd (restoreCheckpointState E (Some st) root w)))
           = rev (remdups (rev (map snap_path (restored_files E root st))))"
    and "map_of (open_texts (snd (restoreCheckpointState E (Some st) root w)))
           = map_of (rev (map (\<lambda>f. (snap_path f, snap_content f)) (restored_files E root st)))"
    and "distinct (map snap_path (es_openFiles st)) \<Longrightarrow>
         open_texts (snd (restoreCheckpointState E (Some st) root w))
           = map (\<lambda>f. (snap_path f, snap_content f)) (restored_files E root st)"
    and "activeFilePath (snd (restoreCheckpointState E (Some st) root w)) = restored_active E root st"
    and "case restored_active E root st of
           None \<Rightarrow> tabBar (snd (restoreCheckpointState E (Some st) root w)) = []
         | Some a \<Rightarrow>
             shown_text (snd (restoreCheckpointState E (Some st) root w))
               = map_of (rev (map (\<lambda>f. (snap_path f, snap_content f)) (restored_files E root st))) a
           \<and> focus (snd (restoreCheckpointState E (Some st) root w)) = FocusEditor"
    and "trace (snd (restoreCheckpointState E (Some st) root w))
           = trace w @ concat (map (\<lambda>f. ResolveHandle (snap_path f) True
               # (case restore_error E root (snap_path f) of
                    None \<Rightarrow> []
                  | Some err \<Rightarrow>
                      [ConsoleError (''Could not restore file '' @ snap_path f @ '':'') (message err)]))
               (es_openFiles st))"
proof -
  define T where "T = rev (map (\<lambda>f. (snap_path f, snap_content f)) (restored_files E root st))"
  define w1 where "w1 = snd (disposeFiles (map_keys (openFiles w)) w)"
  define w2 where "w2 = w1\<lparr>activeFilePath := None\<rparr>"
  define w3 where "w3 = snd (restoreFiles E root (es_openFiles st) w2)"
  define w' where "w' = snd (restoreCheckpointState E (Some st) root w)"
  have o1: "openFiles w1 = []"
    unfolding w1_def by (rule disposeFiles_empties) simp
  have e3: "editor w3 = Some e" and a3: "activeFilePath w3 = None"
    using restoreFiles_frame [of E root "es_openFiles st" w2] e
    by (simp_all add: w3_def w2_def w1_def)
  have "refs_ok w2"
    by (simp add: w2_def refs_ok_def o1)
  moreover have "open_texts w2 = []"
    by (simp add: w2_def open_texts_def o1)
  ultimately have f3: "open_texts w3 = fold (\<lambda>f t. if restorable E root (snap_path f)
                      then map_set t (snap_path f) (snap_content f) else t) (es_openFiles st) []"
    using restoreFiles_texts [of w2 E root "es_openFiles st"] by (simp add: w3_def)
  then have g3: "open_texts w3 = fold (\<lambda>f t. map_set t (snap_path f) (snap_content f))
      (restored_files E root st) []"
    using fold_if_filter [where P = "\<lambda>f. restorable E root (snap_path f)"
        and g = "\<lambda>f t. map_set t (snap_path f) (snap_content f)" and xs = "es_openFiles st"
        and t = "[]"]
    by (simp add: restored_files_def)
  have k3: "map fst (open_texts w3) = rev (remdups (rev (map snap_path (restored_files E root st))))"
    using fold_map_set_keys [where t = "[]" and k = snap_path and v = snap_content
        and xs = "restored_files E root st"]
    by (simp add: g3)
  have m3: "map_of (open_texts w3) = map_of T"
    using fold_map_set_map_of [where t = "[]" and k = snap_path and v = snap_content
        and xs = "restored_files E root st"]
    by (simp add: g3 T_def)
  have d3: "open_texts w3 = map (\<lambda>f. (snap_path f, snap_content f)) (restored_files E root st)"
    if "distinct (map snap_path (es_openFiles st))"
    using fold_map_set_fresh [OF that, of "[]" "restorable E root"]
    by (simp add: f3 restored_files_def map_keys_def)
  have run: "restoreCheckpointState E (Some st) root w =
      (case (case es_activeFile st of
               None \<Rightarrow> None
             | Some a \<Rightarrow> if truthy a \<and> map_has (openFiles w3) a then Some a else None) of
         Some a \<Rightarrow> switchTab a True w3
       | None \<Rightarrow>
          (case first_key (openFiles w3) of
             Some firstFile \<Rightarrow> switchTab firstFile True w3
           | None \<Rightarrow> renderTabs w3))"
    unfolding w3_def w2_def w1_def
    using restoreFiles_frame [of E root "es_openFiles st"
        "snd (disposeFiles (map_keys (openFiles w)) w)\<lparr>activeFilePath := None\<rparr>"]
    by (simp add: restoreCheckpointState_def restoreEditorState_def thenE_alt)
  have ms: "models w' = models w3"
    unfolding w'_def run
    by (auto simp: switchTab_models split: option.splits)
  have t': "open_texts w' = open_texts w3"
    unfolding w'_def run
    by (auto simp: switchTab_texts renderTabs_def split: option.splits)
  have tr: "trace w' = trace w3"
    unfolding w'_def run
    by (auto simp: switchTab_trace split: option.splits)
  show "map fst (open_texts (snd (restoreCheckpointState E (Some st) root w)))
           = rev (remdups (rev (map snap_path (restored_files E root st))))"
    using t' k3 by (simp add: w'_def)
  show "map_of (open_texts (snd (restoreCheckpointState E (Some st) root w)))
           = map_of (rev (map (\<lambda>f. (snap_path f, snap_content f)) (restored_files E root st)))"
    using t' m3 by (simp add: w'_def T_def)
  show "open_texts (snd (restoreCheckpointState E (Some st) root w))
           = map (\<lambda>f. (snap_path f, snap_content f)) (restored_files E root st)"
    if "distinct (map snap_path (es_openFiles st))"
    using t' d3 [OF that] by (simp add: w'_def)
  show "trace (snd (restoreCheckpointState E (Some st) root w))
           = trace w @ concat (map (\<lambda>f. ResolveHandle (snap_path f) True
               # (case restore_error E root (snap_path f) of
                    None \<Rightarrow> []
                  | Some err \<Rightarrow>
                      [ConsoleError (''Could not restore file '' @ snap_path f @ '':'') (message err)]))
               (es_openFiles st))"
    using tr restoreFiles_trace [of E root "es_openFiles st" w2]
    by (simp add: w'_def w3_def w2_def w1_def disposeFiles_trace)
  have "disposed_at w3 (fd_model (snd kv))" if "kv \<in> set (openFiles w)" for kv
  proof -
    from that dk have "map_get (openFiles w) (fst kv) = Some (snd kv)"
      by (simp add: map_get_def map_keys_def)
    moreover from that ro have "fd_model (snd kv) < length (models w)"
      by (auto simp: refs_ok_iff)
    moreover from that have "fst kv \<in> set (map_keys (openFiles w))"
      by (auto simp: map_keys_def)
    ultimately have "disposed_at w1 (fd_model (snd kv))"
      unfolding w1_def using dk by (intro disposeFiles_disposes)
    then have "disposed_at w2 (fd_model (snd kv))"
      by (simp add: w2_def disposed_at_def)
    then show ?thesis
      unfolding w3_def by (rule restoreFiles_disposed)
  qed
  then show "list_all (\<lambda>kv. m_disposed (models (snd (restoreCheckpointState E (Some st) root w)) ! fd_model (snd kv)))
           (openFiles w)"
    using ms by (auto simp: list_all_iff disposed_at_def w'_def)
  have fk: "first_key (openFiles w3) = (case map fst (open_texts w3) of [] \<Rightarrow> None | p # _ \<Rightarrow> Some p)"
    by (simp add: first_key_open_texts split: list.splits)
  have first: "first_key (openFiles w3) = (case restored_files E root st of [] \<Rightarrow> None | f # _ \<Rightarrow> Some (snap_path f))"
    unfolding fk k3 first_of_first_occurrences
    by (simp split: list.splits)
  have has: "map_has (openFiles w3) a = (a \<in> set (map snap_path (restored_files E root st)))" for a
    by (simp add: map_has_open_texts k3)
  have ra: "restored_active E root st =
      (case (case es_activeFile st of
               None \<Rightarrow> None
             | Some a \<Rightarrow> if truthy a \<and> map_has (openFiles w3) a then Some a else None) of
         Some a \<Rightarrow> Some a
       | None \<Rightarrow> first_key (openFiles w3))"
    by (simp add: restored_active_def Let_def has first split: option.splits)
  note sw = switchTab_shows [OF e3, of _ True]
  show "activeFilePath (snd (restoreCheckpointState E (Some st) root w)) = restored_active E root st"
    unfolding run ra
    by (auto simp: sw(2) first_key_has a3 split: option.splits)
  show "case restored_active E root st of
           None \<Rightarrow> tabBar (snd (restoreCheckpointState E (Some st) root w)) = []
         | Some a \<Rightarrow>
             shown_text (snd (restoreCheckpointState E (Some st) root w))
               = map_of (rev (map (\<lambda>f. (snap_path f, snap_content f)) (restored_files E root st))) a
           \<and> focus (snd (restoreCheckpointState E (Some st) root w)) = FocusEditor"
    unfolding run ra T_def [symmetric] m3 [symmetric]
    by (auto simp: sw(3,4) first_key_has first_key_None first_key_Nil renderTabs_def
        split: option.splits)
qed

text \<open>
  C6 (amended). Restoring a snapshot with the current documents discarded, in a session
  whose editor is initialised: every model the documents held is disposed. For each
  snapshot entry in turn the handle of its path is acquired; an entry whose handle
  acquisition throws is logged with \<^verbatim>\<open>console.error\<close> and skipped, and no file is
  read. The documents are then exactly the paths of the other entries, each once, in
  the order of their first entry, and the buffer of a path holds the saved content of
  its last entry; when the snapshot names no path twice, the documents are those
  entries one for one. The active path is the snapshot's recorded one when it is a
  non-empty path among the restored entries, else the first restored entry, else null;
  the editor shows the active buffer and has the focus, and with nothing restored the
  tab strip is empty.
\<close>

theorem restoreCheckpointState_restores:
  assumes "editor w = Some e" and "distinct (map_keys (openFiles w))" and "refs_ok w"
  shows "list_all (\<lambda>kv. m_disposed (models (snd (restoreCheckpointState E (Some st) root w)) ! fd_model (snd kv)))
           (openFiles w)
       \<and> map fst (open_texts (snd (restoreCheckpointState E (Some st) root w)))
           = rev (remdups (rev (map snap_path (restored_files E root st))))
       \<and> map_of (open_texts (snd (restoreCheckpointState E (Some st) root w)))
           = map_of (rev (map (\<lambda>f. (snap_path f, snap_content f)) (restored_files E root st)))
       \<and> (distinct (map snap_path (es_openFiles st)) \<longrightarrow>
           open_texts (snd (restoreCheckpointState E (Some st) root w))
             = map (\<lambda>f. (snap_path f, snap_content f)) (restored_files E root st))
       \<and> activeFilePath (snd (restoreCheckpointState E (Some st) root w)) = restored_active E root st
       \<and> (case restored_active E root st of
             None \<Rightarrow> tabBar (snd (restoreCheckpointState E (Some st) root w)) = []
           | Some a \<Rightarrow>
               shown_text (snd (restoreCheckpointState E (Some st) root w))
                 = map_of (rev (map (\<lambda>f. (snap_path f, snap_content f)) (restored_files E root st))) a
             \<and> focus (snd (restoreCheckpointState E (Some st) root w)) = FocusEditor)
       \<and> trace (snd (restoreCheckpointState E (Some st) root w))
           = trace w @ concat (map (\<lambda>f. ResolveHandle (snap_path f) True
               # (case restore_error E root (snap_path f) of
                    None \<Rightarrow> []
                  | Some err \<Rightarrow>
                      [ConsoleError (''Could not restore file '' @ snap_path f @ '':'') (message err)]))
               (es_openFiles st))"
  using restoreCheckpointState_result [OF assms, where E = E and st = st and root = root]
  by (intro conjI impI) assumption+

theorem restoreCheckpointState_restores_witness:
  "editor two_open = Some \<lparr>ed_model = 1, ed_readOnly = False, ed_view = 7, ed_selection = Some (0, 0)\<rparr>
   \<and> distinct (map_keys (openFiles two_open)) \<and> refs_ok two_open
   \<and> distinct (map snap_path (es_openFiles snapshot_ab))
   \<and> open_texts (snd (restoreCheckpointState quiet_env (Some snapshot_ab) (Some RootHandle) two_open))
       = [(''a.js'', ''saved a''), (''b.js'', ''saved b'')]
   \<and> activeFilePath (snd (restoreCheckpointState quiet_env (Some snapshot_ab) (Some RootHandle) two_open))
       = Some ''b.js''
   \<and> shown_text (snd (restoreCheckpointState quiet_env (Some snapshot_ab) (Some RootHandle) two_open))
       = Some ''saved b''
   \<and> map fst (open_texts (snd (restoreCheckpointState refusing_env (Some snapshot_aba) (Some RootHandle) two_open)))
       = [''a.js'']
   \<and> map_of (open_texts (snd (restoreCheckpointState refusing_env (Some snapshot_aba) (Some RootHandle) two_open)))
         ''a.js''
       = Some ''saved a again''
   \<and> activeFilePath (snd (restoreCheckpointState refusing_env (Some snapshot_aba) (Some RootHandle) two_open))
       = Some ''a.js''
   \<and> shown_text (snd (restoreCheckpointState refusing_env (Some snapshot_aba) (Some RootHandle) two_open))
       = Some ''saved a again''
   \<and> trace (snd (restoreCheckpointState refusing_env (Some snapshot_aba) (Some RootHandle) two_open))
       = [ResolveHandle ''a.js'' True, ResolveHandle ''b.js'' True,
          ConsoleError ''Could not restore file b.js:'' ''NotAllowedError'',
          ResolveHandle ''a.js'' True]"
proof -
  have e: "editor two_open = Some \<lparr>ed_model = 1, ed_readOnly = False, ed_view = 7, ed_selection = Some (0, 0)\<rparr>"
    by (simp add: two_open_def)
  have d: "distinct (map_keys (openFiles two_open))"
    by (simp add: two_open_def map_keys_def)
  have r: "refs_ok two_open"
    by (simp add: two_open_def refs_ok_def)
  have s: "distinct (map snap_path (es_openFiles snapshot_ab))"
    by (simp add: snapshot_ab_def)
  have f: "restored_files quiet_env (Some RootHandle) snapshot_ab = es_openFiles snapshot_ab"
    by (simp add: restored_files_def restorable_def quiet_env_def snapshot_ab_def)
  have a: "restored_active quiet_env (Some RootHandle) snapshot_ab = Some ''b.js''"
    by (simp add: restored_active_def restored_files_def restorable_def quiet_env_def
        snapshot_ab_def truthy_def)
  have f2: "restored_files refusing_env (Some RootHandle) snapshot_aba
      = [\<lparr>snap_path = ''a.js'', snap_content = ''saved a'', snap_viewState = None\<rparr>,
         \<lparr>snap_path = ''a.js'', snap_content = ''saved a again'', snap_viewState = None\<rparr>]"
    by (simp add: restored_files_def restorable_def refusing_env_def quiet_env_def snapshot_aba_def)
  have a2: "restored_active refusing_env (Some RootHandle) snapshot_aba = Some ''a.js''"
    unfolding restored_active_def f2 by (simp add: snapshot_aba_def truthy_def)
  have x: "restore_error refusing_env (Some RootHandle) p
      = (if p = ''b.js'' then Some (Err ''NotAllowedError'') else None)" for p
    by (simp add: restore_error_def refusing_env_def quiet_env_def)
  note A = restoreCheckpointState_restores [OF e d r, where E = quiet_env and st = snapshot_ab
      and root = "Some RootHandle"]
  note B = restoreCheckpointState_restores [OF e d r, where E = refusing_env and st = snapshot_aba
      and root = "Some RootHandle"]
  have t1: "open_texts (snd (restoreCheckpointState quiet_env (Some snapshot_ab) (Some RootHandle) two_open))
       = [(''a.js'', ''saved a''), (''b.js'', ''saved b'')]"
    using A s by (simp add: f) (simp add: snapshot_ab_def)
  have t2: "activeFilePath (snd (restoreCheckpointState quiet_env (Some snapshot_ab) (Some RootHandle) two_open))
       = Some ''b.js''"
    using A by (simp add: a)
  have t3: "shown_text (snd (restoreCheckpointState quiet_env (Some snapshot_ab) (Some RootHandle) two_open))
       = Some ''saved b''"
    using A by (simp add: f a) (simp add: snapshot_ab_def)
  have t4: "map fst (open_texts (snd (restoreCheckpointState refusing_env (Some snapshot_aba) (Some RootHandle) two_open)))
       = [''a.js'']"
    using B by (simp add: f2)
  have t5: "map_of (open_texts (snd (restoreCheckpointState refusing_env (Some snapshot_aba) (Some RootHandle) two_open)))
         ''a.js'' = Some ''saved a again''"
    using B by (simp add: f2)
  have t6: "activeFilePath (snd (restoreCheckpointState refusing_env (Some snapshot_aba) (Some RootHandle) two_open))
       = Some ''a.js''"
    using B by (simp add: a2)
  have t7: "shown_text (snd (restoreCheckpointState refusing_env (Some snapshot_aba) (Some RootHandle) two_open))
       = Some ''saved a again''"
    using B by (simp add: f2 a2)
  have t8: "trace (snd (restoreCheckpointState refusing_env (Some snapshot_aba) (Some RootHandle) two_open))
       = [ResolveHandle ''a.js'' True, ResolveHandle ''b.js'' True,
          ConsoleError ''Could not restore file b.js:'' ''NotAllowedError'',
          ResolveHandle ''a.js'' True]"
    using B by (simp add: x) (simp add: snapshot_aba_def two_open_def)
  show ?thesis
    by (insert e d r s t1 t2 t3 t4 t5 t6 t7 t8, intro conjI, assumption+)
qed

text \<open>
  The claim as stated fails: when the file system refuses the handle of a snapshot
  entry, the entry is logged and skipped, and the documents are not the snapshot's paths.
\<close>

theorem restore_skips_refused_entry:
  "map fst (open_texts (snd (restoreCheckpointState refusing_env (Some snapshot_ab) (Some RootHandle) two_open)))
     = [''a.js'']
   \<and> map snap_path (es_openFiles snapshot_ab) = [''a.js'', ''b.js'']"
proof -
  have e: "editor two_open = Some \<lparr>ed_model = 1, ed_readOnly = False, ed_view = 7, ed_selection = Some (0, 0)\<rparr>"
    by (simp add: two_open_def)
  have d: "distinct (map_keys (openFiles two_open))"
    by (simp add: two_open_def map_keys_def)
  have r: "refs_ok two_open"
    by (simp add: two_open_def refs_ok_def)
  have f: "restored_files refusing_env (Some RootHandle) snapshot_ab
      = [\<lparr>snap_path = ''a.js'', snap_content = ''saved a'', snap_viewState = None\<rparr>]"
    by (simp add: restored_files_def restorable_def refusing_env_def quiet_env_def snapshot_ab_def)
  from restoreCheckpointState_result(2) [OF e d r, where E = refusing_env and st = snapshot_ab
      and root = "Some RootHandle"]
  show ?thesis
    by (simp add: f) (simp add: snapshot_ab_def)
qed

section \<open>Inserting a line\<close>

lemmas tool_defs = getFileHandleFromArg_def getFileHandleFromPath_def handle_getFile_def
  handle_write_def setOpenValue_def chat_input_focus_def refreshFileTree_def
  saveCheckpoint_def saveCodeIndex_def getCodeIndex_def removeFile_def

lemmas session_defs = openFile_def closeTab_def disposeAndDelete_def clearEditor_def
  getEditorState_def switchTab_defs model_at_def model_value_def
  map_get_def map_has_def map_delete_def map_keys_def first_key_def truthy_def

text \<open>
  C1 (the code departs from the claim). On a file whose text is the two lines a and b,
  inserting X at line 1 writes a file whose first line is X, a backslash, the letter n
  and a: the text is split and joined on the two characters backslash and n, not on the
  newline character.
\<close>

theorem insert_content_joins_on_backslash_n:
  "fs (snd (executeTool quiet_env insert_X_at_1 (Some RootHandle)
             (project_world [''f.txt'' \<mapsto> ''a'' @ newline @ ''b''])))
      ''f.txt''
     = Some (''X'' @ backslash_n @ ''a'' @ newline @ ''b'')
   \<and> split (''X'' @ backslash_n @ ''a'' @ newline @ ''b'') newline = [''X'' @ backslash_n @ ''a'', ''b'']"
  by (simp add: executeTool_def checkpointInterception_def checkpoint_triggers_def dispatch_def
      tool_insert_content_def insert_line_def insertionPoint_def splice_insert_def split_def
      insert_X_at_1_def tool_call_def no_args_def project_world_def quiet_env_def
      backslash_n_def newline_def opt_str_def
      tool_defs session_defs basename_def extension_def)

section \<open>Reading a file\<close>

lemma map_get_map_set: "map_get (map_set m k v) k' = (if k' = k then Some v else map_get m k')"
  by (induction m) (auto simp: map_get_def)

lemma openFile_new:
  assumes "\<not> map_has (openFiles w) p" and "fs w (handle_path h) = Some c" and "editor w = Some e"
  shows "fst (openFile h p f w) = Inr ()"
    and "map_of (open_texts (snd (openFile h p f w))) p = Some c"
    and "shown_text (snd (openFile h p f w)) = Some c"
proof -
  define d where "d = \<lparr>fd_handle = h, fd_name = basename (handle_path h),
      fd_model = length (models w), fd_viewState = None\<rparr>"
  define w2 where "w2 = w\<lparr>trace := trace w @ [ReadFile (handle_path h)],
      models := models w @ [\<lparr>m_value = c,
         m_language = getLanguageFromExtension (extension (basename (handle_path h))),
         m_disposed = False\<rparr>],
      openFiles := map_set (openFiles w) p d\<rparr>"
  have e2: "editor w2 = Some e" and h2: "map_has (openFiles w2) p"
    using assms(3) by (simp_all add: w2_def map_has_iff map_keys_map_set)
  have t2: "map_of (open_texts w2) p = Some c"
    by (simp add: map_of_open_texts w2_def map_get_map_set model_value_def model_at_def d_def)
  note sw = switchTab_shows [OF e2 h2, of f]
  have run: "openFile h p f w = switchTab p f w2"
    using assms(1,2) sw(1)
    by (simp add: openFile_def handle_getFile_def monad_alt createModel_def w2_def d_def prod_eq_iff)
  show "fst (openFile h p f w) = Inr ()"
    by (simp add: run sw(1))
  show "map_of (open_texts (snd (openFile h p f w))) p = Some c"
    by (simp add: run switchTab_texts t2)
  show "shown_text (snd (openFile h p f w)) = Some c"
    by (simp add: run sw(3) t2)
qed

lemma shown_text_frame [simp]:
  "shown_text (w\<lparr>focus := fo\<rparr>) = shown_text w"
  "shown_text (w\<lparr>trace := t\<rparr>) = shown_text w"
  "shown_text (w\<lparr>tabBar := tb\<rparr>) = shown_text w"
  by (simp_all add: shown_text_def model_value_def model_at_def split: option.splits)

lemma openFile_fs [simp]: "fs (snd (openFile h p f w)) = fs w"
  by (auto simp: openFile_def handle_getFile_def monad_alt createModel_def switchTab_defs
      split: option.splits sum.splits prod.splits)

lemma read_file_result:
  assumes "fs w p = Some c" and "fsFault E p False = None" and "editor w = Some e"
  shows "fst (executeTool E (tool_call ''read_file'' (a\<lparr>filename := Some p\<rparr>)) (Some r) w)
           = Inr [(''content'',
                   JStr (if length c > 30000 then take 30000 c @ truncation_suffix else c))]"
    and "\<not> map_has (openFiles w) p \<Longrightarrow>
           map_of (open_texts (snd (executeTool E (tool_call ''read_file'' (a\<lparr>filename := Some p\<rparr>)) (Some r) w))) p
             = Some c
         \<and> shown_text (snd (executeTool E (tool_call ''read_file'' (a\<lparr>filename := Some p\<rparr>)) (Some r) w))
             = Some c"
proof -
  define w1 where "w1 = w\<lparr>trace := trace w @ [ResolveHandle p False, ReadFile p]\<rparr>"
  have run: "executeTool E (tool_call ''read_file'' (a\<lparr>filename := Some p\<rparr>)) (Some r) w
      = (case fst (openFile (FileHandle p) p False w1) of
           Inl err \<Rightarrow> (Inl err, snd (openFile (FileHandle p) p False w1))
         | Inr u \<Rightarrow>
            (Inr [(''content'',
                   JStr (if length c > MAX_LENGTH then take MAX_LENGTH c @ truncation_suffix else c))],
             snd (openFile (FileHandle p) p False w1)\<lparr>focus := FocusChatInput\<rparr>))"
    using assms(1,2)
    by (auto simp: executeTool_def checkpointInterception_def checkpoint_triggers_def dispatch_def
        tool_read_file_def tool_call_def getFileHandleFromArg_def getFileHandleFromPath_def
        handle_getFile_def monad_alt opt_str_def w1_def chat_input_focus_def
        split: sum.splits)
  have ok: "fst (openFile (FileHandle p) p False w1) = Inr ()"
  proof (cases "map_has (openFiles w1) p")
    case True
    have "editor w1 = Some e"
      using assms(3) by (simp add: w1_def)
    from switchTab_shows(1) [OF this True] True show ?thesis
      by (simp add: openFile_has)
  next
    case False
    have "fs w1 (handle_path (FileHandle p)) = Some c" and "editor w1 = Some e"
      using assms by (simp_all add: w1_def)
    from openFile_new(1) [OF False this] show ?thesis .
  qed
  show "fst (executeTool E (tool_call ''read_file'' (a\<lparr>filename := Some p\<rparr>)) (Some r) w)
           = Inr [(''content'',
                   JStr (if length c > 30000 then take 30000 c @ truncation_suffix else c))]"
    using ok by (simp add: run MAX_LENGTH_def)
  assume n: "\<not> map_has (openFiles w) p"
  have "\<not> map_has (openFiles w1) p"
    and "fs w1 (handle_path (FileHandle p)) = Some c" and "editor w1 = Some e"
    using n assms by (simp_all add: w1_def)
  note openFile_new(2,3) [OF this, of False]
  then show "map_of (open_texts (snd (executeTool E (tool_call ''read_file'' (a\<lparr>filename := Some p\<rparr>)) (Some r) w))) p
             = Some c
         \<and> shown_text (snd (executeTool E (tool_call ''read_file'' (a\<lparr>filename := Some p\<rparr>)) (Some r) w))
             = Some c"
    using ok by (simp add: run)
qed

text \<open>
  C2 (amended). With a project root, a file that resolves and an initialised editor,
  \<^verbatim>\<open>read_file\<close> returns the first 30,000 characters of the file followed by the
  truncation suffix when the file is longer than that, and the file unchanged otherwise;
  the buffer it opens for a file that was not open, and that the editor then shows,
  holds the whole file, not the truncated text.
\<close>

theorem read_file_truncates_result_only:
  assumes "fs w p = Some c" and "fsFault E p False = None" and "editor w = Some e"
  shows "fst (executeTool E (tool_call ''read_file'' (a\<lparr>filename := Some p\<rparr>)) (Some r) w)
           = Inr [(''content'',
                   JStr (if length c > 30000 then take 30000 c @ truncation_suffix else c))]
       \<and> (\<not> map_has (openFiles w) p \<longrightarrow>
            map_of (open_texts (snd (executeTool E (tool_call ''read_file'' (a\<lparr>filename := Some p\<rparr>)) (Some r) w))) p
              = Some c
          \<and> shown_text (snd (executeTool E (tool_call ''read_file'' (a\<lparr>filename := Some p\<rparr>)) (Some r) w))
              = Some c)"
  using read_file_result [OF assms] by blast

theorem read_file_truncates_result_only_witness:
  "fs (project_world [''f.txt'' \<mapsto> ''hello'']) ''f.txt'' = Some ''hello''
   \<and> fsFault quiet_env ''f.txt'' False = None
   \<and> editor (project_world [''f.txt'' \<mapsto> ''hello''])
       = Some \<lparr>ed_model = 0, ed_readOnly = True, ed_view = 0, ed_selection = Some (0, 0)\<rparr>
   \<and> \<not> map_has (openFiles (project_world [''f.txt'' \<mapsto> ''hello''])) ''f.txt''
   \<and> fst (executeTool quiet_env (tool_call ''read_file'' (no_args\<lparr>filename := Some ''f.txt''\<rparr>))
            (Some RootHandle) (project_world [''f.txt'' \<mapsto> ''hello'']))
       = Inr [(''content'', JStr ''hello'')]
   \<and> shown_text (snd (executeTool quiet_env (tool_call ''read_file'' (no_args\<lparr>filename := Some ''f.txt''\<rparr>))
            (Some RootHandle) (project_world [''f.txt'' \<mapsto> ''hello''])))
       = Some ''hello''"
proof -
  have f: "fs (project_world [''f.txt'' \<mapsto> ''hello'']) ''f.txt'' = Some ''hello''"
    by (simp add: project_world_def)
  have q: "fsFault quiet_env ''f.txt'' False = None"
    by (simp add: quiet_env_def)
  have e: "editor (project_world [''f.txt'' \<mapsto> ''hello''])
       = Some \<lparr>ed_model = 0, ed_readOnly = True, ed_view = 0, ed_selection = Some (0, 0)\<rparr>"
    by (simp add: project_world_def)
  have n: "\<not> map_has (openFiles (project_world [''f.txt'' \<mapsto> ''hello''])) ''f.txt''"
    by (simp add: project_world_def map_has_def)
  from read_file_truncates_result_only [OF f q e, of no_args RootHandle] f q e n
  show ?thesis by simp
qed

text \<open>
  The claim as stated fails: for a file of 30,001 characters the result is cut to 30,000
  characters and the suffix, while the editor shows all 30,001 characters.
\<close>

theorem read_file_opens_full_text:
  "fst (executeTool quiet_env read_big (Some RootHandle) (project_world [''big.txt'' \<mapsto> big_text]))
     = Inr [(''content'', JStr (replicate 30000 (CHR ''a'') @ truncation_suffix))]
   \<and> shown_text (snd (executeTool quiet_env read_big (Some RootHandle)
                        (project_world [''big.txt'' \<mapsto> big_text])))
     = Some big_text
   \<and> big_text \<noteq> replicate 30000 (CHR ''a'') @ truncation_suffix"
proof -
  have f: "fs (project_world [''big.txt'' \<mapsto> big_text]) ''big.txt'' = Some big_text"
    by (simp add: project_world_def)
  have q: "fsFault quiet_env ''big.txt'' False = None"
    by (simp add: quiet_env_def)
  have e: "editor (project_world [''big.txt'' \<mapsto> big_text])
       = Some \<lparr>ed_model = 0, ed_readOnly = True, ed_view = 0, ed_selection = Some (0, 0)\<rparr>"
    by (simp add: project_world_def)
  have n: "\<not> map_has (openFiles (project_world [''big.txt'' \<mapsto> big_text])) ''big.txt''"
    by (simp add: project_world_def map_has_def)
  have l: "length big_text \<noteq> length (replicate 30000 (CHR ''a'') @ truncation_suffix)"
    by (simp add: big_text_def truncation_suffix_def newline_def)
  have d: "big_text \<noteq> replicate 30000 (CHR ''a'') @ truncation_suffix"
  proof
    assume "big_text = replicate 30000 (CHR ''a'') @ truncation_suffix"
    then have "length big_text = length (replicate 30000 (CHR ''a'') @ truncation_suffix)"
      by (rule arg_cong)
    with l show False by (rule notE)
  qed
  have t: "take 30000 big_text = replicate 30000 (CHR ''a'')" and g: "length big_text > 30000"
    by (simp_all add: big_text_def)
  from read_file_result(1) [OF f q e, of no_args RootHandle]
    read_file_result(2) [OF f q e n, of no_args RootHandle] d t g
  show ?thesis by (simp add: read_big_def)
qed

section \<open>The execution boundary\<close>

lemma untraced_trace [simp]: "untraced (w\<lparr>trace := t\<rparr>) = untraced w"
  by (simp add: untraced_def)

lemma untraced_logged_call [simp]: "untraced (logged_call tc w) = untraced w"
  by (simp add: logged_call_def)

lemma obj_get_map_set: "obj_get (map_set r k v) k' = (if k' = k then v else obj_get r k')"
  by (induction r) (auto simp: obj_get_def)

lemma errorChecking_returns:
  "(case fst (errorChecking E n a r w) of
      Inl err \<Rightarrow> False
    | Inr r' \<Rightarrow> obj_get r' ''error'' = obj_get r ''error'')
   \<and> untraced (snd (errorChecking E n a r w)) = untraced w"
  by (auto simp: errorChecking_def getModelMarkers_def monad_defs Let_def obj_get_map_set
      split: option.splits)

lemma execute_thrown:
  assumes "executeTool E tc root (logged_call tc w) = (Inl err, w2)"
  shows "execute E tc root w =
     (Inr \<lparr>tr_name = tc_name tc,
           tr_response = [(''error'', JStr (wrapped (tc_name tc) (message err)))]\<rparr>,
      w2\<lparr>trace := trace w2 @
         [ConsoleError (wrapped (tc_name tc) (message err)) (message err),
          ConsoleLog ''Result:'' [(''status'', JStr ''Error''),
                                  (''message'', JStr (wrapped (tc_name tc) (message err)))],
          ConsoleGroupEnd, UpdateToolLog False]\<rparr>)"
  using assms
  by (simp add: execute_def monad_defs logged_call_def wrapped_def obj_get_def)

lemma execute_returned:
  assumes "executeTool E tc root (logged_call tc w) = (Inr r, w2)"
    and "errorChecking E (tc_name tc) (tc_args tc) r w2 = (Inr r', w3)"
  shows "execute E tc root w =
     (Inr \<lparr>tr_name = tc_name tc, tr_response = r'\<rparr>,
      w3\<lparr>trace := trace w3 @
         [ConsoleLog ''Result:'' (spread_after [(''status'', JStr ''Success'')] r'),
          ConsoleGroupEnd, UpdateToolLog True]\<rparr>)"
  using assms
  by (simp add: execute_def monad_defs logged_call_def)

lemma guard_response:
  assumes "tc_name tc \<in> set root_required"
  shows "(case fst (execute E tc None w) of
            Inl err \<Rightarrow> False
          | Inr resp \<Rightarrow> obj_get (tr_response resp) ''error'' = JStr no_project_message)
       \<and> untraced (snd (execute E tc None w)) = untraced w"
proof -
  have g: "executeTool E tc None (logged_call tc w)
      = (Inr [(''error'', JStr no_project_message)], logged_call tc w)"
    using assms by (simp add: executeTool_def returnE_def)
  obtain res w3 where c: "errorChecking E (tc_name tc) (tc_args tc)
      [(''error'', JStr no_project_message)] (logged_call tc w) = (res, w3)"
    by (cases "errorChecking E (tc_name tc) (tc_args tc)
      [(''error'', JStr no_project_message)] (logged_call tc w)")
  with errorChecking_returns [where E = E and n = "tc_name tc" and a = "tc_args tc"
      and r = "[(''error'', JStr no_project_message)]" and w = "logged_call tc w"]
  obtain r' where r: "res = Inr r'" and o: "obj_get r' ''error'' = JStr no_project_message"
    and u: "untraced w3 = untraced w"
    by (cases res) (auto simp: obj_get_def)
  from execute_returned [OF g c [unfolded r]] o u show ?thesis
    by simp
qed

lemma no_selection_response:
  assumes "editor w = Some e" and "no_selection (ed_selection e)"
  shows "execute E (tool_call ''get_selected_text'' a) root w =
     (Inr \<lparr>tr_name = ''get_selected_text'',
           tr_response = [(''error'',
              JStr (wrapped ''get_selected_text'' ''No text is currently selected.''))]\<rparr>,
      w\<lparr>trace := trace (logged_call (tool_call ''get_selected_text'' a) w) @
         [ConsoleError (wrapped ''get_selected_text'' ''No text is currently selected.'')
            ''No text is currently selected.'',
          ConsoleLog ''Result:'' [(''status'', JStr ''Error''),
            (''message'', JStr (wrapped ''get_selected_text'' ''No text is currently selected.''))],
          ConsoleGroupEnd, UpdateToolLog False]\<rparr>)"
proof -
  have "executeTool E (tool_call ''get_selected_text'' a) root (logged_call (tool_call ''get_selected_text'' a) w)
      = (Inl (Err ''No text is currently selected.''), logged_call (tool_call ''get_selected_text'' a) w)"
    using assms
    by (simp add: executeTool_def root_required_def checkpointInterception_def
        checkpoint_triggers_def dispatch_def tool_get_selected_text_def editor_getSelection_def
        monad_defs tool_call_def logged_call_def)
  from execute_thrown [OF this] show ?thesis
    by (simp add: tool_call_def logged_call_def)
qed

lemma no_selection_to_replace_response:
  assumes "editor w = Some e" and "no_selection (ed_selection e)"
  shows "execute E (tool_call ''replace_selected_text'' a) root w =
     (Inr \<lparr>tr_name = ''replace_selected_text'',
           tr_response = [(''error'',
              JStr (wrapped ''replace_selected_text'' ''No text is selected to replace.''))]\<rparr>,
      w\<lparr>trace := trace (logged_call (tool_call ''replace_selected_text'' a) w) @
         [ConsoleError (wrapped ''replace_selected_text'' ''No text is selected to replace.'')
            ''No text is selected to replace.'',
          ConsoleLog ''Result:'' [(''status'', JStr ''Error''),
            (''message'', JStr (wrapped ''replace_selected_text'' ''No text is selected to replace.''))],
          ConsoleGroupEnd, UpdateToolLog False]\<rparr>)"
proof -
  have "executeTool E (tool_call ''replace_selected_text'' a) root
          (logged_call (tool_call ''replace_selected_text'' a) w)
      = (Inl (Err ''No text is selected to replace.''),
         logged_call (tool_call ''replace_selected_text'' a) w)"
    using assms
    by (simp add: executeTool_def root_required_def checkpointInterception_def
        checkpoint_triggers_def dispatch_def tool_replace_selected_text_def editor_getSelection_def
        monad_defs tool_call_def logged_call_def)
  from execute_thrown [OF this] show ?thesis
    by (simp add: tool_call_def logged_call_def)
qed

lemma wrong_extension_response:
  assumes "filename a = Some f" and "\<not> suffix ''.js'' f"
  shows "execute E (tool_call ''analyze_code'' a) (Some r) w =
     (Inr \<lparr>tr_name = ''analyze_code'',
           tr_response = [(''error'',
              JStr (wrapped ''analyze_code''
                ''This tool can only analyze .js files. Use read_file for others.''))]\<rparr>,
      w\<lparr>trace := trace (logged_call (tool_call ''analyze_code'' a) w) @
         [ConsoleError (wrapped ''analyze_code''
              ''This tool can only analyze .js files. Use read_file for others.'')
            ''This tool can only analyze .js files. Use read_file for others.'',
          ConsoleLog ''Result:'' [(''status'', JStr ''Error''),
            (''message'', JStr (wrapped ''analyze_code''
              ''This tool can only analyze .js files. Use read_file for others.''))],
          ConsoleGroupEnd, UpdateToolLog False]\<rparr>)"
proof -
  have "executeTool E (tool_call ''analyze_code'' a) (Some r) (logged_call (tool_call ''analyze_code'' a) w)
      = (Inl (Err ''This tool can only analyze .js files. Use read_file for others.''),
         logged_call (tool_call ''analyze_code'' a) w)"
    using assms
    by (simp add: executeTool_def checkpointInterception_def
        checkpoint_triggers_def dispatch_def tool_analyze_code_def
        monad_defs tool_call_def logged_call_def)
  from execute_thrown [OF this] show ?thesis
    by (simp add: tool_call_def logged_call_def)
qed

lemma unknown_tool_response:
  assumes "n \<notin> set known_tools"
  shows "execute E (tool_call n a) root w =
     (Inr \<lparr>tr_name = n,
           tr_response = [(''error'',
              JStr (wrapped n (''Unknown tool '' @ quoted n @ ''.'')))]\<rparr>,
      w\<lparr>trace := trace (logged_call (tool_call n a) w) @
         [ConsoleError (wrapped n (''Unknown tool '' @ quoted n @ ''.''))
            (''Unknown tool '' @ quoted n @ ''.''),
          ConsoleLog ''Result:'' [(''status'', JStr ''Error''),
            (''message'', JStr (wrapped n (''Unknown tool '' @ quoted n @ ''.'')))],
          ConsoleGroupEnd, UpdateToolLog False]\<rparr>)"
proof -
  have "executeTool E (tool_call n a) root (logged_call (tool_call n a) w)
      = (Inl (Err (''Unknown tool '' @ quoted n @ ''.'')), logged_call (tool_call n a) w)"
    using assms
    by (simp add: executeTool_def root_required_def checkpointInterception_def
        checkpoint_triggers_def dispatch_def known_tools_def
        monad_defs tool_call_def logged_call_def)
  from execute_thrown [OF this] show ?thesis
    by (simp add: tool_call_def logged_call_def)
qed

lemma errorChecking_reports:
  "prefix (trace w) (trace (snd (errorChecking E n a r w)))
   \<and> list_all is_report (drop (length (trace w)) (trace (snd (errorChecking E n a r w))))"
  by (auto simp: errorChecking_def getModelMarkers_def monad_defs Let_def
      split: option.splits)

lemma guard_reports:
  assumes "tc_name tc \<in> set root_required"
  shows "prefix (trace w) (trace (snd (execute E tc None w)))
       \<and> list_all is_report (drop (length (trace w)) (trace (snd (execute E tc None w))))"
proof -
  have g: "executeTool E tc None (logged_call tc w)
      = (Inr [(''error'', JStr no_project_message)], logged_call tc w)"
    using assms by (simp add: executeTool_def returnE_def)
  obtain res w3 where c: "errorChecking E (tc_name tc) (tc_args tc)
      [(''error'', JStr no_project_message)] (logged_call tc w) = (res, w3)"
    by (cases "errorChecking E (tc_name tc) (tc_args tc)
      [(''error'', JStr no_project_message)] (logged_call tc w)")
  with errorChecking_returns [where E = E and n = "tc_name tc" and a = "tc_args tc"
      and r = "[(''error'', JStr no_project_message)]" and w = "logged_call tc w"]
  obtain r' where r: "res = Inr r'"
    by (cases res) auto
  from errorChecking_reports [where E = E and n = "tc_name tc" and a = "tc_args tc"
      and r = "[(''error'', JStr no_project_message)]" and w = "logged_call tc w"] c
  have "prefix (trace (logged_call tc w)) (trace w3)"
    and "list_all is_report (drop (length (trace (logged_call tc w))) (trace w3))"
    by simp_all
  then obtain D where D: "trace w3 = trace w @ [ConsoleGroup (''AI Tool Call: '' @ tc_name tc),
        AppendToolLog (tc_name tc) (tc_args tc)] @ D" and l: "list_all is_report D"
    by (auto simp: prefix_def logged_call_def)
  from execute_returned [OF g c [unfolded r]] D l show ?thesis
    by simp
qed

text \<open>
  C7 (amended). A tool call that fails a precondition performs no edit and no file-system
  mutation: no file, model, document or editor state is touched. When the precondition
  throws (no selection for \<^verbatim>\<open>get_selected_text\<close> and \<^verbatim>\<open>replace_selected_text\<close>, a file
  that is not a .js file for \<^verbatim>\<open>analyze_code\<close>, an unknown tool name), the only calls
  made are the four console calls and the two audit-log calls of the execution boundary,
  and the message reaches the caller prefixed with "Error executing tool '<name>': ".
  When the no-project guard answers, the caller receives its message verbatim in the
  \<^verbatim>\<open>error\<close> field of the response; the calls made are console calls, audit-log calls
  and, since the execution boundary still runs its diagnostics check, at most reads of
  the diagnostics of an open file.
\<close>

theorem precondition_errors:
  "(tc_name tc \<in> set root_required \<longrightarrow>
      (case fst (execute E tc None w) of
         Inl err \<Rightarrow> False
       | Inr resp \<Rightarrow> obj_get (tr_response resp) ''error'' = JStr no_project_message)
      \<and> untraced (snd (execute E tc None w)) = untraced w
      \<and> prefix (trace w) (trace (snd (execute E tc None w)))
      \<and> list_all is_report (drop (length (trace w)) (trace (snd (execute E tc None w)))))
   \<and> (editor w = Some e \<and> no_selection (ed_selection e) \<longrightarrow>
      execute E (tool_call ''get_selected_text'' a) root w
        = (Inr \<lparr>tr_name = ''get_selected_text'',
                tr_response = [(''error'',
                  JStr (wrapped ''get_selected_text'' ''No text is currently selected.''))]\<rparr>,
           w\<lparr>trace := trace w @
              [ConsoleGroup ''AI Tool Call: get_selected_text'',
               AppendToolLog ''get_selected_text'' a,
               ConsoleError (wrapped ''get_selected_text'' ''No text is currently selected.'')
                 ''No text is currently selected.'',
               ConsoleLog ''Result:'' [(''status'', JStr ''Error''),
                 (''message'', JStr (wrapped ''get_selected_text'' ''No text is currently selected.''))],
               ConsoleGroupEnd, UpdateToolLog False]\<rparr>)
      \<and> execute E (tool_call ''replace_selected_text'' a) root w
        = (Inr \<lparr>tr_name = ''replace_selected_text'',
                tr_response = [(''error'',
                  JStr (wrapped ''replace_selected_text'' ''No text is selected to replace.''))]\<rparr>,
           w\<lparr>trace := trace w @
              [ConsoleGroup ''AI Tool Call: replace_selected_text'',
               AppendToolLog ''replace_selected_text'' a,
               ConsoleError (wrapped ''replace_selected_text'' ''No text is selected to replace.'')
                 ''No text is selected to replace.'',
               ConsoleLog ''Result:'' [(''status'', JStr ''Error''),
                 (''message'', JStr (wrapped ''replace_selected_text'' ''No text is selected to replace.''))],
               ConsoleGroupEnd, UpdateToolLog False]\<rparr>))
   \<and> (filename a = Some f \<and> \<not> suffix ''.js'' f \<longrightarrow>
      execute E (tool_call ''analyze_code'' a) (Some r) w
        = (Inr \<lparr>tr_name = ''analyze_code'',
                tr_response = [(''error'',
                  JStr (wrapped ''analyze_code''
                    ''This tool can only analyze .js files. Use read_file for others.''))]\<rparr>,
           w\<lparr>trace := trace w @
              [ConsoleGroup ''AI Tool Call: analyze_code'',
               AppendToolLog ''analyze_code'' a,
               ConsoleError (wrapped ''analyze_code''
                   ''This tool can only analyze .js files. Use read_file for others.'')
                 ''This tool can only analyze .js files. Use read_file for others.'',
               ConsoleLog ''Result:'' [(''status'', JStr ''Error''),
                 (''message'', JStr (wrapped ''analyze_code''
                   ''This tool can only analyze .js files. Use read_file for others.''))],
               ConsoleGroupEnd, UpdateToolLog False]\<rparr>))
   \<and> (n \<notin> set known_tools \<longrightarrow>
      execute E (tool_call n a) root w
        = (Inr \<lparr>tr_name = n,
                tr_response = [(''error'', JStr (wrapped n (''Unknown tool '' @ quoted n @ ''.'')))]\<rparr>,
           w\<lparr>trace := trace w @
              [ConsoleGroup (''AI Tool Call: '' @ n),
               AppendToolLog n a,
               ConsoleError (wrapped n (''Unknown tool '' @ quoted n @ ''.''))
                 (''Unknown tool '' @ quoted n @ ''.''),
               ConsoleLog ''Result:'' [(''status'', JStr ''Error''),
                 (''message'', JStr (wrapped n (''Unknown tool '' @ quoted n @ ''.'')))],
               ConsoleGroupEnd, UpdateToolLog False]\<rparr>))"
proof (intro conjI impI)
  assume g: "tc_name tc \<in> set root_required"
  from guard_response [OF g, of E w]
  show "case fst (execute E tc None w) of
         Inl err \<Rightarrow> False
       | Inr resp \<Rightarrow> obj_get (tr_response resp) ''error'' = JStr no_project_message"
    and "untraced (snd (execute E tc None w)) = untraced w"
    by simp_all
  from guard_reports [OF g, of w E]
  show "prefix (trace w) (trace (snd (execute E tc None w)))"
    and "list_all is_report (drop (length (trace w)) (trace (snd (execute E tc None w))))"
    by simp_all
next
  assume s: "editor w = Some e \<and> no_selection (ed_selection e)"
  with no_selection_response [of w e E a root]
  show "execute E (tool_call ''get_selected_text'' a) root w
        = (Inr \<lparr>tr_name = ''get_selected_text'',
                tr_response = [(''error'',
                  JStr (wrapped ''get_selected_text'' ''No text is currently selected.''))]\<rparr>,
           w\<lparr>trace := trace w @
              [ConsoleGroup ''AI Tool Call: get_selected_text'',
               AppendToolLog ''get_selected_text'' a,
               ConsoleError (wrapped ''get_selected_text'' ''No text is currently selected.'')
                 ''No text is currently selected.'',
               ConsoleLog ''Result:'' [(''status'', JStr ''Error''),
                 (''message'', JStr (wrapped ''get_selected_text'' ''No text is currently selected.''))],
               ConsoleGroupEnd, UpdateToolLog False]\<rparr>)"
    by (simp add: logged_call_def tool_call_def)
  from s no_selection_to_replace_response [of w e E a root]
  show "execute E (tool_call ''replace_selected_text'' a) root w
        = (Inr \<lparr>tr_name = ''replace_selected_text'',
                tr_response = [(''error'',
                  JStr (wrapped ''replace_selected_text'' ''No text is selected to replace.''))]\<rparr>,
           w\<lparr>trace := trace w @
              [ConsoleGroup ''AI Tool Call: replace_selected_text'',
               AppendToolLog ''replace_selected_text'' a,
               ConsoleError (wrapped ''replace_selected_text'' ''No text is selected to replace.'')
                 ''No text is selected to replace.'',
               ConsoleLog ''Result:'' [(''status'', JStr ''Error''),
                 (''message'', JStr (wrapped ''replace_selected_text'' ''No text is selected to replace.''))],
               ConsoleGroupEnd, UpdateToolLog False]\<rparr>)"
    by (simp add: logged_call_def tool_call_def)
next
  assume "filename a = Some f \<and> \<not> suffix ''.js'' f"
  with wrong_extension_response [of a f E r w]
  show "execute E (tool_call ''analyze_code'' a) (Some r) w
        = (Inr \<lparr>tr_name = ''analyze_code'',
                tr_response = [(''error'',
                  JStr (wrapped ''analyze_code''
                    ''This tool can only analyze .js files. Use read_file for others.''))]\<rparr>,
           w\<lparr>trace := trace w @
              [ConsoleGroup ''AI Tool Call: analyze_code'',
               AppendToolLog ''analyze_code'' a,
               ConsoleError (wrapped ''analyze_code''
                   ''This tool can only analyze .js files. Use read_file for others.'')
                 ''This tool can only analyze .js files. Use read_file for others.'',
               ConsoleLog ''Result:'' [(''status'', JStr ''Error''),
                 (''message'', JStr (wrapped ''analyze_code''
                   ''This tool can only analyze .js files. Use read_file for others.''))],
               ConsoleGroupEnd, UpdateToolLog False]\<rparr>)"
    by (simp add: logged_call_def tool_call_def)
next
  assume "n \<notin> set known_tools"
  with unknown_tool_response [of n E a root w]
  show "execute E (tool_call n a) root w
        = (Inr \<lparr>tr_name = n,
                tr_response = [(''error'', JStr (wrapped n (''Unknown tool '' @ quoted n @ ''.'')))]\<rparr>,
           w\<lparr>trace := trace w @
              [ConsoleGroup (''AI Tool Call: '' @ n),
               AppendToolLog n a,
               ConsoleError (wrapped n (''Unknown tool '' @ quoted n @ ''.''))
                 (''Unknown tool '' @ quoted n @ ''.''),
               ConsoleLog ''Result:'' [(''status'', JStr ''Error''),
                 (''message'', JStr (wrapped n (''Unknown tool '' @ quoted n @ ''.'')))],
               ConsoleGroupEnd, UpdateToolLog False]\<rparr>)"
    by (simp add: logged_call_def tool_call_def)
qed

theorem precondition_errors_witness:
  "tc_name (tool_call ''rewrite_file'' (no_args\<lparr>filename := Some ''b.js''\<rparr>)) \<in> set root_required
   \<and> editor two_open
       = Some \<lparr>ed_model = 1, ed_readOnly = False, ed_view = 7, ed_selection = Some (0, 0)\<rparr>
   \<and> no_selection (ed_selection \<lparr>ed_model = 1, ed_readOnly = False, ed_view = 7, ed_selection = Some (0, 0)\<rparr>)
   \<and> filename (no_args\<lparr>filename := Some ''notes.txt''\<rparr>) = Some ''notes.txt''
   \<and> \<not> suffix ''.js'' ''notes.txt''
   \<and> ''fly_to_the_moon'' \<notin> set known_tools
   \<and> (case fst (execute marking_env (tool_call ''rewrite_file'' (no_args\<lparr>filename := Some ''b.js''\<rparr>))
                   None two_open) of
         Inl err \<Rightarrow> False
       | Inr resp \<Rightarrow> obj_get (tr_response resp) ''error'' = JStr no_project_message)
   \<and> untraced (snd (execute marking_env (tool_call ''rewrite_file'' (no_args\<lparr>filename := Some ''b.js''\<rparr>))
                      None two_open))
       = untraced two_open
   \<and> list_all is_report
       (drop (length (trace two_open))
          (trace (snd (execute marking_env (tool_call ''rewrite_file'' (no_args\<lparr>filename := Some ''b.js''\<rparr>))
                         None two_open))))
   \<and> execute marking_env (tool_call ''get_selected_text'' (no_args\<lparr>filename := Some ''notes.txt''\<rparr>))
         (Some RootHandle) two_open
       = (Inr \<lparr>tr_name = ''get_selected_text'',
               tr_response = [(''error'',
                 JStr (wrapped ''get_selected_text'' ''No text is currently selected.''))]\<rparr>,
          two_open\<lparr>trace := trace two_open @
             [ConsoleGroup ''AI Tool Call: get_selected_text'',
              AppendToolLog ''get_selected_text'' (no_args\<lparr>filename := Some ''notes.txt''\<rparr>),
              ConsoleError (wrapped ''get_selected_text'' ''No text is currently selected.'')
                ''No text is currently selected.'',
              ConsoleLog ''Result:'' [(''status'', JStr ''Error''),
                (''message'', JStr (wrapped ''get_selected_text'' ''No text is currently selected.''))],
              ConsoleGroupEnd, UpdateToolLog False]\<rparr>)
   \<and> fst (execute marking_env (tool_call ''analyze_code'' (no_args\<lparr>filename := Some ''notes.txt''\<rparr>))
            (Some RootHandle) two_open)
       = Inr \<lparr>tr_name = ''analyze_code'',
              tr_response = [(''error'',
                JStr (wrapped ''analyze_code''
                  ''This tool can only analyze .js files. Use read_file for others.''))]\<rparr>
   \<and> fst (execute marking_env (tool_call ''fly_to_the_moon'' (no_args\<lparr>filename := Some ''notes.txt''\<rparr>))
            (Some RootHandle) two_open)
       = Inr \<lparr>tr_name = ''fly_to_the_moon'',
              tr_response = [(''error'',
                JStr (wrapped ''fly_to_the_moon'' (''Unknown tool '' @ quoted ''fly_to_the_moon'' @ ''.'')))]\<rparr>"
proof -
  have g: "tc_name (tool_call ''rewrite_file'' (no_args\<lparr>filename := Some ''b.js''\<rparr>)) \<in> set root_required"
    by (simp add: tool_call_def root_required_def)
  have e: "editor two_open
       = Some \<lparr>ed_model = 1, ed_readOnly = False, ed_view = 7, ed_selection = Some (0, 0)\<rparr>"
    by (simp add: two_open_def)
  have s: "no_selection (ed_selection \<lparr>ed_model = 1, ed_readOnly = False, ed_view = 7, ed_selection = Some (0, 0)\<rparr>)"
    by (simp add: no_selection_def)
  have f: "filename (no_args\<lparr>filename := Some ''notes.txt''\<rparr>) = Some ''notes.txt''"
    by simp
  have x: "\<not> suffix ''.js'' ''notes.txt''"
    by (simp add: suffix_def)
  have u: "''fly_to_the_moon'' \<notin> set known_tools"
    by (simp add: known_tools_def)
  note T = precondition_errors [where tc = "tool_call ''rewrite_file'' (no_args\<lparr>filename := Some ''b.js''\<rparr>)"
      and E = marking_env and w = two_open
      and e = "\<lparr>ed_model = 1, ed_readOnly = False, ed_view = 7, ed_selection = Some (0, 0)\<rparr>"
      and a = "no_args\<lparr>filename := Some ''notes.txt''\<rparr>" and root = "Some RootHandle"
      and f = "''notes.txt''" and r = RootHandle and n = "''fly_to_the_moon''"]
  have t1: "(case fst (execute marking_env (tool_call ''rewrite_file'' (no_args\<lparr>filename := Some ''b.js''\<rparr>))
                   None two_open) of
         Inl err \<Rightarrow> False
       | Inr resp \<Rightarrow> obj_get (tr_response resp) ''error'' = JStr no_project_message)
      \<and> untraced (snd (execute marking_env (tool_call ''rewrite_file'' (no_args\<lparr>filename := Some ''b.js''\<rparr>))
                      None two_open)) = untraced two_open
      \<and> prefix (trace two_open) (trace (snd (execute marking_env
            (tool_call ''rewrite_file'' (no_args\<lparr>filename := Some ''b.js''\<rparr>)) None two_open)))
      \<and> list_all is_report
       (drop (length (trace two_open))
          (trace (snd (execute marking_env (tool_call ''rewrite_file'' (no_args\<lparr>filename := Some ''b.js''\<rparr>))
                         None two_open))))"
    by (rule mp [OF conjunct1 [OF T] g])
  have t2: "execute marking_env (tool_call ''get_selected_text'' (no_args\<lparr>filename := Some ''notes.txt''\<rparr>))
         (Some RootHandle) two_open
       = (Inr \<lparr>tr_name = ''get_selected_text'',
               tr_response = [(''error'',
                 JStr (wrapped ''get_selected_text'' ''No text is currently selected.''))]\<rparr>,
          two_open\<lparr>trace := trace two_open @
             [ConsoleGroup ''AI Tool Call: get_selected_text'',
              AppendToolLog ''get_selected_text'' (no_args\<lparr>filename := Some ''notes.txt''\<rparr>),
              ConsoleError (wrapped ''get_selected_text'' ''No text is currently selected.'')
                ''No text is currently selected.'',
              ConsoleLog ''Result:'' [(''status'', JStr ''Error''),
                (''message'', JStr (wrapped ''get_selected_text'' ''No text is currently selected.''))],
              ConsoleGroupEnd, UpdateToolLog False]\<rparr>)"
    by (rule conjunct1 [OF mp [OF conjunct1 [OF conjunct2 [OF T]] conjI [OF e s]]])
  have t3: "fst (execute marking_env (tool_call ''analyze_code'' (no_args\<lparr>filename := Some ''notes.txt''\<rparr>))
            (Some RootHandle) two_open)
       = Inr \<lparr>tr_name = ''analyze_code'',
              tr_response = [(''error'',
                JStr (wrapped ''analyze_code''
                  ''This tool can only analyze .js files. Use read_file for others.''))]\<rparr>"
    by (simp add: mp [OF conjunct1 [OF conjunct2 [OF conjunct2 [OF T]]] conjI [OF f x]])
  have t4: "fst (execute marking_env (tool_call ''fly_to_the_moon'' (no_args\<lparr>filename := Some ''notes.txt''\<rparr>))
            (Some RootHandle) two_open)
       = Inr \<lparr>tr_name = ''fly_to_the_moon'',
              tr_response = [(''error'',
                JStr (wrapped ''fly_to_the_moon'' (''Unknown tool '' @ quoted ''fly_to_the_moon'' @ ''.'')))]\<rparr>"
    by (simp add: mp [OF conjunct2 [OF conjunct2 [OF conjunct2 [OF T]]] u])
  show ?thesis
    by (insert g e s f x u t1 t2 t3 t4, elim conjE, intro conjI, assumption+)
qed

text \<open>
  The claim as stated fails: the message of a thrown precondition error is not what the
  caller receives.
\<close>

theorem thrown_precondition_is_prefixed:
  "fst (execute quiet_env (tool_call ''get_selected_text'' no_args) (Some RootHandle)
          (project_world Map.empty))
     \<noteq> Inr \<lparr>tr_name = ''get_selected_text'',
             tr_response = [(''error'', JStr ''No text is currently selected.'')]\<rparr>"
proof -
  have e: "editor (project_world Map.empty)
       = Some \<lparr>ed_model = 0, ed_readOnly = True, ed_view = 0, ed_selection = Some (0, 0)\<rparr>"
    by (simp add: project_world_def)
  have s: "no_selection (ed_selection \<lparr>ed_model = 0, ed_readOnly = True, ed_view = 0, ed_selection = Some (0, 0)\<rparr>)"
    by (simp add: no_selection_def)
  show ?thesis
    by (simp add: no_selection_response [OF e s] wrapped_def)
qed

section \<open>An error result is not a failure\<close>








section \<open>The checkpoint interception\<close>

lemma steadyI:
  assumes "\<And>w. checkpoint_calls (snd (m w)) = checkpoint_calls w"
    and "\<And>w1 w2. agree w1 w2 \<Longrightarrow> fst (m w1) = fst (m w2) \<and> agree (snd (m w1)) (snd (m w2))"
  shows "steady m"
  using assms by (simp add: steady_def)

lemma steady_calls: "steady m \<Longrightarrow> checkpoint_calls (snd (m w)) = checkpoint_calls w"
  by (simp add: steady_def)

lemma steady_agree:
  "steady m \<Longrightarrow> agree w1 w2 \<Longrightarrow> fst (m w1) = fst (m w2) \<and> agree (snd (m w1)) (snd (m w2))"
  by (simp add: steady_def)

lemma steady_returnE [intro!, simp]: "steady (returnE v)"
  by (simp add: steady_def returnE_def)

lemma steady_throwE [intro!, simp]: "steady (throwE e)"
  by (simp add: steady_def throwE_def)

lemma steady_emit: "\<not> is_checkpoint_call ev \<Longrightarrow> steady (emit ev)"
  by (simp add: steady_def emit_def checkpoint_calls_def agree_def)

lemma steady_bindE [intro!]:
  assumes "steady m" and "\<And>v. steady (f v)"
  shows "steady (bindE m f)"
proof (rule steadyI)
  fix w
  show "checkpoint_calls (snd (bindE m f w)) = checkpoint_calls w"
    using steady_calls [OF assms(1), of w] steady_calls [OF assms(2)]
    by (simp add: bindE_alt split: sum.splits)
next
  fix w1 w2
  assume "agree w1 w2"
  from steady_agree [OF assms(1) this] steady_agree [OF assms(2)]
  show "fst (bindE m f w1) = fst (bindE m f w2) \<and> agree (snd (bindE m f w1)) (snd (bindE m f w2))"
    by (auto simp: bindE_alt split: sum.splits)
qed

lemma steady_thenE [intro!]: "steady m \<Longrightarrow> steady n \<Longrightarrow> steady (thenE m n)"
  unfolding thenE_def by (rule steady_bindE)

lemma steady_tryCatch [intro!]:
  assumes "steady m" and "\<And>e. steady (h e)"
  shows "steady (tryCatch m h)"
proof (rule steadyI)
  fix w
  show "checkpoint_calls (snd (tryCatch m h w)) = checkpoint_calls w"
    using steady_calls [OF assms(1), of w] steady_calls [OF assms(2)]
    by (simp add: tryCatch_alt split: sum.splits)
next
  fix w1 w2
  assume "agree w1 w2"
  from steady_agree [OF assms(1) this] steady_agree [OF assms(2)]
  show "fst (tryCatch m h w1) = fst (tryCatch m h w2)
      \<and> agree (snd (tryCatch m h w1)) (snd (tryCatch m h w2))"
    by (auto simp: tryCatch_alt split: sum.splits)
qed

lemma steady_unawaited [intro!]: "steady m \<Longrightarrow> steady (unawaited m)"
  by (simp add: steady_def unawaited_def)

lemma steady_if [intro!]: "steady a \<Longrightarrow> steady b \<Longrightarrow> steady (if c then a else b)"
  by simp

lemma steady_read:
  assumes "\<And>w1 w2. agree w1 w2 \<Longrightarrow> g w1 = g w2" and "\<And>v. steady (f v)"
  shows "steady (\<lambda>w. f (g w) w)"
proof (rule steadyI)
  fix w
  show "checkpoint_calls (snd (f (g w) w)) = checkpoint_calls w"
    by (rule steady_calls [OF assms(2)])
next
  fix w1 w2
  assume a: "agree w1 w2"
  from steady_agree [OF assms(2) a, of "g w2"] assms(1) [OF a]
  show "fst (f (g w1) w1) = fst (f (g w2) w2) \<and> agree (snd (f (g w1) w1)) (snd (f (g w2) w2))"
    by simp
qed

lemma steady_case_option_read:
  assumes "\<And>w1 w2. agree w1 w2 \<Longrightarrow> g w1 = g w2" and "steady a" and "\<And>x. steady (b x)"
  shows "steady (\<lambda>w. case g w of None \<Rightarrow> a w | Some x \<Rightarrow> b x w)"
proof -
  have "(\<lambda>w. case g w of None \<Rightarrow> a w | Some x \<Rightarrow> b x w)
      = (\<lambda>w. (case g w of None \<Rightarrow> a | Some x \<Rightarrow> b x) w)"
    by (auto split: option.splits)
  moreover have "steady (\<lambda>w. (case g w of None \<Rightarrow> a | Some x \<Rightarrow> b x) w)"
    by (rule steady_read [of g "\<lambda>k. case k of None \<Rightarrow> a | Some x \<Rightarrow> b x"])
       (auto simp: assms split: option.splits)
  ultimately show ?thesis by simp
qed

lemma steady_if_read:
  assumes "\<And>w1 w2. agree w1 w2 \<Longrightarrow> c w1 = c w2" and "steady a" and "steady b"
  shows "steady (\<lambda>w. if c w then a w else b w)"
proof -
  have "steady (\<lambda>w. (if c w then a else b) w)"
    by (rule steady_read [of c "\<lambda>k. if k then a else b"]) (auto simp: assms)
  moreover have "(\<lambda>w. (if c w then a else b) w) = (\<lambda>w. if c w then a w else b w)"
    by auto
  ultimately show ?thesis by simp
qed

lemma steady_if_app: "steady a \<Longrightarrow> steady b \<Longrightarrow> steady (\<lambda>w. if c then a w else b w)"
  by (cases c) (simp_all add: steady_def)

lemma steady_update:
  assumes "\<And>w. checkpoint_calls (u w) = checkpoint_calls w" and "\<And>w1 w2. agree w1 w2 \<Longrightarrow> agree (u w1) (u w2)"
  shows "steady (\<lambda>w. (Inr (), u w))"
  using assms by (simp add: steady_def)

lemma steady_console_error:
  "l \<noteq> ''Failed to create automatic checkpoint:'' \<Longrightarrow> steady (console_error l e)"
  by (simp add: console_error_def steady_emit)

lemmas steady_unfold = steady_def checkpoint_calls_def agree_def

lemma steady_editor_prims [intro!, simp]:
  "steady (createModel v lang)"
  "steady (model_update i f)"
  "steady (model_dispose i)"
  "steady (model_setValue i v)"
  "steady (withEditor nm g)"
  "steady (editor_setModel i)"
  "steady (editor_updateOptions ro)"
  "steady (editor_restoreViewState vs)"
  "steady editor_saveViewState"
  "steady editor_focus"
  "steady chat_input_focus"
  "steady renderTabs"
  "steady editor_getSelection"
  "steady (editor_getValueInRange r)"
  "steady (editor_executeEdits r t)"
  by (auto simp: steady_unfold editor_defs model_at_def model_value_def chat_input_focus_def
        renderTabs_def editor_getSelection_def editor_getValueInRange_def editor_executeEdits_def
      split: option.splits)


lemma steady_saveActiveViewState [intro!, simp]: "steady saveActiveViewState"
  by (auto simp: steady_unfold saveActiveViewState_def monad_defs editor_defs split: option.splits)

lemma steady_switchTab [intro!, simp]: "steady (switchTab p f)"
  unfolding switchTab_def
  by (intro steady_thenE steady_bindE steady_saveActiveViewState allI)
     (auto simp: steady_unfold monad_defs editor_defs renderTabs_def split: option.splits)

lemma steady_disposeAndDelete [intro!, simp]: "steady (disposeAndDelete p)"
  by (auto simp: steady_unfold disposeAndDelete_def monad_defs editor_defs model_at_def
      split: option.splits)

lemma steady_clearEditor [intro!, simp]: "steady clearEditor"
  by (auto simp: steady_unfold clearEditor_def monad_defs editor_defs split: option.splits)

lemma steady_closeTab [intro!, simp]: "steady (closeTab p)"
  unfolding closeTab_def
  apply (intro steady_thenE steady_disposeAndDelete)
  apply (rule steady_if_read)
    apply (simp add: agree_def)
   apply (intro steady_thenE)
    apply (simp add: steady_unfold)
   apply (rule steady_case_option_read)
     apply (simp add: agree_def)
    apply (intro steady_thenE steady_clearEditor steady_editor_prims)
   apply (rule steady_if_app)
    apply (intro steady_unawaited steady_switchTab)
   apply (intro steady_thenE steady_clearEditor steady_editor_prims)
  apply (rule steady_editor_prims)
  done


lemma steady_when:
  assumes "\<And>w1 w2. agree w1 w2 \<Longrightarrow> c w1 = c w2" and "steady a"
  shows "steady (\<lambda>w. if c w then a w else (Inr (), w))"
proof -
  have "steady (\<lambda>w. if c w then a w else returnE () w)"
    by (rule steady_if_read [where c = c and a = a and b = "returnE ()"]) (auto simp: assms)
  then show ?thesis unfolding returnE_def .
qed

lemma steady_fs_prims [intro!, simp]:
  "steady (getFileHandleFromPath E root p c)"
  "steady (getFileHandleFromArg E root po c)"
  "steady (handle_getFile h)"
  "steady (handle_write h data)"
  "steady refreshFileTree"
  "steady (saveCodeIndex E idx)"
  "steady (getCodeIndex E)"
  "steady (setOpenValue p v)"
  by (auto simp: steady_unfold getFileHandleFromArg_def getFileHandleFromPath_def handle_getFile_def
        handle_write_def setOpenValue_def refreshFileTree_def saveCodeIndex_def getCodeIndex_def
        monad_defs editor_defs model_at_def map_has_def map_get_def
      split: option.splits)

lemma steady_ask:
  assumes "\<not> is_checkpoint_call ev" and "\<And>w1 w2. agree w1 w2 \<Longrightarrow> answer w1 = answer w2"
  shows "steady (ask ev answer)"
proof (rule steadyI)
  fix w
  show "checkpoint_calls (snd (ask ev answer w)) = checkpoint_calls w"
    using assms(1) by (simp add: monad_defs checkpoint_calls_def split: sum.splits)
next
  fix w1 w2
  assume a: "agree w1 w2"
  then have "agree (w1\<lparr>trace := trace w1 @ [ev]\<rparr>) (w2\<lparr>trace := trace w2 @ [ev]\<rparr>)"
    by (simp add: agree_def)
  from assms(2) [OF this] a
  show "fst (ask ev answer w1) = fst (ask ev answer w2)
      \<and> agree (snd (ask ev answer w1)) (snd (ask ev answer w2))"
    by (auto simp: monad_defs agree_def split: sum.splits)
qed

lemma steady_change_fs: "\<not> is_checkpoint_call ev \<Longrightarrow> steady (change_fs ev change)"
  by (auto simp: steady_unfold monad_defs split: sum.splits)

lemma steady_removeFile [intro!, simp]: "steady (removeFile E root p)"
  unfolding removeFile_def by (intro steady_bindE steady_fs_prims steady_change_fs allI) simp

lemma open_label: "''Failed to open file '' @ p @ '':'' \<noteq> ''Failed to create automatic checkpoint:''"
  by simp

lemma steady_openFile [intro!, simp]: "steady (openFile h p f)"
  unfolding openFile_def
  apply (rule steady_if_read)
    apply (simp add: agree_def)
   apply (rule steady_switchTab)
  apply (intro steady_tryCatch steady_bindE steady_thenE steady_fs_prims steady_editor_prims
      steady_switchTab steady_console_error open_label allI)
  apply (simp add: steady_unfold)
  done

lemma steady_tool_get_project_structure: "steady (tool_get_project_structure E)"
  unfolding tool_get_project_structure_def
  by (intro steady_bindE steady_returnE steady_ask allI) (simp_all add: agree_def)

lemma steady_tool_read_file: "steady (tool_read_file E a root)"
  unfolding tool_read_file_def
  by (intro steady_bindE steady_thenE steady_returnE steady_fs_prims steady_openFile
      steady_editor_prims allI)

lemma steady_tool_fetch: "steady (tool_fetch E endpoint a failure)"
  unfolding tool_fetch_def
  by (intro steady_bindE steady_if steady_returnE steady_throwE steady_ask allI) simp_all

lemma steady_tool_create_file: "steady (tool_create_file E a root)"
  unfolding tool_create_file_def
  by (intro steady_bindE steady_thenE steady_returnE steady_fs_prims steady_openFile
      steady_editor_prims allI)

lemma steady_tool_delete_file: "steady (tool_delete_file E a root)"
  unfolding tool_delete_file_def
  by (intro steady_thenE steady_returnE steady_removeFile steady_fs_prims steady_when
      steady_closeTab)
    (simp add: agree_def)

lemma steady_tool_delete_folder: "steady (tool_delete_folder E a)"
  unfolding tool_delete_folder_def
  by (intro steady_thenE steady_returnE steady_fs_prims steady_change_fs) simp

lemma steady_tool_rename_folder: "steady (tool_rename_folder E a)"
  unfolding tool_rename_folder_def
  by (intro steady_thenE steady_returnE steady_fs_prims steady_change_fs) simp

lemma steady_tool_create_folder: "steady (tool_create_folder E a)"
  unfolding tool_create_folder_def
  by (intro steady_thenE steady_returnE steady_fs_prims steady_change_fs) simp

lemma steady_tool_rename_file: "steady (tool_rename_file E a root)"
  unfolding tool_rename_file_def
  apply (intro steady_thenE steady_returnE steady_fs_prims steady_change_fs)
   apply simp
  apply (rule steady_when)
   apply (simp add: agree_def)
  apply (intro steady_thenE steady_bindE steady_closeTab steady_fs_prims steady_openFile
      steady_editor_prims allI)
  done

lemma steady_tool_search_code: "steady (tool_search_code E a)"
  unfolding tool_search_code_def
  by (intro steady_bindE steady_returnE steady_ask allI) (simp_all add: agree_def)

lemma steady_tool_get_open_file_content: "steady tool_get_open_file_content"
  by (auto simp: steady_unfold tool_get_open_file_content_def getActiveFile_def model_value_def
      model_at_def split: option.splits)

lemma steady_tool_get_selected_text: "steady tool_get_selected_text"
  unfolding tool_get_selected_text_def
  by (intro steady_bindE steady_editor_prims allI)
    (auto split: option.splits intro!: steady_bindE steady_editor_prims)

lemma steady_tool_replace_selected_text: "steady (tool_replace_selected_text a)"
  unfolding tool_replace_selected_text_def
  by (intro steady_bindE steady_editor_prims allI)
    (auto split: option.splits intro!: steady_thenE steady_editor_prims)

lemma steady_tool_run_terminal_command: "steady (tool_run_terminal_command E a)"
  unfolding tool_run_terminal_command_def
  by (intro steady_bindE steady_thenE steady_if steady_returnE steady_throwE steady_fs_prims
      steady_ask allI) simp_all

lemma steady_tool_build_or_update_codebase_index: "steady (tool_build_or_update_codebase_index E)"
  unfolding tool_build_or_update_codebase_index_def
  by (intro steady_bindE steady_thenE steady_returnE steady_fs_prims steady_ask steady_emit allI)
    (simp_all add: agree_def)

lemma steady_tool_query_codebase: "steady (tool_query_codebase E a)"
  unfolding tool_query_codebase_def
  by (intro steady_bindE steady_fs_prims allI)
    (auto split: option.splits intro!: steady_bindE steady_ask)

lemma steady_tool_get_file_history: "steady (tool_get_file_history E a)"
  unfolding tool_get_file_history_def Let_def
  by (intro steady_bindE steady_if steady_returnE steady_throwE steady_ask allI) simp_all

lemma steady_tool_rewrite_file: "steady (tool_rewrite_file E a root)"
  unfolding tool_rewrite_file_def
  by (intro steady_bindE steady_thenE steady_returnE steady_fs_prims steady_openFile
      steady_editor_prims allI)

lemma steady_tool_format_code: "steady (tool_format_code E a root)"
  unfolding tool_format_code_def
  by (intro steady_bindE steady_thenE steady_returnE steady_fs_prims steady_emit allI) simp

lemma steady_tool_analyze_code: "steady (tool_analyze_code E a root)"
  unfolding tool_analyze_code_def
  by (auto split: option.splits
      intro!: steady_bindE steady_fs_prims steady_ask steady_returnE steady_throwE)

lemma steady_tool_insert_content: "steady (tool_insert_content E a root)"
  unfolding tool_insert_content_def
  by (intro steady_bindE steady_thenE steady_returnE steady_fs_prims steady_openFile
      steady_editor_prims allI)

lemma steady_dispatch: "steady (dispatch E n a root)"
  unfolding dispatch_def
  by (intro steady_if steady_throwE steady_tool_get_project_structure steady_tool_read_file
      steady_tool_fetch steady_tool_create_file steady_tool_delete_file steady_tool_delete_folder
      steady_tool_rename_folder steady_tool_rename_file steady_tool_create_folder
      steady_tool_search_code steady_tool_get_open_file_content steady_tool_get_selected_text
      steady_tool_replace_selected_text steady_tool_run_terminal_command
      steady_tool_build_or_update_codebase_index steady_tool_query_codebase
      steady_tool_get_file_history steady_tool_rewrite_file steady_tool_format_code
      steady_tool_analyze_code steady_tool_insert_content)

lemma collaborators_dbFault [simp]:
  "getFileHandleFromPath (E\<lparr>dbFault := g\<rparr>) root p c = getFileHandleFromPath E root p c"
  "getFileHandleFromArg (E\<lparr>dbFault := g\<rparr>) root po c = getFileHandleFromArg E root po c"
  "removeFile (E\<lparr>dbFault := g\<rparr>) root po = removeFile E root po"
  "saveCodeIndex (E\<lparr>dbFault := g\<rparr>) idx = saveCodeIndex E idx"
  "getCodeIndex (E\<lparr>dbFault := g\<rparr>) = getCodeIndex E"
  by (simp_all add: getFileHandleFromPath_def getFileHandleFromArg_def removeFile_def
      saveCodeIndex_def getCodeIndex_def cong: if_cong option.case_cong)

lemma tools_dbFault [simp]:
  "tool_get_project_structure (E\<lparr>dbFault := g\<rparr>) = tool_get_project_structure E"
  "tool_read_file (E\<lparr>dbFault := g\<rparr>) a root = tool_read_file E a root"
  "tool_fetch (E\<lparr>dbFault := g\<rparr>) endpoint a failure = tool_fetch E endpoint a failure"
  "tool_create_file (E\<lparr>dbFault := g\<rparr>) a root = tool_create_file E a root"
  "tool_delete_file (E\<lparr>dbFault := g\<rparr>) a root = tool_delete_file E a root"
  "tool_delete_folder (E\<lparr>dbFault := g\<rparr>) a = tool_delete_folder E a"
  "tool_rename_folder (E\<lparr>dbFault := g\<rparr>) a = tool_rename_folder E a"
  "tool_rename_file (E\<lparr>dbFault := g\<rparr>) a root = tool_rename_file E a root"
  "tool_create_folder (E\<lparr>dbFault := g\<rparr>) a = tool_create_folder E a"
  "tool_search_code (E\<lparr>dbFault := g\<rparr>) a = tool_search_code E a"
  "tool_run_terminal_command (E\<lparr>dbFault := g\<rparr>) a = tool_run_terminal_command E a"
  "tool_build_or_update_codebase_index (E\<lparr>dbFault := g\<rparr>) = tool_build_or_update_codebase_index E"
  "tool_query_codebase (E\<lparr>dbFault := g\<rparr>) a = tool_query_codebase E a"
  "tool_get_file_history (E\<lparr>dbFault := g\<rparr>) a = tool_get_file_history E a"
  "tool_rewrite_file (E\<lparr>dbFault := g\<rparr>) a root = tool_rewrite_file E a root"
  "tool_format_code (E\<lparr>dbFault := g\<rparr>) a root = tool_format_code E a root"
  "tool_analyze_code (E\<lparr>dbFault := g\<rparr>) a root = tool_analyze_code E a root"
  "tool_insert_content (E\<lparr>dbFault := g\<rparr>) a root = tool_insert_content E a root"
  by (simp_all add: tool_get_project_structure_def tool_read_file_def tool_fetch_def
      tool_create_file_def tool_delete_file_def tool_delete_folder_def tool_rename_folder_def
      tool_rename_file_def tool_create_folder_def tool_search_code_def
      tool_run_terminal_command_def tool_build_or_update_codebase_index_def
      tool_query_codebase_def tool_get_file_history_def tool_rewrite_file_def
      tool_format_code_def tool_analyze_code_def tool_insert_content_def
      cong: if_cong option.case_cong)

lemma dispatch_dbFault: "dispatch (E\<lparr>dbFault := g\<rparr>) n a root = dispatch E n a root"
  by (simp add: dispatch_def)

lemma agree_refl [simp]: "agree w w"
  by (simp add: agree_def)

lemma agree_sym: "agree w1 w2 \<Longrightarrow> agree w2 w1"
  by (simp add: agree_def)

lemma agree_trans: "agree w1 w2 \<Longrightarrow> agree w2 w3 \<Longrightarrow> agree w1 w3"
  by (simp add: agree_def)

lemma triggers_need_root: "n \<in> set checkpoint_triggers \<Longrightarrow> n \<in> set root_required"
  by (auto simp: checkpoint_triggers_def root_required_def)

lemma getEditorState_initialised:
  assumes "editor w = Some e"
  obtains st w1 where "getEditorState w = (Inr st, w1)" and "trace w1 = trace w"
    and "checkpoints w1 = checkpoints w" and "(es_openFiles st = []) = (openFiles w = [])"
proof -
  have "\<exists>st w1. getEditorState w = (Inr st, w1) \<and> trace w1 = trace w
      \<and> checkpoints w1 = checkpoints w \<and> (es_openFiles st = []) = (openFiles w = [])"
    using assms
    by (auto simp: getEditorState_def saveActiveViewState_def monad_defs editor_defs map_update_def
        split: option.splits)
  then show ?thesis
    using that by blast
qed

lemma checkpointInterception_returns: "fst (checkpointInterception E n w) = Inr ()"
  by (auto simp: checkpointInterception_def monad_alt split: sum.splits)

lemma checkpointInterception_agree:
  "agree (snd (checkpointInterception E n w))
         (if n \<in> set checkpoint_triggers then snd (getEditorState w) else w)"
  by (cases "getEditorState w")
    (auto simp: checkpointInterception_def saveCheckpoint_def monad_defs agree_def
      split: sum.splits option.splits)

lemma checkpointInterception_calls:
  assumes "editor w = Some e"
  shows "checkpoint_calls (snd (checkpointInterception E n w))
     = checkpoint_calls w @
       (if n \<in> set checkpoint_triggers \<and> openFiles w \<noteq> []
        then SaveCheckpoint (auto_checkpoint E w)
             # (case dbFault E (auto_checkpoint E w) of
                  None \<Rightarrow> []
                | Some err \<Rightarrow> [ConsoleError ''Failed to create automatic checkpoint:'' (message err)])
        else [])"
proof -
  obtain st w1 where g: "getEditorState w = (Inr st, w1)" and t: "trace w1 = trace w"
    and o: "(es_openFiles st = []) = (openFiles w = [])"
    using getEditorState_initialised [OF assms] by metis
  show ?thesis
    using g t o
    by (auto simp: checkpointInterception_def saveCheckpoint_def auto_checkpoint_def monad_defs
        checkpoint_calls_def split: option.splits)
qed

lemma executeTool_run:
  "executeTool E tc root w =
     (if root = None \<and> tc_name tc \<in> set root_required
      then (Inr [(''error'', JStr no_project_message)], w)
      else dispatch E (tc_name tc) (tc_args tc) root (snd (checkpointInterception E (tc_name tc) w)))"
  using checkpointInterception_returns [of E "tc_name tc" w]
  by (simp add: executeTool_def thenE_alt returnE_def)

lemma executeTool_calls:
  assumes "editor w = Some e"
  shows "checkpoint_calls (snd (executeTool E tc root w))
     = checkpoint_calls w @
       (if tc_name tc \<in> set checkpoint_triggers \<and> root \<noteq> None \<and> openFiles w \<noteq> []
        then SaveCheckpoint (auto_checkpoint E w)
             # (case dbFault E (auto_checkpoint E w) of
                  None \<Rightarrow> []
                | Some err \<Rightarrow> [ConsoleError ''Failed to create automatic checkpoint:'' (message err)])
        else [])"
proof (cases "root = None \<and> tc_name tc \<in> set root_required")
  case True
  then show ?thesis by (simp add: executeTool_run)
next
  case False
  then have r: "tc_name tc \<in> set checkpoint_triggers \<Longrightarrow> root \<noteq> None"
    using triggers_need_root [of "tc_name tc"] by auto
  have "checkpoint_calls (snd (executeTool E tc root w))
      = checkpoint_calls (snd (checkpointInterception E (tc_name tc) w))"
    using False steady_calls [OF steady_dispatch [of E "tc_name tc" "tc_args tc" root]]
    by (auto simp: executeTool_run)
  with r show ?thesis
    by (auto simp: checkpointInterception_calls [OF assms])
qed

lemma executeTool_dbFault:
  "fst (executeTool (E\<lparr>dbFault := g\<rparr>) tc root w) = fst (executeTool E tc root w)
   \<and> agree (snd (executeTool (E\<lparr>dbFault := g\<rparr>) tc root w)) (snd (executeTool E tc root w))"
proof (cases "root = None \<and> tc_name tc \<in> set root_required")
  case True
  then show ?thesis by (simp add: executeTool_run)
next
  case False
  have "agree (snd (checkpointInterception (E\<lparr>dbFault := g\<rparr>) (tc_name tc) w))
              (snd (checkpointInterception E (tc_name tc) w))"
    using checkpointInterception_agree [of "E\<lparr>dbFault := g\<rparr>" "tc_name tc" w]
      checkpointInterception_agree [of E "tc_name tc" w]
    by (blast intro: agree_sym agree_trans)
  from steady_agree [OF steady_dispatch [of E "tc_name tc" "tc_args tc" root] this] False
  show ?thesis
    by (auto simp: executeTool_run dispatch_dbFault)
qed

lemma getEditorState_throws:
  assumes "fst (getEditorState w) = Inl err"
  shows "snd (getEditorState w) = w"
  using assms
  by (auto simp: getEditorState_def saveActiveViewState_def monad_defs editor_defs
      split: option.splits if_splits)

lemma checkpointInterception_building_fails:
  assumes "fst (getEditorState w) = Inl err" and "n \<in> set checkpoint_triggers"
  shows "checkpointInterception E n w
     = (Inr (), w\<lparr>trace := trace w
          @ [ConsoleError ''Failed to create automatic checkpoint:'' (message err)]\<rparr>)"
proof -
  from assms(1) getEditorState_throws [OF assms(1)] have "getEditorState w = (Inl err, w)"
    by (cases "getEditorState w") simp
  with assms(2) show ?thesis
    by (simp add: checkpointInterception_def monad_defs)
qed

text \<open>
  C5 (amended). With the editor initialised, the calls that the checkpoint interception
  makes during a tool call are: one call of \<^verbatim>\<open>saveCheckpoint\<close>, with the checkpoint built
  from the state of the editor, exactly when the name of the tool is in the trigger list,
  the project root is present (else the guard has answered before) and a document is
  open; and after it, when the store rejects the checkpoint, one console error with the
  message of the rejection. No other call of \<^verbatim>\<open>saveCheckpoint\<close> is made, by any tool. The
  interception never throws. Whatever the checkpoint store answers, the tool call has
  the same result and leaves the same file system, models, documents and editor. When
  building the checkpoint throws, the error is logged, nothing is saved, and the tool
  runs as it would have without the interception.
\<close>

theorem checkpoint_interception:
  "(editor w = Some e \<longrightarrow>
      checkpoint_calls (snd (executeTool E tc root w))
        = checkpoint_calls w @
          (if tc_name tc \<in> set checkpoint_triggers \<and> root \<noteq> None \<and> openFiles w \<noteq> []
           then SaveCheckpoint (auto_checkpoint E w)
                # (case dbFault E (auto_checkpoint E w) of
                     None \<Rightarrow> []
                   | Some err \<Rightarrow>
                       [ConsoleError ''Failed to create automatic checkpoint:'' (message err)])
           else []))
   \<and> fst (checkpointInterception E (tc_name tc) w) = Inr ()
   \<and> fst (executeTool (E\<lparr>dbFault := g\<rparr>) tc root w) = fst (executeTool E tc root w)
   \<and> agree (snd (executeTool (E\<lparr>dbFault := g\<rparr>) tc root w)) (snd (executeTool E tc root w))
   \<and> (fst (getEditorState w) = Inl err \<and> tc_name tc \<in> set checkpoint_triggers \<and> root \<noteq> None \<longrightarrow>
        checkpoint_calls (snd (executeTool E tc root w))
          = checkpoint_calls w @ [ConsoleError ''Failed to create automatic checkpoint:'' (message err)]
      \<and> fst (executeTool E tc root w) = fst (dispatch E (tc_name tc) (tc_args tc) root w)
      \<and> agree (snd (executeTool E tc root w)) (snd (dispatch E (tc_name tc) (tc_args tc) root w)))"
proof (intro conjI impI)
  assume "editor w = Some e"
  then show "checkpoint_calls (snd (executeTool E tc root w))
        = checkpoint_calls w @
          (if tc_name tc \<in> set checkpoint_triggers \<and> root \<noteq> None \<and> openFiles w \<noteq> []
           then SaveCheckpoint (auto_checkpoint E w)
                # (case dbFault E (auto_checkpoint E w) of
                     None \<Rightarrow> []
                   | Some err \<Rightarrow>
                       [ConsoleError ''Failed to create automatic checkpoint:'' (message err)])
           else [])"
    by (rule executeTool_calls)
next
  show "fst (checkpointInterception E (tc_name tc) w) = Inr ()"
    by (rule checkpointInterception_returns)
  show "fst (executeTool (E\<lparr>dbFault := g\<rparr>) tc root w) = fst (executeTool E tc root w)"
    and "agree (snd (executeTool (E\<lparr>dbFault := g\<rparr>) tc root w)) (snd (executeTool E tc root w))"
    using executeTool_dbFault [where E = E and g = g and tc = tc and root = root and w = w]
    by simp_all
next
  assume h: "fst (getEditorState w) = Inl err \<and> tc_name tc \<in> set checkpoint_triggers \<and> root \<noteq> None"
  define w1 where "w1 = w\<lparr>trace := trace w
      @ [ConsoleError ''Failed to create automatic checkpoint:'' (message err)]\<rparr>"
  from h have c: "checkpointInterception E (tc_name tc) w = (Inr (), w1)"
    unfolding w1_def by (intro checkpointInterception_building_fails) simp_all
  from h have run: "executeTool E tc root w = dispatch E (tc_name tc) (tc_args tc) root w1"
    by (auto simp: executeTool_run c)
  have a: "agree w1 w"
    by (simp add: w1_def agree_def)
  note s = steady_dispatch [of E "tc_name tc" "tc_args tc" root]
  show "checkpoint_calls (snd (executeTool E tc root w))
          = checkpoint_calls w @ [ConsoleError ''Failed to create automatic checkpoint:'' (message err)]"
    unfolding run steady_calls [OF s]
    by (simp add: w1_def checkpoint_calls_def)
  from steady_agree [OF s a]
  show "fst (executeTool E tc root w) = fst (dispatch E (tc_name tc) (tc_args tc) root w)"
    and "agree (snd (executeTool E tc root w)) (snd (dispatch E (tc_name tc) (tc_args tc) root w))"
    unfolding run by simp_all
qed

theorem checkpoint_interception_witness:
  "editor two_open = Some \<lparr>ed_model = 1, ed_readOnly = False, ed_view = 7, ed_selection = Some (0, 0)\<rparr>
   \<and> checkpoint_calls (snd (executeTool failing_db_env create_c (Some RootHandle) two_open))
       = [SaveCheckpoint
            \<lparr>cp_name = ''Auto-Checkpoint @ 1/1/1970, 12:00:00 AM'',
             cp_editorState =
               \<lparr>es_openFiles =
                  [\<lparr>snap_path = ''a.js'', snap_content = ''let a'', snap_viewState = Some 7\<rparr>,
                   \<lparr>snap_path = ''b.js'', snap_content = ''let b'', snap_viewState = Some 4\<rparr>],
                es_activeFile = Some ''a.js''\<rparr>,
             cp_timestamp = 0\<rparr>,
          ConsoleError ''Failed to create automatic checkpoint:'' ''QuotaExceededError'']
   \<and> checkpoint_calls (snd (executeTool quiet_env (tool_call ''read_file'' (no_args\<lparr>filename := Some ''a.js''\<rparr>))
                               (Some RootHandle) two_open))
       = []
   \<and> fst (executeTool failing_db_env create_c (Some RootHandle) two_open)
       = fst (executeTool quiet_env create_c (Some RootHandle) two_open)
   \<and> agree (snd (executeTool failing_db_env create_c (Some RootHandle) two_open))
            (snd (executeTool quiet_env create_c (Some RootHandle) two_open))
   \<and> fst (getEditorState (two_open\<lparr>editor := None\<rparr>)) = Inl (undefined_read ''saveViewState'')
   \<and> tc_name create_c \<in> set checkpoint_triggers
   \<and> Some RootHandle \<noteq> None
   \<and> checkpoint_calls (snd (executeTool quiet_env create_c (Some RootHandle) (two_open\<lparr>editor := None\<rparr>)))
       = [ConsoleError ''Failed to create automatic checkpoint:''
            (message (undefined_read ''saveViewState''))]"
proof -
  have e: "editor two_open = Some \<lparr>ed_model = 1, ed_readOnly = False, ed_view = 7, ed_selection = Some (0, 0)\<rparr>"
    by (simp add: two_open_def)
  have n: "tc_name create_c = ''create_file''"
    by (simp add: create_c_def tool_call_def)
  have t: "tc_name create_c \<in> set checkpoint_triggers"
    by (simp add: n checkpoint_triggers_def)
  have o: "openFiles two_open \<noteq> []" and c0: "checkpoint_calls two_open = []"
    by (simp_all add: two_open_def checkpoint_calls_def)
  have cp: "auto_checkpoint E two_open
      = \<lparr>cp_name = ''Auto-Checkpoint @ '' @ dateLocaleString E,
         cp_editorState =
           \<lparr>es_openFiles =
              [\<lparr>snap_path = ''a.js'', snap_content = ''let a'', snap_viewState = Some 7\<rparr>,
               \<lparr>snap_path = ''b.js'', snap_content = ''let b'', snap_viewState = Some 4\<rparr>],
            es_activeFile = Some ''a.js''\<rparr>,
         cp_timestamp = dateNow E\<rparr>" for E
    by (simp add: auto_checkpoint_def getEditorState_def saveActiveViewState_def monad_defs
        editor_defs two_open_def truthy_def map_has_def map_update_def model_value_def model_at_def)
  have f: "quiet_env\<lparr>dbFault := (\<lambda>c. Some (Err ''QuotaExceededError''))\<rparr> = failing_db_env"
    by (simp add: failing_db_env_def)
  have b: "fst (getEditorState (two_open\<lparr>editor := None\<rparr>)) = Inl (undefined_read ''saveViewState'')"
    by (simp add: getEditorState_def saveActiveViewState_def monad_defs
        editor_defs two_open_def truthy_def map_has_def)
  have c1: "checkpoint_calls (two_open\<lparr>editor := None\<rparr>) = []"
    by (simp add: two_open_def checkpoint_calls_def)
  note A = checkpoint_interception [where w = two_open and E = failing_db_env and tc = create_c
      and root = "Some RootHandle"
      and e = "\<lparr>ed_model = 1, ed_readOnly = False, ed_view = 7, ed_selection = Some (0, 0)\<rparr>"]
  note B = checkpoint_interception [where w = two_open and E = quiet_env
      and tc = "tool_call ''read_file'' (no_args\<lparr>filename := Some ''a.js''\<rparr>)"
      and root = "Some RootHandle"
      and e = "\<lparr>ed_model = 1, ed_readOnly = False, ed_view = 7, ed_selection = Some (0, 0)\<rparr>"]
  note C = checkpoint_interception [where w = two_open and E = quiet_env and tc = create_c
      and root = "Some RootHandle" and g = "\<lambda>c. Some (Err ''QuotaExceededError'')"]
  note D = checkpoint_interception [where w = "two_open\<lparr>editor := None\<rparr>" and E = quiet_env
      and tc = create_c and root = "Some RootHandle" and err = "undefined_read ''saveViewState''"]
  have t1: "checkpoint_calls (snd (executeTool failing_db_env create_c (Some RootHandle) two_open))
       = [SaveCheckpoint
            \<lparr>cp_name = ''Auto-Checkpoint @ 1/1/1970, 12:00:00 AM'',
             cp_editorState =
               \<lparr>es_openFiles =
                  [\<lparr>snap_path = ''a.js'', snap_content = ''let a'', snap_viewState = Some 7\<rparr>,
                   \<lparr>snap_path = ''b.js'', snap_content = ''let b'', snap_viewState = Some 4\<rparr>],
                es_activeFile = Some ''a.js''\<rparr>,
             cp_timestamp = 0\<rparr>,
          ConsoleError ''Failed to create automatic checkpoint:'' ''QuotaExceededError'']"
    using mp [OF conjunct1 [OF A] e] t o
    by (simp add: c0 cp) (simp add: failing_db_env_def quiet_env_def)
  have t2: "checkpoint_calls (snd (executeTool quiet_env (tool_call ''read_file'' (no_args\<lparr>filename := Some ''a.js''\<rparr>))
                               (Some RootHandle) two_open)) = []"
    using mp [OF conjunct1 [OF B] e]
    by (simp add: c0 tool_call_def checkpoint_triggers_def)
  have t3: "fst (executeTool failing_db_env create_c (Some RootHandle) two_open)
       = fst (executeTool quiet_env create_c (Some RootHandle) two_open)"
    and t4: "agree (snd (executeTool failing_db_env create_c (Some RootHandle) two_open))
            (snd (executeTool quiet_env create_c (Some RootHandle) two_open))"
    using C unfolding f by simp_all
  have t5: "checkpoint_calls (snd (executeTool quiet_env create_c (Some RootHandle) (two_open\<lparr>editor := None\<rparr>)))
       = [ConsoleError ''Failed to create automatic checkpoint:''
            (message (undefined_read ''saveViewState''))]"
    using D b t by (simp add: c1)
  have r: "Some RootHandle \<noteq> None"
    by simp
  show ?thesis
    by (insert e t1 t2 t3 t4 b t r t5, intro conjI, assumption+)
qed

text \<open>
  The claim as stated fails: with a tool of the trigger list and two documents open, but
  no project root, the guard answers first and no checkpoint save is attempted.
\<close>

theorem no_checkpoint_without_root:
  "tc_name create_c \<in> set checkpoint_triggers
   \<and> length (openFiles two_open) = 2
   \<and> checkpoint_calls (snd (executeTool failing_db_env create_c None two_open)) = []
   \<and> trace (snd (executeTool failing_db_env create_c None two_open)) = []"
  by (simp add: executeTool_def create_c_def tool_call_def checkpoint_triggers_def
      root_required_def returnE_def checkpoint_calls_def two_open_def)

end
